theory Spec2Isabelle
  imports Main "HOL-Library.Word"
begin

unbundle bit_operations_syntax

section \<open>The handle layer of \<^verbatim>\<open>src/lmdb/cpython.c\<close>\<close>

text \<open>
  A shallow embedding of the CPython extension module \<^verbatim>\<open>lmdb.cpython\<close>: the
  invalidation tree (\<^verbatim>\<open>link_child\<close>, \<^verbatim>\<open>unlink_child\<close>, \<^verbatim>\<open>invalidate\<close>), the four
  handle kinds with their \<^verbatim>\<open>tp_clear\<close> routines, and the public methods of
  Environment, Transaction, Cursor and Iterator.

  \<^item> Objects live in an explicit store (address to object); a C pointer is a
    \<open>nat option\<close>, \<open>None\<close> being \<^verbatim>\<open>NULL\<close>.
  \<^item> The storage engine (\<^verbatim>\<open>lmdb.h\<close>, not part of \<^verbatim>\<open>src/\<close>) is a parameter: a function
    from an engine call and an engine state to a reply and a new engine state. Every
    call made is appended to a trace together with its reply, so that what was passed
    to the engine, how often, and what came back can be stated.
  \<^item> A method returns \<open>Inr\<close> of a Python value, or \<open>Inl\<close> of the exception it set.
  \<^item> The model follows the \<^verbatim>\<open>PY_MAJOR_VERSION >= 3\<close> branches of the source.
  \<^item> Reference counting, \<^verbatim>\<open>tp_dealloc\<close> and failure of the host allocator are not
    modelled; an engine call bracketed by \<^verbatim>\<open>UNLOCKED\<close> and a direct one are the same here.
\<close>

subsection \<open>Values of the host runtime\<close>

type_synonym bytes = string

text \<open>
  The exceptions of the module. \<^verbatim>\<open>err_set\<close> and \<^verbatim>\<open>err_invalid\<close> both raise
  \<^verbatim>\<open>lmdb.Error\<close>; they are kept apart by what they format. \<open>HostError\<close> is any
  exception raised by the host runtime itself (a buffer conversion, an iterator),
  \<open>NullResult\<close> a \<^verbatim>\<open>NULL\<close> return with no exception set, \<open>SystemError\<close> a result that
  is returned while an exception is set, which the host turns into its \<^verbatim>\<open>SystemError\<close>,
  and \<open>Segfault\<close> marks a dereference of \<^verbatim>\<open>NULL\<close> or of an address that holds no
  object of the expected type: no exception, the C code has no defined behaviour there.
\<close>

datatype error =
    InvalidHandle
  | EngineError string int
  | TypeError string
  | OSError string
  | HostError
  | NullResult
  | SystemError
  | Segfault

text \<open>
  The positioning modes of \<^verbatim>\<open>mdb_cursor_get\<close> that the module uses, and the
  \<^verbatim>\<open>IterObject\<close> struct. Its \<^verbatim>\<open>val_func\<close> is a pointer to one of three functions.
\<close>

datatype MDB_cursor_op =
  MDB_FIRST | MDB_LAST | MDB_NEXT | MDB_PREV | MDB_SET_KEY | MDB_SET_RANGE | MDB_GET_CURRENT

datatype val_func = Cursor_key | Cursor_value | Cursor_item

record IterObject =
  it_curs :: nat
  started :: bool
  it_op :: MDB_cursor_op
  val_func :: val_func

text \<open>
  Python values, as far as the module looks into them. \<open>PyUnicode u\<close> is the \<^verbatim>\<open>str\<close>
  whose code points are \<open>u\<close>, \<open>PyBuffer b\<close> an object that exports the buffer \<open>b\<close>
  without being \<^verbatim>\<open>bytes\<close>. \<open>PyGenerator xs e\<close> is an
  iterable that yields \<open>xs\<close> and then stops (\<open>e = None\<close>) or raises \<open>e\<close>;
  \<open>PyHandle a\<close> is the handle object stored at address \<open>a\<close>, \<open>PyIterator it\<close>
  an iterator object in the state \<open>it\<close>.
\<close>

datatype pyobj =
    Py_None
  | Py_True
  | Py_False
  | PyBytes bytes
  | PyUnicode "nat list"
  | PyBuffer bytes
  | PyLong nat
  | PyTuple "pyobj list"
  | PyList "pyobj list"
  | PyDict "(pyobj \<times> pyobj) list"
  | PyGenerator "pyobj list" "error option"
  | PyHandle nat
  | PyIterator IterObject

type_synonym 'a marshalled = "error + 'a"

subsection \<open>The engine boundary\<close>

datatype mdb_call =
    Mdb_env_create
  | Mdb_env_set_mapsize "nat option" nat
  | Mdb_env_set_maxreaders "nat option" nat
  | Mdb_env_set_maxdbs "nat option" nat
  | Sys_stat string
  | Sys_mkdir string nat
  | Mdb_env_open "nat option" string "32 word" nat
  | Mdb_env_close "nat option"
  | Mdb_env_info "nat option"
  | Mdb_env_stat "nat option"
  | Mdb_env_sync "nat option" bool
  | Mdb_env_get_path "nat option"
  | Mdb_txn_begin "nat option" "nat option" "32 word"
  | Mdb_txn_commit "nat option"
  | Mdb_txn_abort "nat option"
  | Mdb_dbi_open "nat option" "string option" "32 word"
  | Mdb_drop "nat option" nat bool
  | Mdb_get "nat option" nat bytes
  | Mdb_put "nat option" nat bytes bytes "32 word"
  | Mdb_del "nat option" nat bytes "bytes option"
  | Mdb_cursor_open "nat option" nat
  | Mdb_cursor_close "nat option"
  | Mdb_cursor_get "nat option" bytes bytes MDB_cursor_op
  | Mdb_cursor_put "nat option" bytes bytes "32 word"
  | Mdb_cursor_del "nat option" "32 word"
  | Mdb_cursor_count "nat option"

record mdb_reply =
  rc :: int
  out_ptr :: "nat option"
  out_dbi :: nat
  out_key :: bytes
  out_val :: bytes
  out_count :: nat
  out_fields :: "nat list"
  out_path :: string

text \<open>
  What the module takes from \<^verbatim>\<open>lmdb.h\<close> and \<^verbatim>\<open>errno.h\<close>, neither of which is under
  \<^verbatim>\<open>src/\<close>: the flag bits, the status codes, and the engine itself.
\<close>

record 'e lmdb =
  MDB_NODUPDATA :: "32 word"
  MDB_NOOVERWRITE :: "32 word"
  MDB_APPEND :: "32 word"
  MDB_RDONLY :: "32 word"
  MDB_NOTLS :: "32 word"
  MDB_NOSUBDIR :: "32 word"
  MDB_NOMETASYNC :: "32 word"
  MDB_NOSYNC :: "32 word"
  MDB_MAPASYNC :: "32 word"
  MDB_WRITEMAP :: "32 word"
  MDB_REVERSEKEY :: "32 word"
  MDB_DUPSORT :: "32 word"
  MDB_CREATE :: "32 word"
  MDB_NOTFOUND :: int
  MDB_KEYEXIST :: int
  EINVAL :: int
  ENOENT :: int
  mdb :: "mdb_call \<Rightarrow> 'e \<Rightarrow> mdb_reply \<times> 'e"

subsection \<open>Objects and the store\<close>

record EnvObject =
  env :: "nat option"
  main_db :: "nat option"
  readonly :: bool

record DbObject =
  d_env :: "nat option"
  dbi :: nat

record TransObject =
  t_env :: "nat option"
  txn :: "nat option"
  buffers :: bool
  t_key_buf :: "bytes option"

record CursorObject =
  trans :: "nat option"
  positioned :: bool
  curs :: "nat option"
  key_buf :: "bytes option"
  val_buf :: "bytes option"
  item_tup :: "(bytes \<times> bytes) option"
  key :: bytes
  val :: bytes

datatype body =
    Env EnvObject
  | Db DbObject
  | Trans TransObject
  | Cursor CursorObject

text \<open>\<^verbatim>\<open>LmdbObject_HEAD\<close>, followed by the fields of the concrete struct.\<close>

record lmdb_object =
  siblings_prev :: "nat option"
  siblings_next :: "nat option"
  children_prev :: "nat option"
  children_next :: "nat option"
  valid :: bool
  body :: body

record 'e world =
  heap :: "nat \<Rightarrow> lmdb_object option"
  next_addr :: nat
  engine :: 'e
  trace :: "(mdb_call \<times> mdb_reply) list"

type_synonym 'e outcome = "(error + pyobj) \<times> 'e world"

definition UNLOCKED :: "'e lmdb \<Rightarrow> mdb_call \<Rightarrow> 'e world \<Rightarrow> mdb_reply \<times> 'e world" where
  "UNLOCKED X c s =
     (case mdb X c (engine s) of
        (r, e') \<Rightarrow> (r, s\<lparr>engine := e', trace := trace s @ [(c, r)]\<rparr>))"

definition OBJECT_INIT :: "body \<Rightarrow> lmdb_object" where
  "OBJECT_INIT b =
     \<lparr>siblings_prev = None, siblings_next = None,
      children_prev = None, children_next = None, valid = True, body = b\<rparr>"

definition get_env :: "'e world \<Rightarrow> nat \<Rightarrow> (lmdb_object \<times> EnvObject) option" where
  "get_env s a =
     (case heap s a of
        Some ob \<Rightarrow> (case body ob of Env e \<Rightarrow> Some (ob, e) | _ \<Rightarrow> None)
      | None \<Rightarrow> None)"

definition get_db :: "'e world \<Rightarrow> nat \<Rightarrow> (lmdb_object \<times> DbObject) option" where
  "get_db s a =
     (case heap s a of
        Some ob \<Rightarrow> (case body ob of Db d \<Rightarrow> Some (ob, d) | _ \<Rightarrow> None)
      | None \<Rightarrow> None)"

definition get_trans :: "'e world \<Rightarrow> nat \<Rightarrow> (lmdb_object \<times> TransObject) option" where
  "get_trans s a =
     (case heap s a of
        Some ob \<Rightarrow> (case body ob of Trans t \<Rightarrow> Some (ob, t) | _ \<Rightarrow> None)
      | None \<Rightarrow> None)"

definition get_cursor :: "'e world \<Rightarrow> nat \<Rightarrow> (lmdb_object \<times> CursorObject) option" where
  "get_cursor s a =
     (case heap s a of
        Some ob \<Rightarrow> (case body ob of Cursor c \<Rightarrow> Some (ob, c) | _ \<Rightarrow> None)
      | None \<Rightarrow> None)"

text \<open>\<^verbatim>\<open>p->dbi\<close> for a \<^verbatim>\<open>DbObject *p\<close>.\<close>

definition db_dbi :: "'e world \<Rightarrow> nat option \<Rightarrow> nat option" where
  "db_dbi s p =
     (case p of
        None \<Rightarrow> None
      | Some a \<Rightarrow> (case get_db s a of Some (_, d) \<Rightarrow> Some (dbi d) | None \<Rightarrow> None))"

subsection \<open>Helpers\<close>

text \<open>
  The two conversions of the host between \<^verbatim>\<open>str\<close> and UTF-8.
  \<^verbatim>\<open>PyUnicode_AsUTF8AndSize\<close> encodes the code points one by one and fails on a
  surrogate; \<^verbatim>\<open>PyUnicode_FromString\<close> decodes a C string, which ends at its first zero
  byte, and fails on a sequence that is not well formed.
\<close>

definition utf8_of_code_point :: "nat \<Rightarrow> bytes option" where
  "utf8_of_code_point c =
     (if c < 0x80 then Some [char_of c]
      else if c < 0x800 then Some [char_of (0xC0 + c div 64), char_of (0x80 + c mod 64)]
      else if 0xD800 \<le> c \<and> c < 0xE000 then None
      else if c < 0x10000
      then Some [char_of (0xE0 + c div 4096), char_of (0x80 + c div 64 mod 64),
                 char_of (0x80 + c mod 64)]
      else if c < 0x110000
      then Some [char_of (0xF0 + c div 262144), char_of (0x80 + c div 4096 mod 64),
                 char_of (0x80 + c div 64 mod 64), char_of (0x80 + c mod 64)]
      else None)"

fun PyUnicode_AsUTF8AndSize :: "nat list \<Rightarrow> bytes option" where
  "PyUnicode_AsUTF8AndSize [] = Some []"
| "PyUnicode_AsUTF8AndSize (c # cs) =
     (case utf8_of_code_point c of
        None \<Rightarrow> None
      | Some b \<Rightarrow>
          (case PyUnicode_AsUTF8AndSize cs of None \<Rightarrow> None | Some bs \<Rightarrow> Some (b @ bs)))"

definition utf8_cont :: "nat \<Rightarrow> bool" where
  "utf8_cont b = (0x80 \<le> b \<and> b < 0xC0)"

fun utf8_decode :: "nat list \<Rightarrow> nat list option" where
  "utf8_decode [] = Some []"
| "utf8_decode [b0] = (if b0 < 0x80 then Some [b0] else None)"
| "utf8_decode [b0, b1] =
     (if b0 < 0x80 then map_option ((#) b0) (utf8_decode [b1])
      else if 0xC0 \<le> b0 \<and> b0 < 0xE0 \<and> utf8_cont b1 \<and> 0x80 \<le> (b0 - 0xC0) * 64 + (b1 - 0x80)
      then Some [(b0 - 0xC0) * 64 + (b1 - 0x80)]
      else None)"
| "utf8_decode [b0, b1, b2] =
     (if b0 < 0x80 then map_option ((#) b0) (utf8_decode [b1, b2])
      else if 0xC0 \<le> b0 \<and> b0 < 0xE0 \<and> utf8_cont b1 \<and> 0x80 \<le> (b0 - 0xC0) * 64 + (b1 - 0x80)
      then map_option ((#) ((b0 - 0xC0) * 64 + (b1 - 0x80))) (utf8_decode [b2])
      else if 0xE0 \<le> b0 \<and> b0 < 0xF0 \<and> utf8_cont b1 \<and> utf8_cont b2 \<and>
              0x800 \<le> (b0 - 0xE0) * 4096 + (b1 - 0x80) * 64 + (b2 - 0x80) \<and>
              \<not> (0xD800 \<le> (b0 - 0xE0) * 4096 + (b1 - 0x80) * 64 + (b2 - 0x80) \<and>
                 (b0 - 0xE0) * 4096 + (b1 - 0x80) * 64 + (b2 - 0x80) < 0xE000)
      then Some [(b0 - 0xE0) * 4096 + (b1 - 0x80) * 64 + (b2 - 0x80)]
      else None)"
| "utf8_decode (b0 # b1 # b2 # b3 # bs) =
     (if b0 < 0x80 then map_option ((#) b0) (utf8_decode (b1 # b2 # b3 # bs))
      else if 0xC0 \<le> b0 \<and> b0 < 0xE0 \<and> utf8_cont b1 \<and> 0x80 \<le> (b0 - 0xC0) * 64 + (b1 - 0x80)
      then map_option ((#) ((b0 - 0xC0) * 64 + (b1 - 0x80))) (utf8_decode (b2 # b3 # bs))
      else if 0xE0 \<le> b0 \<and> b0 < 0xF0 \<and> utf8_cont b1 \<and> utf8_cont b2 \<and>
              0x800 \<le> (b0 - 0xE0) * 4096 + (b1 - 0x80) * 64 + (b2 - 0x80) \<and>
              \<not> (0xD800 \<le> (b0 - 0xE0) * 4096 + (b1 - 0x80) * 64 + (b2 - 0x80) \<and>
                 (b0 - 0xE0) * 4096 + (b1 - 0x80) * 64 + (b2 - 0x80) < 0xE000)
      then map_option ((#) ((b0 - 0xE0) * 4096 + (b1 - 0x80) * 64 + (b2 - 0x80)))
             (utf8_decode (b3 # bs))
      else if 0xF0 \<le> b0 \<and> b0 < 0xF8 \<and> utf8_cont b1 \<and> utf8_cont b2 \<and> utf8_cont b3 \<and>
              0x10000 \<le> (b0 - 0xF0) * 262144 + (b1 - 0x80) * 4096 + (b2 - 0x80) * 64 + (b3 - 0x80) \<and>
              (b0 - 0xF0) * 262144 + (b1 - 0x80) * 4096 + (b2 - 0x80) * 64 + (b3 - 0x80) < 0x110000
      then map_option
             ((#) ((b0 - 0xF0) * 262144 + (b1 - 0x80) * 4096 + (b2 - 0x80) * 64 + (b3 - 0x80)))
             (utf8_decode bs)
      else None)"

definition PyUnicode_FromString :: "string \<Rightarrow> error + pyobj" where
  "PyUnicode_FromString p =
     (case utf8_decode (map of_char (takeWhile (\<lambda>c. c \<noteq> CHR 0x00) p)) of
        None \<Rightarrow> Inl HostError
      | Some u \<Rightarrow> Inr (PyUnicode u))"

fun val_from_buffer :: "pyobj \<Rightarrow> error + bytes" where
  "val_from_buffer (PyBytes b) = Inr b"
| "val_from_buffer (PyUnicode u) =
     (case PyUnicode_AsUTF8AndSize u of None \<Rightarrow> Inl HostError | Some b \<Rightarrow> Inr b)"
| "val_from_buffer (PyBuffer b) = Inr b"
| "val_from_buffer _ = Inl HostError"

text \<open>
  \<^verbatim>\<open>parse_args\<close>: the handle's \<^verbatim>\<open>valid\<close> flag is tested before anything else. The walk
  over positional and keyword arguments is the marshalling layer: its outcome is the
  second argument, either the exception the walk raised or the fields the caller
  supplied (\<open>None\<close> for a field that was left out or passed as \<^verbatim>\<open>None\<close>).
\<close>

definition parse_args :: "bool \<Rightarrow> 'a marshalled \<Rightarrow> 'a marshalled" where
  "parse_args vld a = (if \<not> vld then Inl InvalidHandle else a)"

text \<open>A word between single quotes, for the messages that quote one.\<close>

definition quoted :: "string \<Rightarrow> string" where
  "quoted w = CHR 0x27 # w @ [CHR 0x27]"

definition or_default :: "'a \<Rightarrow> 'a option \<Rightarrow> 'a" where
  "or_default d x = (case x of None \<Rightarrow> d | Some v \<Rightarrow> v)"

text \<open>\<^verbatim>\<open>mv_size\<close> of an \<^verbatim>\<open>MDB_val\<close> whose \<^verbatim>\<open>mv_data\<close> may be \<^verbatim>\<open>NULL\<close>.\<close>

definition mv_size :: "bytes option \<Rightarrow> nat" where
  "mv_size v = (case v of None \<Rightarrow> 0 | Some b \<Rightarrow> length b)"

definition mv_bytes :: "bytes option \<Rightarrow> bytes" where
  "mv_bytes v = (case v of None \<Rightarrow> [] | Some b \<Rightarrow> b)"

subsection \<open>The invalidation tree\<close>

text \<open>
  Field reads and writes through an address. An address that holds no object reads as
  \<^verbatim>\<open>NULL\<close> and drops the write; the constructors below never store such an address.
\<close>

definition rd :: "(lmdb_object \<Rightarrow> 'a option) \<Rightarrow> 'e world \<Rightarrow> nat \<Rightarrow> 'a option" where
  "rd f s a = (case heap s a of None \<Rightarrow> None | Some ob \<Rightarrow> f ob)"

definition upd :: "nat \<Rightarrow> (lmdb_object \<Rightarrow> lmdb_object) \<Rightarrow> 'e world \<Rightarrow> 'e world" where
  "upd a f s = (case heap s a of None \<Rightarrow> s | Some ob \<Rightarrow> s\<lparr>heap := (heap s)(a \<mapsto> f ob)\<rparr>)"

definition env_fld :: "(EnvObject \<Rightarrow> 'a option) \<Rightarrow> 'e world \<Rightarrow> nat \<Rightarrow> 'a option" where
  "env_fld f s a = (case get_env s a of Some (_, e) \<Rightarrow> f e | None \<Rightarrow> None)"

definition trans_fld :: "(TransObject \<Rightarrow> 'a option) \<Rightarrow> 'e world \<Rightarrow> nat \<Rightarrow> 'a option" where
  "trans_fld f s a = (case get_trans s a of Some (_, t) \<Rightarrow> f t | None \<Rightarrow> None)"

definition cursor_fld :: "(CursorObject \<Rightarrow> 'a option) \<Rightarrow> 'e world \<Rightarrow> nat \<Rightarrow> 'a option" where
  "cursor_fld f s a = (case get_cursor s a of Some (_, c) \<Rightarrow> f c | None \<Rightarrow> None)"

definition map_env :: "(EnvObject \<Rightarrow> EnvObject) \<Rightarrow> lmdb_object \<Rightarrow> lmdb_object" where
  "map_env f ob = (case body ob of Env e \<Rightarrow> ob\<lparr>body := Env (f e)\<rparr> | _ \<Rightarrow> ob)"

definition map_db :: "(DbObject \<Rightarrow> DbObject) \<Rightarrow> lmdb_object \<Rightarrow> lmdb_object" where
  "map_db f ob = (case body ob of Db d \<Rightarrow> ob\<lparr>body := Db (f d)\<rparr> | _ \<Rightarrow> ob)"

definition map_trans :: "(TransObject \<Rightarrow> TransObject) \<Rightarrow> lmdb_object \<Rightarrow> lmdb_object" where
  "map_trans f ob = (case body ob of Trans t \<Rightarrow> ob\<lparr>body := Trans (f t)\<rparr> | _ \<Rightarrow> ob)"

definition map_cursor :: "(CursorObject \<Rightarrow> CursorObject) \<Rightarrow> lmdb_object \<Rightarrow> lmdb_object" where
  "map_cursor f ob = (case body ob of Cursor c \<Rightarrow> ob\<lparr>body := Cursor (f c)\<rparr> | _ \<Rightarrow> ob)"

definition link_child :: "nat \<Rightarrow> nat \<Rightarrow> 'e world \<Rightarrow> 'e world" where
  "link_child parent child s =
     (let sibling = rd children_next s parent;
          s = (case sibling of
                 Some sib \<Rightarrow>
                   upd sib (\<lambda>ob. ob\<lparr>siblings_prev := Some child\<rparr>)
                     (upd child (\<lambda>ob. ob\<lparr>siblings_next := Some sib\<rparr>) s)
               | None \<Rightarrow> s)
      in upd parent (\<lambda>ob. ob\<lparr>children_next := Some child\<rparr>) s)"

definition unlink_child :: "nat option \<Rightarrow> nat \<Rightarrow> 'e world \<Rightarrow> 'e world" where
  "unlink_child parent child s =
     (case parent of
        None \<Rightarrow> s
      | Some p \<Rightarrow>
          (let prv = rd siblings_prev s child;
               nxt = rd siblings_next s child;
               s = (case prv of
                      Some pr \<Rightarrow> upd pr (\<lambda>ob. ob\<lparr>siblings_next := nxt\<rparr>) s
                    | None \<Rightarrow>
                        if rd children_next s p = Some child
                        then upd p (\<lambda>ob. ob\<lparr>children_next := nxt\<rparr>) s
                        else s);
               s = (case nxt of
                      Some n \<Rightarrow> upd n (\<lambda>ob. ob\<lparr>siblings_prev := prv\<rparr>) s
                    | None \<Rightarrow> s)
           in upd child (\<lambda>ob. ob\<lparr>siblings_prev := None, siblings_next := None\<rparr>) s))"

definition db_clear :: "nat \<Rightarrow> 'e world \<Rightarrow> 'e world" where
  "db_clear self s =
     (let s = (case get_db s self of
                 Some (_, d) \<Rightarrow>
                   (case d_env d of
                      Some e \<Rightarrow>
                        upd self (map_db (\<lambda>d. d\<lparr>d_env := None\<rparr>)) (unlink_child (Some e) self s)
                    | None \<Rightarrow> s)
               | None \<Rightarrow> s)
      in upd self (\<lambda>ob. ob\<lparr>valid := False\<rparr>) s)"

text \<open>
  \<^verbatim>\<open>invalidate\<close> walks the children of a handle and calls each child's \<^verbatim>\<open>tp_clear\<close>,
  which walks the child's own children in turn. The store is a pointer graph, so
  nothing bounds the walk: it runs on fuel, and \<open>None\<close> is a walk that has not
  returned within it. \<open>invalidate_loop\<close> is the \<^verbatim>\<open>while(child)\<close> loop of
  \<^verbatim>\<open>invalidate\<close>, with the \<^verbatim>\<open>tp_clear\<close> slot it calls as its first argument.
\<close>

primrec invalidate_loop ::
  "(nat \<Rightarrow> 'e world \<Rightarrow> 'e world option) \<Rightarrow> nat \<Rightarrow> nat option \<Rightarrow> 'e world \<Rightarrow> 'e world option" where
  "invalidate_loop clear 0 child s = (case child of None \<Rightarrow> Some s | Some c \<Rightarrow> None)"
| "invalidate_loop clear (Suc k) child s =
     (case child of
        None \<Rightarrow> Some s
      | Some c \<Rightarrow>
          (let nxt = rd siblings_next s c
           in case clear c s of
                None \<Rightarrow> None
              | Some s' \<Rightarrow> invalidate_loop clear k nxt s'))"

text \<open>
  The three \<^verbatim>\<open>tp_clear\<close> routines that call \<^verbatim>\<open>INVALIDATE(self)\<close>, which is their first
  argument here; the recursion is tied below.
\<close>

definition env_clear_with ::
  "(nat \<Rightarrow> 'e world \<Rightarrow> 'e world option) \<Rightarrow> 'e lmdb \<Rightarrow> nat \<Rightarrow> 'e world \<Rightarrow> 'e world option" where
  "env_clear_with INVALIDATE X self s =
     (case (if env_fld env s self \<noteq> None
            then (case INVALIDATE self s of
                    None \<Rightarrow> None
                  | Some s1 \<Rightarrow>
                      Some (upd self (map_env (\<lambda>e. e\<lparr>env := None\<rparr>))
                             (snd (UNLOCKED X (Mdb_env_close (env_fld env s1 self)) s1))))
            else Some s) of
        None \<Rightarrow> None
      | Some s2 \<Rightarrow> Some (upd self (map_env (\<lambda>e. e\<lparr>main_db := None\<rparr>)) s2))"

definition cursor_clear_with ::
  "(nat \<Rightarrow> 'e world \<Rightarrow> 'e world option) \<Rightarrow> 'e lmdb \<Rightarrow> nat \<Rightarrow> 'e world \<Rightarrow> 'e world option" where
  "cursor_clear_with INVALIDATE X self s =
     (case (if rd (\<lambda>ob. Some (valid ob)) s self = Some True
            then (case INVALIDATE self s of
                    None \<Rightarrow> None
                  | Some s1 \<Rightarrow>
                      (let s1 = unlink_child (cursor_fld trans s1 self) self s1;
                           s1 = snd (UNLOCKED X (Mdb_cursor_close (cursor_fld curs s1 self)) s1)
                       in Some (upd self (\<lambda>ob. ob\<lparr>valid := False\<rparr>) s1)))
            else Some s) of
        None \<Rightarrow> None
      | Some s2 \<Rightarrow>
          Some (upd self
                 (map_cursor (\<lambda>c. c\<lparr>key_buf := None, val_buf := None,
                                     item_tup := None, trans := None\<rparr>)) s2))"

definition trans_clear_with ::
  "(nat \<Rightarrow> 'e world \<Rightarrow> 'e world option) \<Rightarrow> 'e lmdb \<Rightarrow> nat \<Rightarrow> 'e world \<Rightarrow> 'e world option" where
  "trans_clear_with INVALIDATE X self s =
     (case (if rd (\<lambda>ob. Some (valid ob)) s self = Some True
            then (case INVALIDATE self s of
                    None \<Rightarrow> None
                  | Some s1 \<Rightarrow>
                      (let s1 = (if trans_fld txn s1 self \<noteq> None
                                 then upd self (map_trans (\<lambda>t. t\<lparr>txn := None\<rparr>))
                                        (snd (UNLOCKED X (Mdb_txn_abort (trans_fld txn s1 self)) s1))
                                 else s1)
                       in Some (upd self (\<lambda>ob. ob\<lparr>valid := False\<rparr>) s1)))
            else Some s) of
        None \<Rightarrow> None
      | Some s2 \<Rightarrow>
          Some (upd self (map_trans (\<lambda>t. t\<lparr>t_env := None\<rparr>))
                 (unlink_child (trans_fld t_env s2 self) self s2)))"

text \<open>
  \<^verbatim>\<open>Py_TYPE(child)->tp_clear(child)\<close>: the dispatch on the type of the object. One unit
  of fuel is spent at each level of nesting, and the loop over a list of children
  runs at most as many iterations as the fuel left.
\<close>

primrec tp_clear :: "'e lmdb \<Rightarrow> nat \<Rightarrow> nat \<Rightarrow> 'e world \<Rightarrow> 'e world option" where
  "tp_clear X 0 = (\<lambda>a s. None)"
| "tp_clear X (Suc n) =
     (\<lambda>a s.
        let INVALIDATE = (\<lambda>parent s. invalidate_loop (tp_clear X n) n (rd children_next s parent) s)
        in case heap s a of
             None \<Rightarrow> Some s
           | Some ob \<Rightarrow>
               (case body ob of
                  Env _ \<Rightarrow> env_clear_with INVALIDATE X a s
                | Db _ \<Rightarrow> Some (db_clear a s)
                | Trans _ \<Rightarrow> trans_clear_with INVALIDATE X a s
                | Cursor _ \<Rightarrow> cursor_clear_with INVALIDATE X a s))"

definition invalidate :: "'e lmdb \<Rightarrow> nat \<Rightarrow> nat \<Rightarrow> 'e world \<Rightarrow> 'e world option" where
  "invalidate X n parent s = invalidate_loop (tp_clear X n) n (rd children_next s parent) s"

definition env_clear :: "'e lmdb \<Rightarrow> nat \<Rightarrow> nat \<Rightarrow> 'e world \<Rightarrow> 'e world option" where
  "env_clear X n = env_clear_with (invalidate X n) X"

definition cursor_clear :: "'e lmdb \<Rightarrow> nat \<Rightarrow> nat \<Rightarrow> 'e world \<Rightarrow> 'e world option" where
  "cursor_clear X n = cursor_clear_with (invalidate X n) X"

definition trans_clear :: "'e lmdb \<Rightarrow> nat \<Rightarrow> nat \<Rightarrow> 'e world \<Rightarrow> 'e world option" where
  "trans_clear X n = trans_clear_with (invalidate X n) X"

text \<open>
  \<^verbatim>\<open>buffer_from_val\<close> on the \<^verbatim>\<open>key_buf\<close> slot of a transaction: the view object is
  made on first use and then pointed at the engine's bytes. The slot is given by the
  address of the transaction that holds it.
\<close>

definition buffer_from_val :: "nat option \<Rightarrow> bytes \<Rightarrow> 'e world \<Rightarrow> (error + pyobj) \<times> 'e world" where
  "buffer_from_val bptr v s =
     (case bptr of
        None \<Rightarrow> (Inl Segfault, s)
      | Some a \<Rightarrow> (Inr (PyBuffer v), upd a (map_trans (\<lambda>t. t\<lparr>t_key_buf := Some v\<rparr>)) s))"

subsection \<open>Functionality shared between Transaction and Environment\<close>

record get_args =
  g_key :: "bytes option"
  g_default :: "pyobj option"
  g_db :: "nat option"

definition generic_get ::
  "'e lmdb \<Rightarrow> bool \<Rightarrow> nat option \<Rightarrow> nat option \<Rightarrow> bool \<Rightarrow> nat option \<Rightarrow>
   get_args marshalled \<Rightarrow> 'e world \<Rightarrow> (error + pyobj) \<times> 'e world" where
  "generic_get X vld tx db bufs bptr a s =
     (case parse_args vld a of
        Inl e \<Rightarrow> (Inl e, s)
      | Inr arg \<Rightarrow>
          (case g_key arg of
             None \<Rightarrow> (Inl (TypeError ''key must be given.''), s)
           | Some k \<Rightarrow>
               (case db_dbi s (case g_db arg of None \<Rightarrow> db | Some d \<Rightarrow> Some d) of
                  None \<Rightarrow> (Inl Segfault, s)
                | Some di \<Rightarrow>
                    (case UNLOCKED X (Mdb_get tx di k) s of
                       (r, s') \<Rightarrow>
                         if rc r \<noteq> 0 then
                           (if rc r = MDB_NOTFOUND X
                            then (Inr (or_default Py_None (g_default arg)), s')
                            else (Inl (EngineError ''mdb_get'' (rc r)), s'))
                         else if bufs then buffer_from_val bptr (out_val r) s'
                         else (Inr (PyBytes (out_val r)), s')))))"

record put_args =
  p_key :: "bytes option"
  p_value :: "bytes option"
  p_dupdata :: "bool option"
  p_overwrite :: "bool option"
  p_append :: "bool option"
  p_db :: "nat option"

definition generic_put ::
  "'e lmdb \<Rightarrow> bool \<Rightarrow> nat option \<Rightarrow> nat option \<Rightarrow> put_args marshalled \<Rightarrow>
   'e world \<Rightarrow> (error + pyobj) \<times> 'e world" where
  "generic_put X vld tx db a s =
     (case parse_args vld a of
        Inl e \<Rightarrow> (Inl e, s)
      | Inr arg \<Rightarrow>
          (let dupdata = or_default False (p_dupdata arg);
               overwrite = or_default True (p_overwrite arg);
               append = or_default False (p_append arg);
               flags = 0;
               flags = (if \<not> dupdata then flags OR MDB_NODUPDATA X else flags);
               flags = (if \<not> overwrite then flags OR MDB_NOOVERWRITE X else flags);
               flags = (if append then flags OR MDB_APPEND X else flags)
           in case db_dbi s (case p_db arg of None \<Rightarrow> db | Some d \<Rightarrow> Some d) of
                None \<Rightarrow> (Inl Segfault, s)
              | Some di \<Rightarrow>
                  (case UNLOCKED X
                          (Mdb_put tx di (mv_bytes (p_key arg)) (mv_bytes (p_value arg)) flags) s of
                     (r, s') \<Rightarrow>
                       if rc r \<noteq> 0 then
                         (if rc r = MDB_KEYEXIST X then (Inr Py_False, s')
                          else (Inl (EngineError ''mdb_put'' (rc r)), s'))
                       else (Inr Py_True, s'))))"

record delete_args =
  d_key :: "bytes option"
  d_value :: "bytes option"
  d_db :: "nat option"

definition generic_delete ::
  "'e lmdb \<Rightarrow> bool \<Rightarrow> nat option \<Rightarrow> nat option \<Rightarrow> delete_args marshalled \<Rightarrow>
   'e world \<Rightarrow> (error + pyobj) \<times> 'e world" where
  "generic_delete X vld tx db a s =
     (case parse_args vld a of
        Inl e \<Rightarrow> (Inl e, s)
      | Inr arg \<Rightarrow>
          (let val_ptr = (if mv_size (d_value arg) \<noteq> 0 then d_value arg else None)
           in case db_dbi s (case d_db arg of None \<Rightarrow> db | Some d \<Rightarrow> Some d) of
                None \<Rightarrow> (Inl Segfault, s)
              | Some di \<Rightarrow>
                  (case UNLOCKED X (Mdb_del tx di (mv_bytes (d_key arg)) val_ptr) s of
                     (r, s') \<Rightarrow>
                       if rc r \<noteq> 0 then
                         (if rc r = MDB_NOTFOUND X then (Inr Py_False, s')
                          else (Inl (EngineError ''mdb_del'' (rc r)), s'))
                       else (Inr Py_True, s'))))"

subsection \<open>Allocation\<close>

text \<open>
  \<^verbatim>\<open>PyObject_New\<close> followed by the initialisation of the fields: a fresh address is taken
  from a counter. Where the source allocates, calls the engine and frees the object
  again on failure, the model allocates after the engine call has succeeded.
  \<^verbatim>\<open>PyObject_Del\<close> removes the object from the store.
\<close>

definition PyObject_New :: "lmdb_object \<Rightarrow> 'e world \<Rightarrow> nat \<times> 'e world" where
  "PyObject_New ob s =
     (next_addr s, s\<lparr>heap := (heap s)(next_addr s \<mapsto> ob), next_addr := Suc (next_addr s)\<rparr>)"

definition PyObject_Del :: "nat \<Rightarrow> 'e world \<Rightarrow> 'e world" where
  "PyObject_Del a s = s\<lparr>heap := (heap s)(a := None)\<rparr>"

subsection \<open>Transactions and cursors are made here\<close>

definition make_trans ::
  "'e lmdb \<Rightarrow> nat \<Rightarrow> nat option \<Rightarrow> bool \<Rightarrow> bool \<Rightarrow> 'e world \<Rightarrow> (error + pyobj) \<times> 'e world" where
  "make_trans X e parent write bufs s =
     (case get_env s e of
        None \<Rightarrow> (Inl Segfault, s)
      | Some (eo, ev) \<Rightarrow>
          if \<not> valid eo then (Inl InvalidHandle, s)
          else
            (case (case parent of
                     None \<Rightarrow> Inr None
                   | Some p \<Rightarrow>
                       (case get_trans s p of
                          None \<Rightarrow> Inl Segfault
                        | Some (po, pt) \<Rightarrow>
                            if \<not> valid po then Inl InvalidHandle else Inr (txn pt))) of
               Inl err \<Rightarrow> (Inl err, s)
             | Inr parent_txn \<Rightarrow>
                 if write \<and> readonly ev
                 then (Inl (EngineError ''Cannot start write transaction with read-only env'' 0), s)
                 else
                   (let flags = (if write \<and> \<not> readonly ev then 0 else MDB_RDONLY X)
                    in case UNLOCKED X (Mdb_txn_begin (env ev) parent_txn flags) s of
                         (r, s1) \<Rightarrow>
                           if rc r \<noteq> 0 then (Inl (EngineError ''mdb_txn_begin'' (rc r)), s1)
                           else
                             (case PyObject_New
                                     (OBJECT_INIT
                                        (Trans \<lparr>t_env = None, txn = out_ptr r,
                                                buffers = False, t_key_buf = None\<rparr>)) s1 of
                                (self, s2) \<Rightarrow>
                                  (Inr (PyHandle self),
                                   upd self
                                     (map_trans
                                        (\<lambda>t. t\<lparr>t_env := Some e, buffers := bufs,
                                               t_key_buf := None\<rparr>))
                                     (link_child e self s2))))))"

definition make_cursor ::
  "'e lmdb \<Rightarrow> nat option \<Rightarrow> nat \<Rightarrow> 'e world \<Rightarrow> (error + pyobj) \<times> 'e world" where
  "make_cursor X db tr s =
     (case get_trans s tr of
        None \<Rightarrow> (Inl Segfault, s)
      | Some (tob, t) \<Rightarrow>
          if \<not> valid tob then (Inl InvalidHandle, s)
          else
            (case (case db of
                     Some d \<Rightarrow> Inr (Some d)
                   | None \<Rightarrow>
                       (case t_env t of
                          None \<Rightarrow> Inl Segfault
                        | Some e \<Rightarrow>
                            (case get_env s e of
                               None \<Rightarrow> Inl Segfault
                             | Some (_, ev) \<Rightarrow> Inr (main_db ev)))) of
               Inl err \<Rightarrow> (Inl err, s)
             | Inr db \<Rightarrow>
                 (case db_dbi s db of
                    None \<Rightarrow> (Inl Segfault, s)
                  | Some di \<Rightarrow>
                      (case UNLOCKED X (Mdb_cursor_open (txn t) di) s of
                         (r, s1) \<Rightarrow>
                           if rc r \<noteq> 0 then (Inl (EngineError ''mdb_cursor_open'' (rc r)), s1)
                           else
                             (case PyObject_New
                                     (OBJECT_INIT
                                        (Cursor \<lparr>trans = None, positioned = False,
                                                 curs = out_ptr r, key_buf = None,
                                                 val_buf = None, item_tup = None,
                                                 key = [], val = []\<rparr>)) s1 of
                                (self, s2) \<Rightarrow>
                                  (Inr (PyHandle self),
                                   upd self (map_cursor (\<lambda>c. c\<lparr>trans := Some tr\<rparr>))
                                     (link_child tr self s2)))))))"

subsection \<open>Database\<close>

definition db_from_name ::
  "'e lmdb \<Rightarrow> nat \<Rightarrow> nat option \<Rightarrow> string option \<Rightarrow> 32 word \<Rightarrow> 'e world \<Rightarrow>
   (error + nat) \<times> 'e world" where
  "db_from_name X e tx name flags s =
     (case UNLOCKED X (Mdb_dbi_open tx name flags) s of
        (r, s1) \<Rightarrow>
          if rc r \<noteq> 0 then (Inl (EngineError ''mdb_dbi_open'' (rc r)), s1)
          else
            (case PyObject_New (OBJECT_INIT (Db \<lparr>d_env = None, dbi = out_dbi r\<rparr>)) s1 of
               (dbo, s2) \<Rightarrow>
                 (Inr dbo, upd dbo (map_db (\<lambda>d. d\<lparr>d_env := Some e\<rparr>)) (link_child e dbo s2))))"

text \<open>\<^verbatim>\<open>db_dealloc\<close>, reached when the last reference to a database is dropped.\<close>

definition db_dealloc :: "nat \<Rightarrow> 'e world \<Rightarrow> 'e world" where
  "db_dealloc self s = PyObject_Del self (db_clear self s)"

definition txn_db_from_name ::
  "'e lmdb \<Rightarrow> nat \<Rightarrow> string option \<Rightarrow> 32 word \<Rightarrow> 'e world \<Rightarrow> (error + nat) \<times> 'e world" where
  "txn_db_from_name X e name flags s =
     (let begin_flags =
            (if name = None \<or> env_fld (\<lambda>ev. Some (readonly ev)) s e = Some True
             then MDB_RDONLY X else 0)
      in case UNLOCKED X (Mdb_txn_begin (env_fld env s e) None begin_flags) s of
           (r, s1) \<Rightarrow>
             if rc r \<noteq> 0 then (Inl (EngineError ''mdb_txn_begin'' (rc r)), s1)
             else
               (case db_from_name X e (out_ptr r) name flags s1 of
                  (Inl err, s2) \<Rightarrow> (Inl err, snd (UNLOCKED X (Mdb_txn_abort (out_ptr r)) s2))
                | (Inr dbo, s2) \<Rightarrow>
                    (case UNLOCKED X (Mdb_txn_commit (out_ptr r)) s2 of
                       (r2, s3) \<Rightarrow>
                         if rc r2 \<noteq> 0
                         then (Inl (EngineError ''mdb_txn_commit'' (rc r2)), db_dealloc dbo s3)
                         else (Inr dbo, s3))))"

subsection \<open>Environment\<close>

text \<open>
  \<^verbatim>\<open>env_dealloc\<close> is modelled where the source itself drops a handle it has just made:
  the handle has no children yet, so the walk of \<^verbatim>\<open>INVALIDATE\<close> is empty and needs no
  fuel.
\<close>

definition env_dealloc :: "'e lmdb \<Rightarrow> nat \<Rightarrow> 'e world \<Rightarrow> 'e world" where
  "env_dealloc X self s =
     PyObject_Del self (case env_clear X 0 self s of Some s' \<Rightarrow> s' | None \<Rightarrow> s)"

definition trans_dealloc :: "'e lmdb \<Rightarrow> nat \<Rightarrow> 'e world \<Rightarrow> 'e world" where
  "trans_dealloc X self s =
     PyObject_Del self (case trans_clear X 0 self s of Some s' \<Rightarrow> s' | None \<Rightarrow> s)"

record new_args =
  n_path :: "string option"
  n_map_size :: "nat option"
  n_subdir :: "bool option"
  n_readonly :: "bool option"
  n_metasync :: "bool option"
  n_sync :: "bool option"
  n_map_async :: "bool option"
  n_mode :: "nat option"
  n_create :: "bool option"
  n_writemap :: "bool option"
  n_max_readers :: "nat option"
  n_max_dbs :: "nat option"

text \<open>The part of \<^verbatim>\<open>env_new\<close> from \<^verbatim>\<open>mdb_env_open\<close> on.\<close>

definition env_new_open ::
  "'e lmdb \<Rightarrow> nat \<Rightarrow> string \<Rightarrow> new_args \<Rightarrow> 'e world \<Rightarrow> (error + pyobj) \<times> 'e world" where
  "env_new_open X self path arg s =
     (let flags = MDB_NOTLS X;
          flags = (if \<not> or_default True (n_subdir arg) then flags OR MDB_NOSUBDIR X else flags);
          flags = (if or_default False (n_readonly arg) then flags OR MDB_RDONLY X else flags);
          s = upd self (map_env (\<lambda>e. e\<lparr>readonly := or_default False (n_readonly arg)\<rparr>)) s;
          flags = (if \<not> or_default True (n_metasync arg) then flags OR MDB_NOMETASYNC X else flags);
          flags = (if \<not> or_default True (n_sync arg) then flags OR MDB_NOSYNC X else flags);
          flags = (if or_default False (n_map_async arg) then flags OR MDB_MAPASYNC X else flags);
          flags = (if or_default False (n_writemap arg) then flags OR MDB_WRITEMAP X else flags)
      in case UNLOCKED X
                (Mdb_env_open (env_fld env s self) path flags (or_default 420 (n_mode arg))) s of
           (r, s1) \<Rightarrow>
             if rc r \<noteq> 0 then (Inl (EngineError path (rc r)), env_dealloc X self s1)
             else
               (case txn_db_from_name X self None 0 s1 of
                  (Inr dbo, s2) \<Rightarrow>
                    (Inr (PyHandle self),
                     upd self (\<lambda>ob. ob\<lparr>valid := True\<rparr>)
                       (upd self (map_env (\<lambda>e. e\<lparr>main_db := Some dbo\<rparr>)) s2))
                | (Inl err, s2) \<Rightarrow> (Inl err, env_dealloc X self s2)))"

definition env_new :: "'e lmdb \<Rightarrow> new_args marshalled \<Rightarrow> 'e world \<Rightarrow> (error + pyobj) \<times> 'e world" where
  "env_new X a s =
     (case parse_args True a of
        Inl e \<Rightarrow> (Inl e, s)
      | Inr arg \<Rightarrow>
          (case n_path arg of
             None \<Rightarrow> (Inl (TypeError (quoted ''path'' @ '' argument required'')), s)
           | Some path \<Rightarrow>
               (case PyObject_New
                       (OBJECT_INIT (Env \<lparr>env = None, main_db = None, readonly = False\<rparr>)) s of
                  (self, s) \<Rightarrow>
                    (case UNLOCKED X Mdb_env_create s of
                       (r, s) \<Rightarrow>
                         (let s = upd self (map_env (\<lambda>e. e\<lparr>env := out_ptr r\<rparr>)) s
                          in if rc r \<noteq> 0
                             then (Inl (EngineError ''mdb_env_create'' (rc r)), env_dealloc X self s)
                             else
                               (case UNLOCKED X
                                       (Mdb_env_set_mapsize (env_fld env s self)
                                          (or_default 10485760 (n_map_size arg))) s of
                                  (r, s) \<Rightarrow>
                                    if rc r \<noteq> 0
                                    then (Inl (EngineError ''mdb_env_set_mapsize'' (rc r)),
                                          env_dealloc X self s)
                                    else
                                      (case UNLOCKED X
                                              (Mdb_env_set_maxreaders (env_fld env s self)
                                                 (or_default 126 (n_max_readers arg))) s of
                                         (r, s) \<Rightarrow>
                                           if rc r \<noteq> 0
                                           then (Inl (EngineError ''mdb_env_set_maxreaders'' (rc r)),
                                                 env_dealloc X self s)
                                           else
                                             (case UNLOCKED X
                                                     (Mdb_env_set_maxdbs (env_fld env s self)
                                                        (or_default 0 (n_max_dbs arg))) s of
                                                (r, s) \<Rightarrow>
                                                  if rc r \<noteq> 0
                                                  then (Inl (EngineError ''mdb_env_set_maxdbs'' (rc r)),
                                                        env_dealloc X self s)
                                                  else if or_default True (n_create arg) \<and>
                                                          or_default True (n_subdir arg)
                                                  then
                                                    (case UNLOCKED X (Sys_stat path) s of
                                                       (r, s) \<Rightarrow>
                                                         if rc r = ENOENT X
                                                         then
                                                           (case UNLOCKED X (Sys_mkdir path 448) s of
                                                              (r, s) \<Rightarrow>
                                                                if rc r \<noteq> 0
                                                                then (Inl (OSError path),
                                                                      env_dealloc X self s)
                                                                else env_new_open X self path arg s)
                                                         else env_new_open X self path arg s)
                                                  else env_new_open X self path arg s))))))))"

record begin_args =
  b_buffers :: "bool option"
  b_write :: "bool option"
  b_parent :: "nat option"

definition env_begin ::
  "'e lmdb \<Rightarrow> nat \<Rightarrow> begin_args marshalled \<Rightarrow> 'e world \<Rightarrow> (error + pyobj) \<times> 'e world" where
  "env_begin X self a s =
     (case get_env s self of
        None \<Rightarrow> (Inl Segfault, s)
      | Some (ob, _) \<Rightarrow>
          (case parse_args (valid ob) a of
             Inl e \<Rightarrow> (Inl e, s)
           | Inr arg \<Rightarrow>
               make_trans X self (b_parent arg) (or_default False (b_write arg))
                 (or_default False (b_buffers arg)) s))"

definition env_close :: "'e lmdb \<Rightarrow> nat \<Rightarrow> nat \<Rightarrow> 'e world \<Rightarrow> ((error + pyobj) \<times> 'e world) option" where
  "env_close X n self s =
     (case get_env s self of
        None \<Rightarrow> Some (Inl Segfault, s)
      | Some (ob, _) \<Rightarrow>
          if valid ob
          then (case invalidate X n self s of
                  None \<Rightarrow> None
                | Some s1 \<Rightarrow>
                    (let s1 = upd self (\<lambda>ob. ob\<lparr>valid := False\<rparr>) s1;
                         s1 = snd (UNLOCKED X (Mdb_env_close (env_fld env s1 self)) s1)
                     in Some (Inr Py_None, upd self (map_env (\<lambda>e. e\<lparr>env := None\<rparr>)) s1)))
          else Some (Inr Py_None, s))"

definition env_copy ::
  "'e lmdb \<Rightarrow> nat \<Rightarrow> pyobj option marshalled \<Rightarrow> 'e world \<Rightarrow> (error + pyobj) \<times> 'e world" where
  "env_copy X self a s =
     (case get_env s self of
        None \<Rightarrow> (Inl Segfault, s)
      | Some (ob, _) \<Rightarrow>
          if \<not> valid ob then (Inl InvalidHandle, s)
          else (case a of Inl e \<Rightarrow> (Inl e, s) | Inr path \<Rightarrow> (Inl NullResult, s)))"

definition dict_from_fields :: "string list \<Rightarrow> nat list \<Rightarrow> pyobj" where
  "dict_from_fields names vals =
     PyDict (zip (map (\<lambda>name. PyUnicode (map of_char name)) names) (map PyLong vals))"

definition env_info :: "'e lmdb \<Rightarrow> nat \<Rightarrow> 'e world \<Rightarrow> (error + pyobj) \<times> 'e world" where
  "env_info X self s =
     (case get_env s self of
        None \<Rightarrow> (Inl Segfault, s)
      | Some (ob, e) \<Rightarrow>
          if \<not> valid ob then (Inl InvalidHandle, s)
          else
            (case UNLOCKED X (Mdb_env_info (env e)) s of
               (r, s1) \<Rightarrow>
                 if rc r \<noteq> 0 then (Inl (EngineError ''mdb_env_info'' (rc r)), s1)
                 else (Inr (dict_from_fields
                              [''map_addr'', ''map_size'', ''last_pgno'', ''last_txnid'',
                               ''max_readers'', ''num_readers''] (out_fields r)), s1)))"

record open_db_args =
  o_name :: "string option"
  o_txn :: "nat option"
  o_reverse_key :: "bool option"
  o_dupsort :: "bool option"
  o_create :: "bool option"

definition env_open_db ::
  "'e lmdb \<Rightarrow> nat \<Rightarrow> open_db_args marshalled \<Rightarrow> 'e world \<Rightarrow> (error + pyobj) \<times> 'e world" where
  "env_open_db X self a s =
     (case parse_args True a of
        Inl e \<Rightarrow> (Inl e, s)
      | Inr arg \<Rightarrow>
          (let flags = 0;
               flags = (if or_default False (o_reverse_key arg) then flags OR MDB_REVERSEKEY X else flags);
               flags = (if or_default False (o_dupsort arg) then flags OR MDB_DUPSORT X else flags);
               flags = (if or_default True (o_create arg) then flags OR MDB_CREATE X else flags)
           in case (case o_txn arg of
                      Some t \<Rightarrow>
                        (case get_trans s t of
                           None \<Rightarrow> (Inl Segfault, s)
                         | Some (_, tv) \<Rightarrow> db_from_name X self (txn tv) (o_name arg) flags s)
                    | None \<Rightarrow> txn_db_from_name X self (o_name arg) flags s) of
                (Inl err, s1) \<Rightarrow> (Inl err, s1)
              | (Inr dbo, s1) \<Rightarrow> (Inr (PyHandle dbo), s1)))"

definition env_path :: "'e lmdb \<Rightarrow> nat \<Rightarrow> 'e world \<Rightarrow> (error + pyobj) \<times> 'e world" where
  "env_path X self s =
     (case get_env s self of
        None \<Rightarrow> (Inl Segfault, s)
      | Some (ob, e) \<Rightarrow>
          if \<not> valid ob then (Inl InvalidHandle, s)
          else
            (case UNLOCKED X (Mdb_env_get_path (env e)) s of
               (r, s1) \<Rightarrow>
                 if rc r \<noteq> 0 then (Inl (EngineError ''mdb_env_get_path'' (rc r)), s1)
                 else (PyUnicode_FromString (out_path r), s1)))"

definition env_stat :: "'e lmdb \<Rightarrow> nat \<Rightarrow> 'e world \<Rightarrow> (error + pyobj) \<times> 'e world" where
  "env_stat X self s =
     (case get_env s self of
        None \<Rightarrow> (Inl Segfault, s)
      | Some (ob, e) \<Rightarrow>
          if \<not> valid ob then (Inl InvalidHandle, s)
          else
            (case UNLOCKED X (Mdb_env_stat (env e)) s of
               (r, s1) \<Rightarrow>
                 if rc r \<noteq> 0 then (Inl (EngineError ''mdb_env_stat'' (rc r)), s1)
                 else (Inr (dict_from_fields
                              [''psize'', ''depth'', ''branch_pages'', ''leaf_pages'',
                               ''overflow_pages'', ''entries''] (out_fields r)), s1)))"

definition env_sync ::
  "'e lmdb \<Rightarrow> nat \<Rightarrow> bool option marshalled \<Rightarrow> 'e world \<Rightarrow> (error + pyobj) \<times> 'e world" where
  "env_sync X self a s =
     (case get_env s self of
        None \<Rightarrow> (Inl Segfault, s)
      | Some (ob, e) \<Rightarrow>
          (case parse_args (valid ob) a of
             Inl err \<Rightarrow> (Inl err, s)
           | Inr force \<Rightarrow>
               (case UNLOCKED X (Mdb_env_sync (env e) (or_default False force)) s of
                  (r, s1) \<Rightarrow>
                    if rc r \<noteq> 0 then (Inl (EngineError ''mdb_env_sync'' (rc r)), s1)
                    else (Inr Py_None, s1))))"

definition env_get ::
  "'e lmdb \<Rightarrow> nat \<Rightarrow> get_args marshalled \<Rightarrow> 'e world \<Rightarrow> (error + pyobj) \<times> 'e world" where
  "env_get X self a s =
     (case get_env s self of
        None \<Rightarrow> (Inl Segfault, s)
      | Some (ob, e) \<Rightarrow>
          if \<not> valid ob then (Inl InvalidHandle, s)
          else
            (case UNLOCKED X (Mdb_txn_begin (env e) None (MDB_RDONLY X)) s of
               (r, s1) \<Rightarrow>
                 if rc r \<noteq> 0 then (Inl (EngineError ''mdb_txn_begin'' (rc r)), s1)
                 else
                   (case generic_get X True (out_ptr r) (main_db e) False None a s1 of
                      (ret, s2) \<Rightarrow> (ret, snd (UNLOCKED X (Mdb_txn_abort (out_ptr r)) s2)))))"

definition env_put ::
  "'e lmdb \<Rightarrow> nat \<Rightarrow> put_args marshalled \<Rightarrow> 'e world \<Rightarrow> (error + pyobj) \<times> 'e world" where
  "env_put X self a s =
     (case get_env s self of
        None \<Rightarrow> (Inl Segfault, s)
      | Some (ob, e) \<Rightarrow>
          if \<not> valid ob then (Inl InvalidHandle, s)
          else
            (case UNLOCKED X (Mdb_txn_begin (env e) None 0) s of
               (r, s1) \<Rightarrow>
                 if rc r \<noteq> 0 then (Inl (EngineError ''mdb_txn_begin'' (rc r)), s1)
                 else
                   (case generic_put X True (out_ptr r) (main_db e) a s1 of
                      (Inr ret, s2) \<Rightarrow>
                        (case UNLOCKED X (Mdb_txn_commit (out_ptr r)) s2 of
                           (r2, s3) \<Rightarrow>
                             if rc r2 \<noteq> 0 then (Inl (EngineError ''mdb_txn_commit'' (rc r2)), s3)
                             else (Inr ret, s3))
                    | (Inl err, s2) \<Rightarrow>
                        (Inl err, snd (UNLOCKED X (Mdb_txn_abort (out_ptr r)) s2)))))"

definition env_delete ::
  "'e lmdb \<Rightarrow> nat \<Rightarrow> delete_args marshalled \<Rightarrow> 'e world \<Rightarrow> (error + pyobj) \<times> 'e world" where
  "env_delete X self a s =
     (case get_env s self of
        None \<Rightarrow> (Inl Segfault, s)
      | Some (ob, e) \<Rightarrow>
          if \<not> valid ob then (Inl InvalidHandle, s)
          else
            (case UNLOCKED X (Mdb_txn_begin (env e) None 0) s of
               (r, s1) \<Rightarrow>
                 if rc r \<noteq> 0 then (Inl (EngineError ''mdb_txn_begin'' (rc r)), s1)
                 else
                   (case generic_delete X True (out_ptr r) (main_db e) a s1 of
                      (Inr ret, s2) \<Rightarrow>
                        (case UNLOCKED X (Mdb_txn_commit (out_ptr r)) s2 of
                           (r2, s3) \<Rightarrow>
                             if rc r2 \<noteq> 0 then (Inl (EngineError ''mdb_txn_commit'' (rc r2)), s3)
                             else (Inr ret, s3))
                    | (Inl err, s2) \<Rightarrow>
                        (Inl err, snd (UNLOCKED X (Mdb_txn_abort (out_ptr r)) s2)))))"

record cursor_args =
  ec_buffers :: "bool option"
  ec_db :: "nat option"

definition env_cursor ::
  "'e lmdb \<Rightarrow> nat \<Rightarrow> cursor_args marshalled \<Rightarrow> 'e world \<Rightarrow> (error + pyobj) \<times> 'e world" where
  "env_cursor X self a s =
     (case get_env s self of
        None \<Rightarrow> (Inl Segfault, s)
      | Some (ob, e) \<Rightarrow>
          (case parse_args (valid ob) a of
             Inl err \<Rightarrow> (Inl err, s)
           | Inr arg \<Rightarrow>
               (case make_trans X self None False (or_default False (ec_buffers arg)) s of
                  (Inr (PyHandle tr), s1) \<Rightarrow>
                    (case make_cursor X
                            (case ec_db arg of None \<Rightarrow> main_db e | Some d \<Rightarrow> Some d) tr s1 of
                       (Inr cursor, s2) \<Rightarrow> (Inr cursor, s2)
                     | (Inl err, s2) \<Rightarrow> (Inl err, trans_dealloc X tr s2))
                | (Inr _, s1) \<Rightarrow> (Inl Segfault, s1)
                | (Inl err, s1) \<Rightarrow> (Inl err, s1))))"

subsection \<open>Cursors\<close>

record cursor_new_args =
  cn_db :: "nat option"
  cn_trans :: "nat option"

definition cursor_new ::
  "'e lmdb \<Rightarrow> cursor_new_args marshalled \<Rightarrow> 'e world \<Rightarrow> (error + pyobj) \<times> 'e world" where
  "cursor_new X a s =
     (case parse_args True a of
        Inl e \<Rightarrow> (Inl e, s)
      | Inr arg \<Rightarrow>
          (case (cn_db arg, cn_trans arg) of
             (Some db, Some tr) \<Rightarrow> make_cursor X (Some db) tr s
           | _ \<Rightarrow> (Inl (TypeError ''db and transaction parameters required.''), s)))"

definition cursor_count :: "'e lmdb \<Rightarrow> nat \<Rightarrow> 'e world \<Rightarrow> (error + pyobj) \<times> 'e world" where
  "cursor_count X self s =
     (case get_cursor s self of
        None \<Rightarrow> (Inl Segfault, s)
      | Some (ob, c) \<Rightarrow>
          if \<not> valid ob then (Inl InvalidHandle, s)
          else
            (case UNLOCKED X (Mdb_cursor_count (curs c)) s of
               (r, s1) \<Rightarrow>
                 if rc r \<noteq> 0 then (Inl (EngineError ''mdb_cursor_count'' (rc r)), s1)
                 else (Inr (PyLong (out_count r)), s1)))"

text \<open>
  \<^verbatim>\<open>_cursor_get_c\<close>, the one move operation: \<open>None\<close> is its return value 0, \<open>Some e\<close>
  the return value -1 with \<open>e\<close> set.
\<close>

definition cursor_get_c ::
  "'e lmdb \<Rightarrow> nat \<Rightarrow> MDB_cursor_op \<Rightarrow> 'e world \<Rightarrow> error option \<times> 'e world" where
  "cursor_get_c X self cop s =
     (case get_cursor s self of
        None \<Rightarrow> (Some Segfault, s)
      | Some (_, c) \<Rightarrow>
          (case UNLOCKED X (Mdb_cursor_get (curs c) (key c) (val c) cop) s of
             (r, s1) \<Rightarrow>
               (let s2 = upd self
                           (map_cursor
                              (\<lambda>c. if rc r = 0
                                   then c\<lparr>positioned := True, key := out_key r, val := out_val r\<rparr>
                                   else c\<lparr>positioned := False, key := [], val := []\<rparr>)) s1
                in if rc r \<noteq> 0 \<and> rc r \<noteq> MDB_NOTFOUND X \<and>
                      \<not> (rc r = EINVAL X \<and> cop = MDB_GET_CURRENT)
                   then (Some (EngineError ''mdb_cursor_get'' (rc r)), s2)
                   else (None, s2))))"

text \<open>\<^verbatim>\<open>_cursor_get\<close>: the move, and whether the cursor is positioned after it.\<close>

definition cursor_get_op ::
  "'e lmdb \<Rightarrow> nat \<Rightarrow> MDB_cursor_op \<Rightarrow> 'e world \<Rightarrow> (error + pyobj) \<times> 'e world" where
  "cursor_get_op X self cop s =
     (case cursor_get_c X self cop s of
        (Some e, s1) \<Rightarrow> (Inl e, s1)
      | (None, s1) \<Rightarrow>
          (if cursor_fld (\<lambda>c. Some (positioned c)) s1 self = Some True
           then (Inr Py_True, s1) else (Inr Py_False, s1)))"

text \<open>
  \<^verbatim>\<open>cursor_delete\<close> ignores the return value of the refresh by \<^verbatim>\<open>_cursor_get_c\<close>: when that
  sets an exception, \<^verbatim>\<open>Py_True\<close> is returned with the exception still set.
\<close>

definition cursor_delete :: "'e lmdb \<Rightarrow> nat \<Rightarrow> 'e world \<Rightarrow> (error + pyobj) \<times> 'e world" where
  "cursor_delete X self s =
     (case get_cursor s self of
        None \<Rightarrow> (Inl Segfault, s)
      | Some (ob, c) \<Rightarrow>
          if \<not> valid ob then (Inl InvalidHandle, s)
          else if positioned c
          then
            (case UNLOCKED X (Mdb_cursor_del (curs c) 0) s of
               (r, s1) \<Rightarrow>
                 if rc r \<noteq> 0 then (Inl (EngineError ''mdb_cursor_del'' (rc r)), s1)
                 else
                   (case cursor_get_c X self MDB_GET_CURRENT s1 of
                      (Some e, s2) \<Rightarrow> (Inl SystemError, s2)
                    | (None, s2) \<Rightarrow> (Inr Py_True, s2)))
          else (Inr Py_False, s))"

definition cursor_first :: "'e lmdb \<Rightarrow> nat \<Rightarrow> 'e world \<Rightarrow> (error + pyobj) \<times> 'e world" where
  "cursor_first X self s =
     (case get_cursor s self of
        None \<Rightarrow> (Inl Segfault, s)
      | Some (ob, _) \<Rightarrow>
          if \<not> valid ob then (Inl InvalidHandle, s) else cursor_get_op X self MDB_FIRST s)"

definition cursor_last :: "'e lmdb \<Rightarrow> nat \<Rightarrow> 'e world \<Rightarrow> (error + pyobj) \<times> 'e world" where
  "cursor_last X self s =
     (case get_cursor s self of
        None \<Rightarrow> (Inl Segfault, s)
      | Some (ob, _) \<Rightarrow>
          if \<not> valid ob then (Inl InvalidHandle, s) else cursor_get_op X self MDB_LAST s)"

definition cursor_next :: "'e lmdb \<Rightarrow> nat \<Rightarrow> 'e world \<Rightarrow> (error + pyobj) \<times> 'e world" where
  "cursor_next X self s =
     (case get_cursor s self of
        None \<Rightarrow> (Inl Segfault, s)
      | Some (ob, _) \<Rightarrow>
          if \<not> valid ob then (Inl InvalidHandle, s) else cursor_get_op X self MDB_NEXT s)"

definition cursor_prev :: "'e lmdb \<Rightarrow> nat \<Rightarrow> 'e world \<Rightarrow> (error + pyobj) \<times> 'e world" where
  "cursor_prev X self s =
     (case get_cursor s self of
        None \<Rightarrow> (Inl Segfault, s)
      | Some (ob, _) \<Rightarrow>
          if \<not> valid ob then (Inl InvalidHandle, s) else cursor_get_op X self MDB_PREV s)"

text \<open>\<^verbatim>\<open>self->trans->buffers\<close> for a cursor.\<close>

definition cursor_buffers :: "'e world \<Rightarrow> nat \<Rightarrow> bool option" where
  "cursor_buffers s self =
     (case cursor_fld trans s self of
        None \<Rightarrow> None
      | Some tr \<Rightarrow> trans_fld (\<lambda>t. Some (buffers t)) s tr)"

definition cursor_value :: "'e lmdb \<Rightarrow> nat \<Rightarrow> 'e world \<Rightarrow> (error + pyobj) \<times> 'e world" where
  "cursor_value X self s =
     (case get_cursor s self of
        None \<Rightarrow> (Inl Segfault, s)
      | Some (ob, c) \<Rightarrow>
          if \<not> valid ob then (Inl InvalidHandle, s)
          else
            (case cursor_buffers s self of
               None \<Rightarrow> (Inl Segfault, s)
             | Some True \<Rightarrow>
                 (Inr (PyBuffer (val c)), upd self (map_cursor (\<lambda>c. c\<lparr>val_buf := Some (val c)\<rparr>)) s)
             | Some False \<Rightarrow> (Inr (PyBytes (val c)), s)))"

definition cursor_key :: "'e lmdb \<Rightarrow> nat \<Rightarrow> 'e world \<Rightarrow> (error + pyobj) \<times> 'e world" where
  "cursor_key X self s =
     (case get_cursor s self of
        None \<Rightarrow> (Inl Segfault, s)
      | Some (ob, c) \<Rightarrow>
          if \<not> valid ob then (Inl InvalidHandle, s)
          else
            (case cursor_buffers s self of
               None \<Rightarrow> (Inl Segfault, s)
             | Some True \<Rightarrow>
                 (Inr (PyBuffer (key c)), upd self (map_cursor (\<lambda>c. c\<lparr>key_buf := Some (key c)\<rparr>)) s)
             | Some False \<Rightarrow> (Inr (PyBytes (key c)), s)))"

definition cursor_item :: "'e lmdb \<Rightarrow> nat \<Rightarrow> 'e world \<Rightarrow> (error + pyobj) \<times> 'e world" where
  "cursor_item X self s =
     (case get_cursor s self of
        None \<Rightarrow> (Inl Segfault, s)
      | Some (ob, c) \<Rightarrow>
          if \<not> valid ob then (Inl InvalidHandle, s)
          else
            (case cursor_buffers s self of
               None \<Rightarrow> (Inl Segfault, s)
             | Some True \<Rightarrow>
                 (Inr (PyTuple [PyBuffer (key c), PyBuffer (val c)]),
                  upd self
                    (map_cursor
                       (\<lambda>c. c\<lparr>key_buf := Some (key c), val_buf := Some (val c),
                              item_tup := Some (key c, val c)\<rparr>)) s)
             | Some False \<Rightarrow> (Inr (PyTuple [PyBytes (key c), PyBytes (val c)]), s)))"

record cursor_get_args =
  cg_key :: "bytes option"
  cg_default :: "pyobj option"

definition cursor_get ::
  "'e lmdb \<Rightarrow> nat \<Rightarrow> cursor_get_args marshalled \<Rightarrow> 'e world \<Rightarrow> (error + pyobj) \<times> 'e world" where
  "cursor_get X self a s =
     (case get_cursor s self of
        None \<Rightarrow> (Inl Segfault, s)
      | Some (ob, _) \<Rightarrow>
          if \<not> valid ob then (Inl InvalidHandle, s)
          else
            (case parse_args (valid ob) a of
               Inl e \<Rightarrow> (Inl e, s)
             | Inr arg \<Rightarrow>
                 (case cg_key arg of
                    None \<Rightarrow> (Inl (TypeError ''key must be given.''), s)
                  | Some k \<Rightarrow>
                      (case cursor_get_c X self MDB_SET_KEY
                              (upd self (map_cursor (\<lambda>c. c\<lparr>key := k\<rparr>)) s) of
                         (Some e, s1) \<Rightarrow> (Inl e, s1)
                       | (None, s1) \<Rightarrow>
                           if cursor_fld (\<lambda>c. Some (positioned c)) s1 self \<noteq> Some True
                           then (Inr (or_default Py_None (cg_default arg)), s1)
                           else cursor_value X self s1))))"

record cursor_put_args =
  cp_key :: "bytes option"
  cp_val :: "bytes option"
  cp_dupdata :: "bool option"
  cp_overwrite :: "bool option"
  cp_append :: "bool option"

definition cursor_put ::
  "'e lmdb \<Rightarrow> nat \<Rightarrow> cursor_put_args marshalled \<Rightarrow> 'e world \<Rightarrow> (error + pyobj) \<times> 'e world" where
  "cursor_put X self a s =
     (case get_cursor s self of
        None \<Rightarrow> (Inl Segfault, s)
      | Some (ob, c) \<Rightarrow>
          (case parse_args (valid ob) a of
             Inl e \<Rightarrow> (Inl e, s)
           | Inr arg \<Rightarrow>
               (let dupdata = or_default False (cp_dupdata arg);
                    overwrite = or_default True (cp_overwrite arg);
                    append = or_default False (cp_append arg);
                    flags = 0;
                    flags = (if \<not> dupdata then flags OR MDB_NODUPDATA X else flags);
                    flags = (if \<not> overwrite then flags OR MDB_NOOVERWRITE X else flags);
                    flags = (if \<not> append then flags OR MDB_APPEND X else flags)
                in case UNLOCKED X
                          (Mdb_cursor_put (curs c) (mv_bytes (cp_key arg)) (mv_bytes (cp_val arg)) flags)
                          s of
                     (r, s1) \<Rightarrow>
                       if rc r \<noteq> 0 then
                         (if rc r = MDB_KEYEXIST X then (Inr Py_False, s1)
                          else (Inl (EngineError ''mdb_put'' (rc r)), s1))
                       else (Inr Py_True, s1))))"

definition cursor_set_key ::
  "'e lmdb \<Rightarrow> nat \<Rightarrow> pyobj \<Rightarrow> 'e world \<Rightarrow> (error + pyobj) \<times> 'e world" where
  "cursor_set_key X self arg s =
     (case get_cursor s self of
        None \<Rightarrow> (Inl Segfault, s)
      | Some (ob, _) \<Rightarrow>
          if \<not> valid ob then (Inl InvalidHandle, s)
          else
            (case val_from_buffer arg of
               Inl e \<Rightarrow> (Inl e, s)
             | Inr k \<Rightarrow>
                 cursor_get_op X self MDB_SET_KEY (upd self (map_cursor (\<lambda>c. c\<lparr>key := k\<rparr>)) s)))"

definition cursor_set_range ::
  "'e lmdb \<Rightarrow> nat \<Rightarrow> pyobj \<Rightarrow> 'e world \<Rightarrow> (error + pyobj) \<times> 'e world" where
  "cursor_set_range X self arg s =
     (case get_cursor s self of
        None \<Rightarrow> (Inl Segfault, s)
      | Some (ob, _) \<Rightarrow>
          if \<not> valid ob then (Inl InvalidHandle, s)
          else
            (case val_from_buffer arg of
               Inl e \<Rightarrow> (Inl e, s)
             | Inr k \<Rightarrow>
                 (let s1 = upd self (map_cursor (\<lambda>c. c\<lparr>key := k\<rparr>)) s
                  in if length k \<noteq> 0 then cursor_get_op X self MDB_SET_RANGE s1
                     else cursor_get_op X self MDB_FIRST s1)))"

subsection \<open>Cursor iteration\<close>

record iter_args =
  i_keys :: "bool option"
  i_values :: "bool option"

definition iter_from_args ::
  "'e lmdb \<Rightarrow> nat \<Rightarrow> iter_args marshalled \<Rightarrow> MDB_cursor_op \<Rightarrow> MDB_cursor_op \<Rightarrow> 'e world \<Rightarrow>
   (error + pyobj) \<times> 'e world" where
  "iter_from_args X self a pos_op cop s =
     (case get_cursor s self of
        None \<Rightarrow> (Inl Segfault, s)
      | Some (ob, c) \<Rightarrow>
          (case parse_args (valid ob) a of
             Inl e \<Rightarrow> (Inl e, s)
           | Inr arg \<Rightarrow>
               (case (if \<not> positioned c then cursor_get_c X self pos_op s else (None, s)) of
                  (Some e, s1) \<Rightarrow> (Inl e, s1)
                | (None, s1) \<Rightarrow>
                    (Inr (PyIterator
                            \<lparr>it_curs = self, started = False, it_op = cop,
                             val_func =
                               (if \<not> or_default True (i_values arg) then Cursor_key
                                else if \<not> or_default True (i_keys arg) then Cursor_value
                                else Cursor_item)\<rparr>), s1))))"

definition no_iter_args :: "iter_args marshalled" where
  "no_iter_args = Inr \<lparr>i_keys = None, i_values = None\<rparr>"

definition cursor_iter :: "'e lmdb \<Rightarrow> nat \<Rightarrow> 'e world \<Rightarrow> (error + pyobj) \<times> 'e world" where
  "cursor_iter X self s = iter_from_args X self no_iter_args MDB_FIRST MDB_NEXT s"

definition cursor_iternext ::
  "'e lmdb \<Rightarrow> nat \<Rightarrow> iter_args marshalled \<Rightarrow> 'e world \<Rightarrow> (error + pyobj) \<times> 'e world" where
  "cursor_iternext X self a s = iter_from_args X self a MDB_FIRST MDB_NEXT s"

definition cursor_iterprev ::
  "'e lmdb \<Rightarrow> nat \<Rightarrow> iter_args marshalled \<Rightarrow> 'e world \<Rightarrow> (error + pyobj) \<times> 'e world" where
  "cursor_iterprev X self a s = iter_from_args X self a MDB_LAST MDB_PREV s"

record iter_from_args_rec =
  f_key :: "bytes option"
  f_reverse :: "bool option"

definition cursor_iter_from ::
  "'e lmdb \<Rightarrow> nat \<Rightarrow> iter_from_args_rec marshalled \<Rightarrow> 'e world \<Rightarrow> (error + pyobj) \<times> 'e world" where
  "cursor_iter_from X self a s =
     (case get_cursor s self of
        None \<Rightarrow> (Inl Segfault, s)
      | Some (ob, _) \<Rightarrow>
          (case parse_args (valid ob) a of
             Inl e \<Rightarrow> (Inl e, s)
           | Inr arg \<Rightarrow>
               (let reverse = or_default False (f_reverse arg)
                in case (if mv_size (f_key arg) = 0 \<and> \<not> reverse
                         then cursor_get_c X self MDB_FIRST s
                         else cursor_get_c X self MDB_SET_RANGE
                                (upd self (map_cursor (\<lambda>c. c\<lparr>key := mv_bytes (f_key arg)\<rparr>)) s)) of
                     (Some e, s1) \<Rightarrow> (Inl e, s1)
                   | (None, s1) \<Rightarrow>
                       (case (if reverse \<and> cursor_fld (\<lambda>c. Some (positioned c)) s1 self \<noteq> Some True
                              then cursor_get_c X self MDB_LAST s1 else (None, s1)) of
                          (Some e, s2) \<Rightarrow> (Inl e, s2)
                        | (None, s2) \<Rightarrow>
                            (Inr (PyIterator
                                    \<lparr>it_curs = self, started = False,
                                     it_op = (if reverse then MDB_PREV else MDB_NEXT),
                                     val_func = Cursor_item\<rparr>), s2)))))"

subsection \<open>Iterators\<close>

definition call_val_func ::
  "'e lmdb \<Rightarrow> val_func \<Rightarrow> nat \<Rightarrow> 'e world \<Rightarrow> (error + pyobj) \<times> 'e world" where
  "call_val_func X f c s =
     (case f of
        Cursor_key \<Rightarrow> cursor_key X c s
      | Cursor_value \<Rightarrow> cursor_value X c s
      | Cursor_item \<Rightarrow> cursor_item X c s)"

text \<open>
  \<^verbatim>\<open>iter_next\<close>, the \<^verbatim>\<open>tp_iternext\<close> slot. \<open>Inr None\<close> is a \<^verbatim>\<open>NULL\<close> return with no
  exception set, which ends the iteration; the iterator is returned in its new state.
\<close>

definition iter_next ::
  "'e lmdb \<Rightarrow> IterObject \<Rightarrow> 'e world \<Rightarrow> (error + pyobj option) \<times> IterObject \<times> 'e world" where
  "iter_next X self s =
     (case get_cursor s (it_curs self) of
        None \<Rightarrow> (Inl Segfault, self, s)
      | Some (ob, c) \<Rightarrow>
          if \<not> valid ob then (Inl InvalidHandle, self, s)
          else if \<not> positioned c then (Inr None, self, s)
          else
            (case (if started self then cursor_get_c X (it_curs self) (it_op self) s
                   else (None, s)) of
               (Some e, s1) \<Rightarrow> (Inl e, self, s1)
             | (None, s1) \<Rightarrow>
                 if started self \<and>
                    cursor_fld (\<lambda>c. Some (positioned c)) s1 (it_curs self) \<noteq> Some True
                 then (Inr None, self, s1)
                 else
                   (case call_val_func X (val_func self) (it_curs self) s1 of
                      (Inl e, s2) \<Rightarrow> (Inl e, self\<lparr>started := True\<rparr>, s2)
                    | (Inr v, s2) \<Rightarrow> (Inr (Some v), self\<lparr>started := True\<rparr>, s2))))"

subsection \<open>Batches over an iterable\<close>

text \<open>
  The iterator that \<^verbatim>\<open>PyObject_GetIter\<close> returns: over a Python sequence or generator it
  is the objects still to yield, with the exception that ends the run if one does;
  over a handle of this module it is an \<^verbatim>\<open>IterObject\<close>, whose \<^verbatim>\<open>tp_iternext\<close> slot is
  \<^verbatim>\<open>iter_next\<close>.
\<close>

datatype py_iter =
    Seq_iter "pyobj list" "error option"
  | Obj_iter IterObject

text \<open>
  A Cursor is iterable through its \<^verbatim>\<open>tp_iter\<close> slot \<^verbatim>\<open>cursor_iter\<close>, an Iterator through
  \<^verbatim>\<open>iter_iter\<close>, which returns the iterator itself. Environment, Transaction and database
  handles have no \<^verbatim>\<open>tp_iter\<close>, and the host raises for them as it does for \<^verbatim>\<open>None\<close>, a
  boolean or an integer.
\<close>

definition PyObject_GetIter ::
  "'e lmdb \<Rightarrow> pyobj \<Rightarrow> 'e world \<Rightarrow> (error + py_iter) \<times> 'e world" where
  "PyObject_GetIter X obj s =
     (case obj of
        PyList xs \<Rightarrow> (Inr (Seq_iter xs None), s)
      | PyTuple xs \<Rightarrow> (Inr (Seq_iter xs None), s)
      | PyDict kvs \<Rightarrow> (Inr (Seq_iter (map fst kvs) None), s)
      | PyGenerator xs e \<Rightarrow> (Inr (Seq_iter xs e), s)
      | PyBytes b \<Rightarrow> (Inr (Seq_iter (map (\<lambda>c. PyLong (of_char c)) b) None), s)
      | PyBuffer b \<Rightarrow> (Inr (Seq_iter (map (\<lambda>c. PyLong (of_char c)) b) None), s)
      | PyUnicode u \<Rightarrow> (Inr (Seq_iter (map (\<lambda>c. PyUnicode [c]) u) None), s)
      | PyIterator it \<Rightarrow> (Inr (Obj_iter it), s)
      | PyHandle a \<Rightarrow>
          (case get_cursor s a of
             None \<Rightarrow> (Inl HostError, s)
           | Some _ \<Rightarrow>
               (case cursor_iter X a s of
                  (Inl e, s1) \<Rightarrow> (Inl e, s1)
                | (Inr ret, s1) \<Rightarrow>
                    (case ret of
                       PyIterator it \<Rightarrow> (Inr (Obj_iter it), s1)
                     | _ \<Rightarrow> (Inl HostError, s1))))
      | _ \<Rightarrow> (Inl HostError, s))"

text \<open>
  \<^verbatim>\<open>PyIter_Next\<close>: \<open>Inr None\<close> is its \<^verbatim>\<open>NULL\<close> return with no exception set, the end of the
  iteration; \<open>Inl e\<close> its \<^verbatim>\<open>NULL\<close> return with \<open>e\<close> set.
\<close>

fun PyIter_Next ::
  "'e lmdb \<Rightarrow> py_iter \<Rightarrow> 'e world \<Rightarrow> (error + pyobj option) \<times> py_iter \<times> 'e world" where
  "PyIter_Next X (Seq_iter [] None) s = (Inr None, Seq_iter [] None, s)"
| "PyIter_Next X (Seq_iter [] (Some e)) s = (Inl e, Seq_iter [] None, s)"
| "PyIter_Next X (Seq_iter (x # xs) e) s = (Inr (Some x), Seq_iter xs e, s)"
| "PyIter_Next X (Obj_iter it) s =
     (case iter_next X it s of (r, it1, s1) \<Rightarrow> (r, Obj_iter it1, s1))"

fun PyDict_SetItem :: "(pyobj \<times> pyobj) list \<Rightarrow> pyobj \<Rightarrow> pyobj \<Rightarrow> (pyobj \<times> pyobj) list" where
  "PyDict_SetItem [] k v = [(k, v)]"
| "PyDict_SetItem ((k', v') # d) k v =
     (if k' = k then (k, v) # d else (k', v') # PyDict_SetItem d k v)"

record gets_args =
  gs_keys :: "pyobj option"
  gs_db :: "nat option"

text \<open>
  The three batch methods loop for as long as the iterator yields, and an iterator over
  a cursor yields for as long as the engine finds a next record. The loops therefore
  take fuel, one unit for each call of \<^verbatim>\<open>PyIter_Next\<close>: the first component of the result
  is \<open>None\<close> when the fuel is used up before the loop is left, and the second is the
  state reached by then.

  The \<^verbatim>\<open>while\<close> loop of \<^verbatim>\<open>env_gets\<close>: the result is the exception pending when the loop is
  left (if any) and the dictionary so far.
\<close>

primrec env_gets_loop ::
  "nat \<Rightarrow> 'e lmdb \<Rightarrow> nat option \<Rightarrow> nat option \<Rightarrow> py_iter \<Rightarrow> (pyobj \<times> pyobj) list \<Rightarrow>
   'e world \<Rightarrow> (error option \<times> (pyobj \<times> pyobj) list) option \<times> 'e world" where
  "env_gets_loop 0 X tx db it dict s = (None, s)"
| "env_gets_loop (Suc n) X tx db it dict s =
     (case PyIter_Next X it s of
        (Inl e, it1, s1) \<Rightarrow> (Some (Some e, dict), s1)
      | (Inr None, it1, s1) \<Rightarrow> (Some (None, dict), s1)
      | (Inr (Some key_obj), it1, s1) \<Rightarrow>
          (case val_from_buffer key_obj of
             Inl e \<Rightarrow> (Some (Some e, dict), s1)
           | Inr k \<Rightarrow>
               (case db_dbi s1 db of
                  None \<Rightarrow> (Some (Some Segfault, dict), s1)
                | Some di \<Rightarrow>
                    (case UNLOCKED X (Mdb_get tx di k) s1 of
                       (r, s2) \<Rightarrow>
                         if rc r = 0
                         then env_gets_loop n X tx db it1
                                (PyDict_SetItem dict key_obj (PyBytes (out_val r))) s2
                         else if rc r \<noteq> MDB_NOTFOUND X
                         then (Some (Some (EngineError ''mdb_get'' (rc r)), dict), s2)
                         else env_gets_loop n X tx db it1 dict s2))))"

definition env_gets ::
  "'e lmdb \<Rightarrow> nat \<Rightarrow> nat \<Rightarrow> gets_args marshalled \<Rightarrow> 'e world \<Rightarrow>
   (error + pyobj) option \<times> 'e world" where
  "env_gets X n self a s =
     (case get_env s self of
        None \<Rightarrow> (Some (Inl Segfault), s)
      | Some (ob, e) \<Rightarrow>
          (case parse_args (valid ob) a of
             Inl err \<Rightarrow> (Some (Inl err), s)
           | Inr arg \<Rightarrow>
               (case gs_keys arg of
                  None \<Rightarrow> (Some (Inl (TypeError ''keys must be given'')), s)
                | Some keys \<Rightarrow>
                    (case PyObject_GetIter X keys s of
                       (Inl err, s0) \<Rightarrow> (Some (Inl err), s0)
                     | (Inr it, s0) \<Rightarrow>
                         (case UNLOCKED X (Mdb_txn_begin (env e) None (MDB_RDONLY X)) s0 of
                            (r, s1) \<Rightarrow>
                              if rc r \<noteq> 0
                              then (Some (Inl (EngineError ''mdb_txn_begin'' (rc r))), s1)
                              else
                                (case env_gets_loop n X (out_ptr r)
                                        (case gs_db arg of None \<Rightarrow> main_db e | Some d \<Rightarrow> Some d)
                                        it [] s1 of
                                   (None, s2) \<Rightarrow> (None, s2)
                                 | (Some (pending, dict), s2) \<Rightarrow>
                                     (case UNLOCKED X (Mdb_txn_abort (out_ptr r)) s2 of
                                        (_, s3) \<Rightarrow>
                                          (case pending of
                                             Some err \<Rightarrow> (Some (Inl err), s3)
                                           | None \<Rightarrow> (Some (Inr (PyDict dict)), s3)))))))))"

record puts_args =
  ps_items :: "pyobj option"
  ps_dupdata :: "bool option"
  ps_overwrite :: "bool option"
  ps_append :: "bool option"
  ps_db :: "nat option"

text \<open>
  The \<^verbatim>\<open>while\<close> loop of \<^verbatim>\<open>env_puts\<close>: the exception pending when the loop is left (if
  any) and the list of results so far.
\<close>

primrec env_puts_loop ::
  "nat \<Rightarrow> 'e lmdb \<Rightarrow> nat option \<Rightarrow> nat option \<Rightarrow> 32 word \<Rightarrow> py_iter \<Rightarrow> pyobj list \<Rightarrow>
   'e world \<Rightarrow> (error option \<times> pyobj list) option \<times> 'e world" where
  "env_puts_loop 0 X tx db flags it list s = (None, s)"
| "env_puts_loop (Suc n) X tx db flags it list s =
     (case PyIter_Next X it s of
        (Inl e, it1, s1) \<Rightarrow> (Some (Some e, list), s1)
      | (Inr None, it1, s1) \<Rightarrow> (Some (None, list), s1)
      | (Inr (Some item), it1, s1) \<Rightarrow>
          (case item of
             PyTuple [k_obj, v_obj] \<Rightarrow>
               (case val_from_buffer k_obj of
                  Inl e \<Rightarrow> (Some (Some e, list), s1)
                | Inr k \<Rightarrow>
                    (case val_from_buffer v_obj of
                       Inl e \<Rightarrow> (Some (Some e, list), s1)
                     | Inr v \<Rightarrow>
                         (case db_dbi s1 db of
                            None \<Rightarrow> (Some (Some Segfault, list), s1)
                          | Some di \<Rightarrow>
                              (case UNLOCKED X (Mdb_put tx di k v flags) s1 of
                                 (r, s2) \<Rightarrow>
                                   if rc r = 0
                                   then env_puts_loop n X tx db flags it1 (list @ [Py_True]) s2
                                   else if rc r = MDB_KEYEXIST X
                                   then env_puts_loop n X tx db flags it1 (list @ [Py_False]) s2
                                   else (Some (Some (EngineError ''mdb_put'' (rc r)), list),
                                         s2)))))
           | _ \<Rightarrow>
               (Some (Some (TypeError ''puts() element type must be a 2-tuple.''), list), s1)))"

text \<open>
  A dictionary is iterated through its \<^verbatim>\<open>iteritems\<close> method, which a Python 3
  dictionary does not have: the lookup raises.
\<close>

definition env_puts ::
  "'e lmdb \<Rightarrow> nat \<Rightarrow> nat \<Rightarrow> puts_args marshalled \<Rightarrow> 'e world \<Rightarrow>
   (error + pyobj) option \<times> 'e world" where
  "env_puts X n self a s =
     (case get_env s self of
        None \<Rightarrow> (Some (Inl Segfault), s)
      | Some (ob, e) \<Rightarrow>
          (case parse_args (valid ob) a of
             Inl err \<Rightarrow> (Some (Inl err), s)
           | Inr arg \<Rightarrow>
               (case ps_items arg of
                  None \<Rightarrow> (Some (Inl (TypeError ''items must be given'')), s)
                | Some items \<Rightarrow>
                    (case (case items of
                             PyDict _ \<Rightarrow> (Inl HostError, s)
                           | _ \<Rightarrow> PyObject_GetIter X items s) of
                       (Inl err, s0) \<Rightarrow> (Some (Inl err), s0)
                     | (Inr it, s0) \<Rightarrow>
                         (case UNLOCKED X (Mdb_txn_begin (env e) None 0) s0 of
                            (r, s1) \<Rightarrow>
                              if rc r \<noteq> 0
                              then (Some (Inl (EngineError ''mdb_txn_begin'' (rc r))), s1)
                              else
                                (let flags = 0;
                                     flags = (if \<not> or_default False (ps_dupdata arg)
                                              then flags OR MDB_NODUPDATA X else flags);
                                     flags = (if \<not> or_default True (ps_overwrite arg)
                                              then flags OR MDB_NOOVERWRITE X else flags);
                                     flags = (if or_default False (ps_append arg)
                                              then flags OR MDB_APPEND X else flags)
                                 in case env_puts_loop n X (out_ptr r)
                                           (case ps_db arg of None \<Rightarrow> main_db e | Some d \<Rightarrow> Some d)
                                           flags it [] s1 of
                                      (None, s2) \<Rightarrow> (None, s2)
                                    | (Some (Some err, list), s2) \<Rightarrow>
                                        (Some (Inl err),
                                         snd (UNLOCKED X (Mdb_txn_abort (out_ptr r)) s2))
                                    | (Some (None, list), s2) \<Rightarrow>
                                        (case UNLOCKED X (Mdb_txn_commit (out_ptr r)) s2 of
                                           (r2, s3) \<Rightarrow>
                                             if rc r2 \<noteq> 0
                                             then (Some (Inl (EngineError ''mdb_txn_commit''
                                                                (rc r2))), s3)
                                             else (Some (Inr (PyList list)), s3))))))))"

primrec env_deletes_loop ::
  "nat \<Rightarrow> 'e lmdb \<Rightarrow> nat option \<Rightarrow> nat option \<Rightarrow> py_iter \<Rightarrow> pyobj list \<Rightarrow> 'e world \<Rightarrow>
   (error option \<times> pyobj list) option \<times> 'e world" where
  "env_deletes_loop 0 X tx db it list s = (None, s)"
| "env_deletes_loop (Suc n) X tx db it list s =
     (case PyIter_Next X it s of
        (Inl e, it1, s1) \<Rightarrow> (Some (Some e, list), s1)
      | (Inr None, it1, s1) \<Rightarrow> (Some (None, list), s1)
      | (Inr (Some key_obj), it1, s1) \<Rightarrow>
          (case val_from_buffer key_obj of
             Inl e \<Rightarrow> (Some (Some e, list), s1)
           | Inr k \<Rightarrow>
               (case db_dbi s1 db of
                  None \<Rightarrow> (Some (Some Segfault, list), s1)
                | Some di \<Rightarrow>
                    (case UNLOCKED X (Mdb_del tx di k None) s1 of
                       (r, s2) \<Rightarrow>
                         if rc r = 0
                         then env_deletes_loop n X tx db it1 (list @ [Py_True]) s2
                         else if rc r = MDB_NOTFOUND X
                         then env_deletes_loop n X tx db it1 (list @ [Py_False]) s2
                         else (Some (Some (EngineError ''mdb_del'' (rc r)), list), s2)))))"

definition env_deletes ::
  "'e lmdb \<Rightarrow> nat \<Rightarrow> nat \<Rightarrow> gets_args marshalled \<Rightarrow> 'e world \<Rightarrow>
   (error + pyobj) option \<times> 'e world" where
  "env_deletes X n self a s =
     (case get_env s self of
        None \<Rightarrow> (Some (Inl Segfault), s)
      | Some (ob, e) \<Rightarrow>
          (case parse_args (valid ob) a of
             Inl err \<Rightarrow> (Some (Inl err), s)
           | Inr arg \<Rightarrow>
               (case gs_keys arg of
                  None \<Rightarrow> (Some (Inl (TypeError ''keys must be given'')), s)
                | Some keys \<Rightarrow>
                    (case PyObject_GetIter X keys s of
                       (Inl err, s0) \<Rightarrow> (Some (Inl err), s0)
                     | (Inr it, s0) \<Rightarrow>
                         (case UNLOCKED X (Mdb_txn_begin (env e) None 0) s0 of
                            (r, s1) \<Rightarrow>
                              if rc r \<noteq> 0
                              then (Some (Inl (EngineError ''mdb_txn_begin'' (rc r))), s1)
                              else
                                (case env_deletes_loop n X (out_ptr r)
                                        (case gs_db arg of None \<Rightarrow> main_db e | Some d \<Rightarrow> Some d)
                                        it [] s1 of
                                   (None, s2) \<Rightarrow> (None, s2)
                                 | (Some (Some err, list), s2) \<Rightarrow>
                                     (Some (Inl err),
                                      snd (UNLOCKED X (Mdb_txn_abort (out_ptr r)) s2))
                                 | (Some (None, list), s2) \<Rightarrow>
                                     (case UNLOCKED X (Mdb_txn_commit (out_ptr r)) s2 of
                                        (r2, s3) \<Rightarrow>
                                          if rc r2 \<noteq> 0
                                          then (Some (Inl (EngineError ''mdb_txn_commit''
                                                             (rc r2))), s3)
                                          else (Some (Inr (PyList list)), s3))))))))"


subsection \<open>Transactions\<close>

record trans_new_args =
  tn_env :: "nat option"
  tn_parent :: "nat option"
  tn_write :: "bool option"
  tn_buffers :: "bool option"

text \<open>
  \<^verbatim>\<open>trans_new\<close> tests \<^verbatim>\<open>arg.env\<close> before \<^verbatim>\<open>parse_args\<close> has filled the struct in, so
  the test reads the initial \<^verbatim>\<open>NULL\<close>.
\<close>

definition trans_new ::
  "'e lmdb \<Rightarrow> trans_new_args marshalled \<Rightarrow> 'e world \<Rightarrow> (error + pyobj) \<times> 'e world" where
  "trans_new X a s =
     (let arg0 = \<lparr>tn_env = None, tn_parent = None, tn_write = None, tn_buffers = None\<rparr>
      in case tn_env arg0 of
           None \<Rightarrow> (Inl (TypeError (quoted ''env'' @ '' argument required'')), s)
         | Some e \<Rightarrow>
             (case parse_args True a of
                Inl err \<Rightarrow> (Inl err, s)
              | Inr arg \<Rightarrow>
                  (case tn_env arg of
                     None \<Rightarrow> (Inl Segfault, s)
                   | Some e \<Rightarrow>
                       make_trans X e (tn_parent arg) (or_default False (tn_write arg))
                         (or_default False (tn_buffers arg)) s)))"

definition trans_abort ::
  "'e lmdb \<Rightarrow> nat \<Rightarrow> nat \<Rightarrow> 'e world \<Rightarrow> ((error + pyobj) \<times> 'e world) option" where
  "trans_abort X n self s =
     (case get_trans s self of
        None \<Rightarrow> Some (Inl Segfault, s)
      | Some (ob, _) \<Rightarrow>
          if \<not> valid ob then Some (Inl InvalidHandle, s)
          else
            (case invalidate X n self s of
               None \<Rightarrow> None
             | Some s1 \<Rightarrow>
                 (let s1 = snd (UNLOCKED X (Mdb_txn_abort (trans_fld txn s1 self)) s1);
                      s1 = upd self (map_trans (\<lambda>t. t\<lparr>txn := None\<rparr>)) s1;
                      s1 = upd self (\<lambda>ob. ob\<lparr>valid := False\<rparr>) s1
                  in Some (Inr Py_None, s1))))"

definition trans_commit ::
  "'e lmdb \<Rightarrow> nat \<Rightarrow> nat \<Rightarrow> 'e world \<Rightarrow> ((error + pyobj) \<times> 'e world) option" where
  "trans_commit X n self s =
     (case get_trans s self of
        None \<Rightarrow> Some (Inl Segfault, s)
      | Some (ob, _) \<Rightarrow>
          if \<not> valid ob then Some (Inl InvalidHandle, s)
          else
            (case invalidate X n self s of
               None \<Rightarrow> None
             | Some s1 \<Rightarrow>
                 (case UNLOCKED X (Mdb_txn_commit (trans_fld txn s1 self)) s1 of
                    (r, s1) \<Rightarrow>
                      (let s1 = upd self (map_trans (\<lambda>t. t\<lparr>txn := None\<rparr>)) s1;
                           s1 = upd self (\<lambda>ob. ob\<lparr>valid := False\<rparr>) s1
                       in if rc r \<noteq> 0
                          then Some (Inl (EngineError ''mdb_txn_commit'' (rc r)), s1)
                          else Some (Inr Py_None, s1)))))"

text \<open>\<^verbatim>\<open>self->env->main_db\<close> for a transaction: \<open>None\<close> when \<^verbatim>\<open>self->env\<close> is \<^verbatim>\<open>NULL\<close>.\<close>

definition trans_main_db :: "'e world \<Rightarrow> nat \<Rightarrow> nat option option" where
  "trans_main_db s self =
     (case trans_fld t_env s self of
        None \<Rightarrow> None
      | Some e \<Rightarrow> (case get_env s e of None \<Rightarrow> None | Some (_, ev) \<Rightarrow> Some (main_db ev)))"

definition trans_cursor ::
  "'e lmdb \<Rightarrow> nat \<Rightarrow> nat option marshalled \<Rightarrow> 'e world \<Rightarrow> (error + pyobj) \<times> 'e world" where
  "trans_cursor X self a s =
     (case get_trans s self of
        None \<Rightarrow> (Inl Segfault, s)
      | Some (ob, _) \<Rightarrow>
          (case parse_args (valid ob) a of
             Inl e \<Rightarrow> (Inl e, s)
           | Inr (Some db) \<Rightarrow> make_cursor X (Some db) self s
           | Inr None \<Rightarrow>
               (case trans_main_db s self of
                  None \<Rightarrow> (Inl Segfault, s)
                | Some db \<Rightarrow> make_cursor X db self s)))"

definition trans_delete ::
  "'e lmdb \<Rightarrow> nat \<Rightarrow> delete_args marshalled \<Rightarrow> 'e world \<Rightarrow> (error + pyobj) \<times> 'e world" where
  "trans_delete X self a s =
     (case get_trans s self of
        None \<Rightarrow> (Inl Segfault, s)
      | Some (ob, t) \<Rightarrow>
          (case trans_main_db s self of
             None \<Rightarrow> (Inl Segfault, s)
           | Some db \<Rightarrow> generic_delete X (valid ob) (txn t) db a s))"

record drop_args =
  dr_db :: "nat option"
  dr_delete :: "bool option"

definition trans_drop ::
  "'e lmdb \<Rightarrow> nat \<Rightarrow> drop_args marshalled \<Rightarrow> 'e world \<Rightarrow> (error + pyobj) \<times> 'e world" where
  "trans_drop X self a s =
     (case get_trans s self of
        None \<Rightarrow> (Inl Segfault, s)
      | Some (ob, t) \<Rightarrow>
          (case parse_args (valid ob) a of
             Inl e \<Rightarrow> (Inl e, s)
           | Inr arg \<Rightarrow>
               (case dr_db arg of
                  None \<Rightarrow> (Inl (TypeError (quoted ''db'' @ '' argument required.'')), s)
                | Some db \<Rightarrow>
                    (case db_dbi s (Some db) of
                       None \<Rightarrow> (Inl Segfault, s)
                     | Some di \<Rightarrow>
                         (case UNLOCKED X (Mdb_drop (txn t) di (or_default True (dr_delete arg))) s of
                            (r, s1) \<Rightarrow>
                              if rc r \<noteq> 0 then (Inl (EngineError ''mdb_drop'' (rc r)), s1)
                              else (Inr Py_None, s1))))))"

definition trans_get ::
  "'e lmdb \<Rightarrow> nat \<Rightarrow> get_args marshalled \<Rightarrow> 'e world \<Rightarrow> (error + pyobj) \<times> 'e world" where
  "trans_get X self a s =
     (case get_trans s self of
        None \<Rightarrow> (Inl Segfault, s)
      | Some (ob, t) \<Rightarrow>
          (case trans_main_db s self of
             None \<Rightarrow> (Inl Segfault, s)
           | Some db \<Rightarrow> generic_get X (valid ob) (txn t) db (buffers t) (Some self) a s))"

definition trans_put ::
  "'e lmdb \<Rightarrow> nat \<Rightarrow> put_args marshalled \<Rightarrow> 'e world \<Rightarrow> (error + pyobj) \<times> 'e world" where
  "trans_put X self a s =
     (case get_trans s self of
        None \<Rightarrow> (Inl Segfault, s)
      | Some (ob, t) \<Rightarrow>
          (case trans_main_db s self of
             None \<Rightarrow> (Inl Segfault, s)
           | Some db \<Rightarrow> generic_put X (valid ob) (txn t) db a s))"

definition trans_enter :: "'e lmdb \<Rightarrow> nat \<Rightarrow> 'e world \<Rightarrow> (error + pyobj) \<times> 'e world" where
  "trans_enter X self s =
     (case get_trans s self of
        None \<Rightarrow> (Inl Segfault, s)
      | Some (ob, _) \<Rightarrow>
          if \<not> valid ob then (Inl InvalidHandle, s) else (Inr (PyHandle self), s))"

text \<open>\<^verbatim>\<open>trans_exit\<close>; the argument is the first element of the tuple it is called with.\<close>

definition trans_exit ::
  "'e lmdb \<Rightarrow> nat \<Rightarrow> nat \<Rightarrow> pyobj \<Rightarrow> 'e world \<Rightarrow> ((error + pyobj) \<times> 'e world) option" where
  "trans_exit X n self exc_type s =
     (case get_trans s self of
        None \<Rightarrow> Some (Inl Segfault, s)
      | Some (ob, _) \<Rightarrow>
          if \<not> valid ob then Some (Inl InvalidHandle, s)
          else if exc_type = Py_None then trans_commit X n self s
          else trans_abort X n self s)"

subsection \<open>Reading the trace\<close>

text \<open>The engine calls made between two states, each with its reply.\<close>

definition new_calls :: "'e world \<Rightarrow> 'e world \<Rightarrow> (mdb_call \<times> mdb_reply) list" where
  "new_calls s s' = drop (length (trace s)) (trace s')"

text \<open>
  \<open>extends_by P s s'\<close>: the trace of \<open>s'\<close> is the trace of \<open>s\<close> followed by calls that
  all satisfy \<open>P\<close>.
\<close>

definition extends_by :: "(mdb_call \<times> mdb_reply \<Rightarrow> bool) \<Rightarrow> 'e world \<Rightarrow> 'e world \<Rightarrow> bool" where
  "extends_by P s s' = (\<exists>cs. trace s' = trace s @ cs \<and> list_all P cs)"

text \<open>The flags argument of a call to \<^verbatim>\<open>mdb_put\<close> or \<^verbatim>\<open>mdb_cursor_put\<close>.\<close>

fun put_flags_of :: "mdb_call \<Rightarrow> 32 word option" where
  "put_flags_of (Mdb_put tx di k v f) = Some f"
| "put_flags_of (Mdb_cursor_put c k v f) = Some f"
| "put_flags_of _ = None"

definition put_flags_passed :: "'e world \<Rightarrow> 'e world \<Rightarrow> 32 word list" where
  "put_flags_passed s s' = List.map_filter (\<lambda>(c, r). put_flags_of c) (new_calls s s')"

text \<open>
  A flag is set in a flags word when the two have a bit in common. The three write
  flags are distinct bits when none is zero and no two overlap.
\<close>

definition flag_set :: "32 word \<Rightarrow> 32 word \<Rightarrow> bool" where
  "flag_set flag flags = (flags AND flag \<noteq> 0)"

definition write_flags_distinct :: "'e lmdb \<Rightarrow> bool" where
  "write_flags_distinct X =
     (MDB_NODUPDATA X \<noteq> 0 \<and> MDB_NOOVERWRITE X \<noteq> 0 \<and> MDB_APPEND X \<noteq> 0 \<and>
      MDB_NODUPDATA X AND MDB_NOOVERWRITE X = 0 \<and>
      MDB_NODUPDATA X AND MDB_APPEND X = 0 \<and>
      MDB_NOOVERWRITE X AND MDB_APPEND X = 0)"

subsection \<open>A concrete instance\<close>

text \<open>
  The values of \<^verbatim>\<open>lmdb.h\<close> (LMDB 0.9) and \<^verbatim>\<open>errno.h\<close> (Linux), around a given engine.
\<close>

definition lmdb_0_9 :: "(mdb_call \<Rightarrow> 'e \<Rightarrow> mdb_reply \<times> 'e) \<Rightarrow> 'e lmdb" where
  "lmdb_0_9 f =
     \<lparr>MDB_NODUPDATA = 0x20, MDB_NOOVERWRITE = 0x10, MDB_APPEND = 0x20000,
      MDB_RDONLY = 0x20000, MDB_NOTLS = 0x200000, MDB_NOSUBDIR = 0x4000,
      MDB_NOMETASYNC = 0x40000, MDB_NOSYNC = 0x10000, MDB_MAPASYNC = 0x100000,
      MDB_WRITEMAP = 0x80000, MDB_REVERSEKEY = 0x02, MDB_DUPSORT = 0x04,
      MDB_CREATE = 0x40000, MDB_NOTFOUND = - 30798, MDB_KEYEXIST = - 30799,
      EINVAL = 22, ENOENT = 2, mdb = f\<rparr>"

text \<open>
  A scripted engine: its state is the list of replies still to give, and each call
  takes the next one, whatever the call. When the script is used up every call
  succeeds with empty outputs. A run against it shows the replies in full.
\<close>

definition reply :: "int \<Rightarrow> mdb_reply" where
  "reply code =
     \<lparr>rc = code, out_ptr = None, out_dbi = 0, out_key = [], out_val = [],
      out_count = 0, out_fields = [], out_path = []\<rparr>"

definition scripted :: "mdb_call \<Rightarrow> mdb_reply list \<Rightarrow> mdb_reply \<times> mdb_reply list" where
  "scripted c script = (case script of [] \<Rightarrow> (reply 0, []) | r # rs \<Rightarrow> (r, rs))"

definition X0 :: "(mdb_reply list) lmdb" where
  "X0 = lmdb_0_9 scripted"

definition world0 :: "mdb_reply list \<Rightarrow> (mdb_reply list) world" where
  "world0 script = \<lparr>heap = (\<lambda>a. None), next_addr = 0, engine = script, trace = []\<rparr>"

text \<open>A successful reply that hands out the engine pointer \<open>n\<close>.\<close>

definition ptr :: "nat \<Rightarrow> mdb_reply" where
  "ptr n = (reply 0)\<lparr>out_ptr := Some n\<rparr>"

text \<open>
  The replies to a successful \<^verbatim>\<open>env_new\<close>: \<^verbatim>\<open>mdb_env_create\<close>, the three setters,
  \<^verbatim>\<open>stat\<close>, \<^verbatim>\<open>mdb_env_open\<close>, and the transaction that opens the main database.
\<close>

definition open_script :: "mdb_reply list" where
  "open_script =
     [ptr 100, reply 0, reply 0, reply 0, reply 0, reply 0, ptr 101,
      (reply 0)\<lparr>out_dbi := 1\<rparr>, reply 0]"

definition new_default :: new_args where
  "new_default =
     \<lparr>n_path = Some ''/tmp/db'', n_map_size = None, n_subdir = None, n_readonly = None,
      n_metasync = None, n_sync = None, n_map_async = None, n_mode = None, n_create = None,
      n_writemap = None, n_max_readers = None, n_max_dbs = None\<rparr>"

text \<open>
  Three states made by the module itself, from the empty store: an open environment
  (address 0, its main database at address 1), then a transaction begun on it
  (address 2), then a cursor opened on that transaction (address 3). \<open>ro\<close> is the
  \<^verbatim>\<open>readonly\<close> argument of \<^verbatim>\<open>open\<close>, and \<open>rest\<close> the replies the engine has left.
\<close>

definition demo_env :: "bool \<Rightarrow> mdb_reply list \<Rightarrow> (mdb_reply list) world" where
  "demo_env ro rest =
     snd (env_new X0 (Inr (new_default\<lparr>n_readonly := Some ro\<rparr>)) (world0 (open_script @ rest)))"

definition demo_txn :: "bool \<Rightarrow> mdb_reply list \<Rightarrow> (mdb_reply list) world" where
  "demo_txn ro rest =
     snd (env_begin X0 0
            (Inr \<lparr>b_buffers = None, b_write = Some (\<not> ro), b_parent = None\<rparr>)
            (demo_env ro (ptr 102 # rest)))"

definition demo_cursor :: "bool \<Rightarrow> mdb_reply list \<Rightarrow> (mdb_reply list) world" where
  "demo_cursor ro rest = snd (trans_cursor X0 2 (Inr None) (demo_txn ro (ptr 103 # rest)))"

text \<open>The same three states written out: their objects and the trace of \<^verbatim>\<open>open\<close>.\<close>

definition open_trace :: "bool \<Rightarrow> (mdb_call \<times> mdb_reply) list" where
  "open_trace ro =
     [(Mdb_env_create, ptr 100),
      (Mdb_env_set_mapsize (Some 100) 10485760, reply 0),
      (Mdb_env_set_maxreaders (Some 100) 126, reply 0),
      (Mdb_env_set_maxdbs (Some 100) 0, reply 0),
      (Sys_stat ''/tmp/db'', reply 0),
      (Mdb_env_open (Some 100) ''/tmp/db'' (if ro then 0x220000 else 0x200000) 420, reply 0),
      (Mdb_txn_begin (Some 100) None 0x20000, ptr 101),
      (Mdb_dbi_open (Some 101) None 0, (reply 0)\<lparr>out_dbi := 1\<rparr>),
      (Mdb_txn_commit (Some 101), reply 0)]"

definition env_obj :: "bool \<Rightarrow> nat option \<Rightarrow> lmdb_object" where
  "env_obj ro child =
     \<lparr>siblings_prev = None, siblings_next = None, children_prev = None,
      children_next = child, valid = True,
      body = Env \<lparr>env = Some 100, main_db = Some 1, readonly = ro\<rparr>\<rparr>"

definition db_obj :: "nat option \<Rightarrow> lmdb_object" where
  "db_obj prv =
     \<lparr>siblings_prev = prv, siblings_next = None, children_prev = None,
      children_next = None, valid = True, body = Db \<lparr>d_env = Some 0, dbi = 1\<rparr>\<rparr>"

definition txn_obj :: "nat option \<Rightarrow> lmdb_object" where
  "txn_obj child =
     \<lparr>siblings_prev = None, siblings_next = Some 1, children_prev = None,
      children_next = child, valid = True,
      body = Trans \<lparr>t_env = Some 0, txn = Some 102, buffers = False, t_key_buf = None\<rparr>\<rparr>"

definition cursor_obj :: lmdb_object where
  "cursor_obj =
     \<lparr>siblings_prev = None, siblings_next = None, children_prev = None,
      children_next = None, valid = True,
      body = Cursor \<lparr>trans = Some 2, positioned = False, curs = Some 103, key_buf = None,
                     val_buf = None, item_tup = None, key = [], val = []\<rparr>\<rparr>"

text \<open>
  The open environment after \<^verbatim>\<open>close()\<close>. The walk over its one child, the main
  database, returns within two units of fuel.
\<close>

definition demo_closed :: "bool \<Rightarrow> mdb_reply list \<Rightarrow> (mdb_reply list) world" where
  "demo_closed ro rest =
     (case env_close X0 2 0 (demo_env ro (reply 0 # rest)) of
        Some (r, s) \<Rightarrow> s
      | None \<Rightarrow> demo_env ro (reply 0 # rest))"

text \<open>
  The transaction of \<open>demo_cursor\<close> after \<^verbatim>\<open>abort()\<close>, and the transaction of \<open>demo_txn\<close>
  after \<^verbatim>\<open>commit()\<close>.
\<close>

definition demo_aborted :: "mdb_reply list \<Rightarrow> (mdb_reply list) world" where
  "demo_aborted rest =
     (case trans_abort X0 2 2 (demo_cursor False (reply 0 # reply 0 # rest)) of
        Some (r, s) \<Rightarrow> s
      | None \<Rightarrow> demo_cursor False (reply 0 # reply 0 # rest))"

definition demo_committed :: "mdb_reply list \<Rightarrow> (mdb_reply list) world" where
  "demo_committed rest =
     (case trans_commit X0 0 2 (demo_txn False (reply 0 # rest)) of
        Some (r, s) \<Rightarrow> s
      | None \<Rightarrow> demo_txn False (reply 0 # rest))"

text \<open>A successful reply to \<^verbatim>\<open>mdb_cursor_get\<close> that lands on the pair \<open>(k, v)\<close>.\<close>

definition found :: "bytes \<Rightarrow> bytes \<Rightarrow> mdb_reply" where
  "found k v = (reply 0)\<lparr>out_key := k, out_val := v\<rparr>"




subsection \<open>Batches\<close>




text \<open>
  The result list that a batch of puts is to return: \<^verbatim>\<open>True\<close> for each put the engine
  answered with success, \<^verbatim>\<open>False\<close> for each it did not.
\<close>

definition put_results :: "(mdb_call \<times> mdb_reply) list \<Rightarrow> pyobj list" where
  "put_results cs =
     List.map_filter
       (\<lambda>(c, r). case put_flags_of c of
                   None \<Rightarrow> None
                 | Some f \<Rightarrow> Some (if rc r = 0 then Py_True else Py_False)) cs"

subsection \<open>Validity across a call\<close>

text \<open>The type of a handle, and whether the handle at an address is valid.\<close>

datatype kind = K_env | K_db | K_trans | K_cursor

fun kind_of :: "body \<Rightarrow> kind" where
  "kind_of (Env e) = K_env"
| "kind_of (Db d) = K_db"
| "kind_of (Trans t) = K_trans"
| "kind_of (Cursor c) = K_cursor"

definition is_valid :: "'e world \<Rightarrow> nat \<Rightarrow> bool" where
  "is_valid s a = (case heap s a of None \<Rightarrow> False | Some ob \<Rightarrow> valid ob)"

text \<open>
  \<open>keeps s s' a\<close>: from \<open>s\<close> to \<open>s'\<close> the address \<open>a\<close> holds an object in both states or in
  neither; the object is a handle of the same type, and it is not valid in \<open>s'\<close> unless
  it was in \<open>s\<close>.
\<close>

definition keeps :: "'e world \<Rightarrow> 'e world \<Rightarrow> nat \<Rightarrow> bool" where
  "keeps s s' a =
     (case heap s a of
        None \<Rightarrow> heap s' a = None
      | Some ob \<Rightarrow>
          (case heap s' a of
             None \<Rightarrow> False
           | Some ob' \<Rightarrow> kind_of (body ob') = kind_of (body ob) \<and> (valid ob' \<longrightarrow> valid ob)))"

section \<open>Facts about the model\<close>

subsection \<open>The trace\<close>

lemma UNLOCKED_fields:
  "UNLOCKED X c s = (r, s') \<Longrightarrow>
     heap s' = heap s \<and> next_addr s' = next_addr s \<and> trace s' = trace s @ [(c, r)] \<and>
     r = fst (mdb X c (engine s))"
  by (auto simp: UNLOCKED_def split: prod.splits)

lemma UNLOCKED_snd [simp]:
  "heap (snd (UNLOCKED X c s)) = heap s"
  "next_addr (snd (UNLOCKED X c s)) = next_addr s"
  "trace (snd (UNLOCKED X c s)) = trace s @ [(c, fst (mdb X c (engine s)))]"
  by (auto simp: UNLOCKED_def split: prod.splits)

lemma UNLOCKED_fst [simp]: "fst (UNLOCKED X c s) = fst (mdb X c (engine s))"
  by (simp add: UNLOCKED_def split: prod.splits)

lemma new_calls_UNLOCKED [simp]:
  "new_calls s (snd (UNLOCKED X c s)) = [(c, fst (mdb X c (engine s)))]"
  by (simp add: new_calls_def)

lemma trace_upd [simp]: "trace (upd a f s) = trace s"
  by (simp add: upd_def split: option.splits)

lemma trace_link_child [simp]: "trace (link_child p c s) = trace s"
  by (simp add: link_child_def Let_def split: option.splits)

lemma trace_unlink_child [simp]: "trace (unlink_child p c s) = trace s"
  by (simp add: unlink_child_def Let_def split: option.splits)

lemma trace_db_clear [simp]: "trace (db_clear a s) = trace s"
  by (simp add: db_clear_def Let_def split: option.splits prod.splits)

lemma trace_PyObject_Del [simp]: "trace (PyObject_Del a s) = trace s"
  by (simp add: PyObject_Del_def)

lemma trace_PyObject_New [simp]: "trace (snd (PyObject_New ob s)) = trace s"
  by (simp add: PyObject_New_def)

lemma new_calls_same [simp]: "new_calls s s = []"
  by (simp add: new_calls_def)

lemma new_calls_append: "trace s' = trace s @ cs \<Longrightarrow> new_calls s s' = cs"
  by (simp add: new_calls_def)

lemma extends_by_refl [simp]: "extends_by P s s"
  by (simp add: extends_by_def)

lemma extends_by_same_trace: "trace s' = trace s \<Longrightarrow> extends_by P s s'"
  by (simp add: extends_by_def)

lemma extends_by_trans: "extends_by P s s1 \<Longrightarrow> extends_by P s1 s2 \<Longrightarrow> extends_by P s s2"
  by (auto simp: extends_by_def)

lemma extends_by_UNLOCKED: "P (c, fst (mdb X c (engine s))) \<Longrightarrow> extends_by P s (snd (UNLOCKED X c s))"
  by (auto simp: extends_by_def UNLOCKED_def split: prod.splits)

lemma extends_by_UNLOCKED': "UNLOCKED X c s = (r, s') \<Longrightarrow> P (c, r) \<Longrightarrow> extends_by P s s'"
  by (auto simp: extends_by_def UNLOCKED_def split: prod.splits)

lemma extends_by_trace_eq: "extends_by P s s1 \<Longrightarrow> trace s2 = trace s1 \<Longrightarrow> extends_by P s s2"
  by (simp add: extends_by_def)

lemma extends_by_new_calls: "extends_by P s s' \<Longrightarrow> list_all P (new_calls s s')"
  by (auto simp: extends_by_def new_calls_def)

lemma extends_by_mono: "extends_by P s s' \<Longrightarrow> (\<And>x. P x \<Longrightarrow> Q x) \<Longrightarrow> extends_by Q s s'"
  by (auto simp: extends_by_def list_all_iff)

lemma peel_UNLOCKED:
  "extends_by P s s' \<Longrightarrow> P (c, fst (mdb X c (engine s'))) \<Longrightarrow>
   extends_by P s (snd (UNLOCKED X c s'))"
  by (rule extends_by_trans [OF _ extends_by_UNLOCKED])

lemma peel_upd: "extends_by P s s' \<Longrightarrow> extends_by P s (upd a f s')"
  by (erule extends_by_trace_eq) simp

lemma reply_simps [simp]:
  "rc (reply c) = c" "out_ptr (reply c) = None" "out_dbi (reply c) = 0"
  "out_key (reply c) = []" "out_val (reply c) = []" "out_count (reply c) = 0"
  by (simp_all add: reply_def)

lemma ptr_simps [simp]:
  "rc (ptr n) = 0" "out_ptr (ptr n) = Some n"
  by (simp_all add: ptr_def)

lemmas run_defs =
  X0_def lmdb_0_9_def scripted_def world0_def
  parse_args_def PyObject_New_def PyObject_Del_def OBJECT_INIT_def UNLOCKED_def upd_def
  map_env_def map_db_def map_trans_def map_cursor_def env_fld_def trans_fld_def cursor_fld_def
  get_env_def get_db_def get_trans_def get_cursor_def or_default_def Let_def
  link_child_def unlink_child_def rd_def db_dbi_def mv_size_def mv_bytes_def

lemma demo_env_eq:
  "demo_env ro rest =
     \<lparr>heap = [0 \<mapsto> env_obj ro (Some 1), 1 \<mapsto> db_obj None],
      next_addr = 2, engine = rest, trace = open_trace ro\<rparr>"
  by (cases ro)
     (auto simp: demo_env_def env_new_def env_new_open_def txn_db_from_name_def db_from_name_def
        open_script_def new_default_def open_trace_def env_obj_def db_obj_def run_defs)

lemma demo_txn_eq:
  "demo_txn ro rest =
     \<lparr>heap = [0 \<mapsto> env_obj ro (Some 2), 1 \<mapsto> db_obj (Some 2), 2 \<mapsto> txn_obj None],
      next_addr = 3, engine = rest,
      trace = open_trace ro @ [(Mdb_txn_begin (Some 100) None (if ro then 0x20000 else 0), ptr 102)]\<rparr>"
  by (cases ro)
     (auto simp: demo_txn_def demo_env_eq env_begin_def make_trans_def
        env_obj_def db_obj_def txn_obj_def run_defs)

lemma demo_txn_trace:
  "trace (demo_txn ro rest) =
     open_trace ro @ [(Mdb_txn_begin (Some 100) None (if ro then 0x20000 else 0), ptr 102)]"
  by (simp add: demo_txn_eq)

lemma demo_cursor_eq:
  "demo_cursor ro rest =
     \<lparr>heap = [0 \<mapsto> env_obj ro (Some 2), 1 \<mapsto> db_obj (Some 2), 2 \<mapsto> txn_obj (Some 3),
              3 \<mapsto> cursor_obj],
      next_addr = 4, engine = rest,
      trace = open_trace ro @ [(Mdb_txn_begin (Some 100) None (if ro then 0x20000 else 0), ptr 102),
                               (Mdb_cursor_open (Some 102) 1, ptr 103)]\<rparr>"
  by (cases ro)
     (auto simp: demo_cursor_def demo_txn_eq trans_cursor_def trans_main_db_def make_cursor_def
        env_obj_def db_obj_def txn_obj_def cursor_obj_def run_defs)

lemma demo_cursor_trace:
  "trace (demo_cursor ro rest) =
     open_trace ro @ [(Mdb_txn_begin (Some 100) None (if ro then 0x20000 else 0), ptr 102),
                      (Mdb_cursor_open (Some 102) 1, ptr 103)]"
  by (simp add: demo_cursor_eq)

lemma demo_env_trace: "trace (demo_env ro rest) = open_trace ro"
  by (simp add: demo_env_eq)

subsection \<open>Deleting\<close>

text \<open>The data pointer that \<^verbatim>\<open>generic_delete\<close> hands to \<^verbatim>\<open>mdb_del\<close>.\<close>

lemma generic_delete_extends:
  assumes "\<And>tx di k r. P (Mdb_del tx di k
              (case a of Inr arg \<Rightarrow> if mv_size (d_value arg) \<noteq> 0 then d_value arg else None
                       | Inl e \<Rightarrow> None), r)"
  shows "extends_by P s (snd (generic_delete X vld tx db a s))"
  using assms
  by (auto simp: generic_delete_def parse_args_def Let_def
           split: sum.splits option.splits prod.splits if_splits
           intro: extends_by_UNLOCKED')

lemma trans_delete_extends:
  assumes "\<And>tx di k r. P (Mdb_del tx di k
              (case a of Inr arg \<Rightarrow> if mv_size (d_value arg) \<noteq> 0 then d_value arg else None
                       | Inl e \<Rightarrow> None), r)"
  shows "extends_by P s (snd (trans_delete X t a s))"
  using generic_delete_extends [of P a, OF assms]
  by (auto simp: trans_delete_def split: option.splits)

lemma env_delete_extends:
  assumes d: "\<And>tx di k r. P (Mdb_del tx di k
              (case a of Inr arg \<Rightarrow> if mv_size (d_value arg) \<noteq> 0 then d_value arg else None
                       | Inl e \<Rightarrow> None), r)"
      and b: "\<And>e p f r. P (Mdb_txn_begin e p f, r)"
      and c: "\<And>p r. P (Mdb_txn_commit p, r)" "\<And>p r. P (Mdb_txn_abort p, r)"
  shows "extends_by P s (snd (env_delete X e a s))"
proof -
  have gd: "extends_by P s1 s2" if "generic_delete X vld tx db a s1 = (res, s2)"
    for vld tx db s1 s2 res
    using generic_delete_extends [of P a s1 X vld tx db, OF d] that by simp
  show ?thesis
    unfolding env_delete_def
    by (auto split: option.splits prod.splits sum.splits
             dest!: gd UNLOCKED_fields simp: extends_by_def b c[simplified])
qed

lemma generic_delete_run:
  assumes "vld" "db_dbi s (case d_db arg of None \<Rightarrow> db | Some d \<Rightarrow> Some d) = Some di"
  shows "generic_delete X vld tx db (Inr arg) s =
          (let c = Mdb_del tx di (mv_bytes (d_key arg))
                     (if mv_size (d_value arg) \<noteq> 0 then d_value arg else None);
               r = fst (mdb X c (engine s))
           in (if rc r = 0 then Inr Py_True
               else if rc r = MDB_NOTFOUND X then Inr Py_False
               else Inl (EngineError ''mdb_del'' (rc r)),
               snd (UNLOCKED X c s)))"
  using assms
  by (simp add: generic_delete_def parse_args_def Let_def case_prod_beta)

lemma db_dbi_UNLOCKED [simp]: "db_dbi (snd (UNLOCKED X c s)) p = db_dbi s p"
  by (simp add: db_dbi_def get_db_def split: option.splits)

lemma engine_UNLOCKED [simp]: "engine (snd (UNLOCKED X c s)) = snd (mdb X c (engine s))"
  by (simp add: UNLOCKED_def case_prod_beta)

lemma new_calls_UNLOCKED2 [simp]:
  "new_calls s (snd (UNLOCKED X c2 (snd (UNLOCKED X c1 s)))) =
     [(c1, fst (mdb X c1 (engine s))), (c2, fst (mdb X c2 (snd (mdb X c1 (engine s)))))]"
  by (simp add: new_calls_def)

lemma new_calls_UNLOCKED3 [simp]:
  "new_calls s (snd (UNLOCKED X c3 (snd (UNLOCKED X c2 (snd (UNLOCKED X c1 s)))))) =
     [(c1, fst (mdb X c1 (engine s))), (c2, fst (mdb X c2 (snd (mdb X c1 (engine s))))),
      (c3, fst (mdb X c3 (snd (mdb X c2 (snd (mdb X c1 (engine s)))))))]"
  by (simp add: new_calls_def)

text \<open>
  \<^verbatim>\<open>env_delete\<close> on an open environment whose transaction the engine begins: the three
  engine calls it makes, and its result.
\<close>

lemma env_delete_run:
  assumes "get_env s e = Some (ob, ev)" "valid ob"
      and "rc (fst (mdb X (Mdb_txn_begin (env ev) None 0) (engine s))) = 0"
      and "db_dbi s (case d_db arg of None \<Rightarrow> main_db ev | Some d \<Rightarrow> Some d) = Some di"
  shows "(let b = Mdb_txn_begin (env ev) None 0;
              r0 = fst (mdb X b (engine s));
              d = Mdb_del (out_ptr r0) di (mv_bytes (d_key arg))
                    (if mv_size (d_value arg) \<noteq> 0 then d_value arg else None);
              r1 = fst (mdb X d (snd (mdb X b (engine s))));
              c = (if rc r1 = 0 \<or> rc r1 = MDB_NOTFOUND X then Mdb_txn_commit (out_ptr r0)
                   else Mdb_txn_abort (out_ptr r0));
              r2 = fst (mdb X c (snd (mdb X d (snd (mdb X b (engine s))))))
          in new_calls s (snd (env_delete X e (Inr arg) s)) = [(b, r0), (d, r1), (c, r2)] \<and>
             fst (env_delete X e (Inr arg) s) =
               (if rc r1 = 0 \<or> rc r1 = MDB_NOTFOUND X
                then (if rc r2 \<noteq> 0 then Inl (EngineError ''mdb_txn_commit'' (rc r2))
                      else if rc r1 = 0 then Inr Py_True else Inr Py_False)
                else Inl (EngineError ''mdb_del'' (rc r1))))"
  using assms
  by (simp add: env_delete_def case_prod_beta generic_delete_run Let_def)

section \<open>The claims\<close>

text \<open>
  C9. A delete on a transaction or an environment that is given a zero-length value
  behaves exactly as the same delete given no value: result and state are equal. On an
  active transaction it makes one call to \<^verbatim>\<open>mdb_del\<close>, and on an open environment
  whose implicit transaction the engine begins it makes one between the begin and the
  end of that transaction; the call is passed a \<^verbatim>\<open>NULL\<close> data pointer, the engine's
  request to remove all values stored under the key, and no other \<^verbatim>\<open>mdb_del\<close> is made.
\<close>

theorem C9_delete_empty_value_as_no_value:
  "trans_delete X t (Inr (arg\<lparr>d_value := Some []\<rparr>)) s =
     trans_delete X t (Inr (arg\<lparr>d_value := None\<rparr>)) s \<and>
   env_delete X e (Inr (arg\<lparr>d_value := Some []\<rparr>)) s =
     env_delete X e (Inr (arg\<lparr>d_value := None\<rparr>)) s \<and>
   (get_trans s t = Some (tob, tv) \<and> valid tob \<and> trans_main_db s t = Some main \<and>
    db_dbi s (case d_db arg of None \<Rightarrow> main | Some d \<Rightarrow> Some d) = Some di \<longrightarrow>
      new_calls s (snd (trans_delete X t (Inr (arg\<lparr>d_value := Some []\<rparr>)) s)) =
        [(Mdb_del (txn tv) di (mv_bytes (d_key arg)) None,
          fst (mdb X (Mdb_del (txn tv) di (mv_bytes (d_key arg)) None) (engine s)))]) \<and>
   (get_env s e = Some (eob, ev) \<and> valid eob \<and>
    rc (fst (mdb X (Mdb_txn_begin (env ev) None 0) (engine s))) = 0 \<and>
    db_dbi s (case d_db arg of None \<Rightarrow> main_db ev | Some d \<Rightarrow> Some d) = Some dj \<longrightarrow>
      (let b = Mdb_txn_begin (env ev) None 0;
           r0 = fst (mdb X b (engine s));
           d = Mdb_del (out_ptr r0) dj (mv_bytes (d_key arg)) None;
           r1 = fst (mdb X d (snd (mdb X b (engine s))));
           c = (if rc r1 = 0 \<or> rc r1 = MDB_NOTFOUND X then Mdb_txn_commit (out_ptr r0)
                else Mdb_txn_abort (out_ptr r0))
       in new_calls s (snd (env_delete X e (Inr (arg\<lparr>d_value := Some []\<rparr>)) s)) =
            [(b, r0), (d, r1), (c, fst (mdb X c (snd (mdb X d (snd (mdb X b (engine s)))))))])) \<and>
   list_all (\<lambda>(c, r). \<forall>tx di k v. c = Mdb_del tx di k v \<longrightarrow> v = None)
     (new_calls s (snd (trans_delete X t (Inr (arg\<lparr>d_value := Some []\<rparr>)) s))) \<and>
   list_all (\<lambda>(c, r). \<forall>tx di k v. c = Mdb_del tx di k v \<longrightarrow> v = None)
     (new_calls s (snd (env_delete X e (Inr (arg\<lparr>d_value := Some []\<rparr>)) s)))"
proof -
  have g: "generic_delete X vld tx db (Inr (arg\<lparr>d_value := Some []\<rparr>)) s' =
           generic_delete X vld tx db (Inr (arg\<lparr>d_value := None\<rparr>)) s'" for vld tx db s'
    by (auto simp: generic_delete_def parse_args_def mv_size_def
             split: option.splits prod.splits)
  have 1: "trans_delete X t (Inr (arg\<lparr>d_value := Some []\<rparr>)) s =
           trans_delete X t (Inr (arg\<lparr>d_value := None\<rparr>)) s"
    by (auto simp: trans_delete_def g split: option.splits prod.splits)
  have 2: "env_delete X e (Inr (arg\<lparr>d_value := Some []\<rparr>)) s =
           env_delete X e (Inr (arg\<lparr>d_value := None\<rparr>)) s"
    by (auto simp: env_delete_def g split: option.splits prod.splits)
  have 3: "list_all (\<lambda>(c, r). \<forall>tx di k v. c = Mdb_del tx di k v \<longrightarrow> v = None)
             (new_calls s (snd (trans_delete X t (Inr (arg\<lparr>d_value := Some []\<rparr>)) s)))"
    by (rule extends_by_new_calls, rule trans_delete_extends) (simp add: mv_size_def)
  have 4: "list_all (\<lambda>(c, r). \<forall>tx di k v. c = Mdb_del tx di k v \<longrightarrow> v = None)
             (new_calls s (snd (env_delete X e (Inr (arg\<lparr>d_value := Some []\<rparr>)) s)))"
    by (rule extends_by_new_calls, rule env_delete_extends) (simp_all add: mv_size_def)
  have 5: "new_calls s (snd (trans_delete X t (Inr (arg\<lparr>d_value := Some []\<rparr>)) s)) =
        [(Mdb_del (txn tv) di (mv_bytes (d_key arg)) None,
          fst (mdb X (Mdb_del (txn tv) di (mv_bytes (d_key arg)) None) (engine s)))]"
    if "get_trans s t = Some (tob, tv)" "valid tob" "trans_main_db s t = Some main"
       "db_dbi s (case d_db arg of None \<Rightarrow> main | Some d \<Rightarrow> Some d) = Some di"
    using that
    by (simp add: trans_delete_def generic_delete_run [where di = di] Let_def mv_size_def)
  have 6: "(let b = Mdb_txn_begin (env ev) None 0;
           r0 = fst (mdb X b (engine s));
           d = Mdb_del (out_ptr r0) dj (mv_bytes (d_key arg)) None;
           r1 = fst (mdb X d (snd (mdb X b (engine s))));
           c = (if rc r1 = 0 \<or> rc r1 = MDB_NOTFOUND X then Mdb_txn_commit (out_ptr r0)
                else Mdb_txn_abort (out_ptr r0))
       in new_calls s (snd (env_delete X e (Inr (arg\<lparr>d_value := Some []\<rparr>)) s)) =
            [(b, r0), (d, r1), (c, fst (mdb X c (snd (mdb X d (snd (mdb X b (engine s)))))))])"
    if h: "get_env s e = Some (eob, ev)" "valid eob"
       "rc (fst (mdb X (Mdb_txn_begin (env ev) None 0) (engine s))) = 0"
       "db_dbi s (case d_db arg of None \<Rightarrow> main_db ev | Some d \<Rightarrow> Some d) = Some dj"
    using env_delete_run [of s e eob ev X "arg\<lparr>d_value := Some []\<rparr>" dj] h
    by (simp add: Let_def mv_size_def)
  from 1 2 3 4 5 6 show ?thesis by blast
qed

lemma mdb_X0 [simp]:
  "mdb X0 c [] = (reply 0, [])" "mdb X0 c (r # rs) = (r, rs)"
  by (simp_all add: X0_def lmdb_0_9_def scripted_def)

lemma demo_engine [simp]:
  "engine (demo_env ro rest) = rest" "engine (demo_txn ro rest) = rest"
  "engine (demo_cursor ro rest) = rest"
  by (simp_all add: demo_env_eq demo_txn_eq demo_cursor_eq)

lemma demo_txn_handles:
  "get_trans (demo_txn ro rest) 2 =
     Some (txn_obj None, \<lparr>t_env = Some 0, txn = Some 102, buffers = False, t_key_buf = None\<rparr>)"
  "get_env (demo_txn ro rest) 0 =
     Some (env_obj ro (Some 2), \<lparr>env = Some 100, main_db = Some 1, readonly = ro\<rparr>)"
  "trans_main_db (demo_txn ro rest) 2 = Some (Some 1)"
  "db_dbi (demo_txn ro rest) (Some 1) = Some 1"
  by (simp_all add: demo_txn_eq get_trans_def get_env_def get_db_def db_dbi_def trans_main_db_def
        trans_fld_def txn_obj_def env_obj_def db_obj_def)

lemma demo_env_handles:
  "get_env (demo_env ro rest) 0 =
     Some (env_obj ro (Some 1), \<lparr>env = Some 100, main_db = Some 1, readonly = ro\<rparr>)"
  "db_dbi (demo_env ro rest) (Some 1) = Some 1"
  by (simp_all add: demo_env_eq get_env_def get_db_def db_dbi_def env_obj_def db_obj_def)

lemma demo_objs_valid [simp]:
  "valid (env_obj ro ch)" "valid (db_obj pv)" "valid (txn_obj ch)" "valid cursor_obj"
  by (simp_all add: env_obj_def db_obj_def txn_obj_def cursor_obj_def)

theorem C9_witness:
  "get_trans (demo_txn False [reply 0]) 2 =
     Some (txn_obj None, \<lparr>t_env = Some 0, txn = Some 102, buffers = False, t_key_buf = None\<rparr>) \<and>
   valid (txn_obj None) \<and>
   trans_delete X0 2 (Inr \<lparr>d_key = Some ''k'', d_value = Some [], d_db = None\<rparr>)
       (demo_txn False [reply 0]) =
     trans_delete X0 2 (Inr \<lparr>d_key = Some ''k'', d_value = None, d_db = None\<rparr>)
       (demo_txn False [reply 0]) \<and>
   new_calls (demo_txn False [reply 0])
     (snd (trans_delete X0 2 (Inr \<lparr>d_key = Some ''k'', d_value = Some [], d_db = None\<rparr>)
             (demo_txn False [reply 0]))) = [(Mdb_del (Some 102) 1 ''k'' None, reply 0)] \<and>
   get_env (demo_env False [ptr 102, reply 0, reply 0]) 0 =
     Some (env_obj False (Some 1), \<lparr>env = Some 100, main_db = Some 1, readonly = False\<rparr>) \<and>
   valid (env_obj False (Some 1)) \<and>
   new_calls (demo_env False [ptr 102, reply 0, reply 0])
     (snd (env_delete X0 0 (Inr \<lparr>d_key = Some ''k'', d_value = Some [], d_db = None\<rparr>)
             (demo_env False [ptr 102, reply 0, reply 0]))) =
     [(Mdb_txn_begin (Some 100) None 0, ptr 102), (Mdb_del (Some 102) 1 ''k'' None, reply 0),
      (Mdb_txn_commit (Some 102), reply 0)]"
proof -
  let ?arg = "\<lparr>d_key = Some ''k'', d_value = None, d_db = None\<rparr>"
  let ?s = "demo_txn False [reply 0]"
  let ?s' = "demo_env False [ptr 102, reply 0, reply 0]"
  have a: "trans_delete X0 2 (Inr \<lparr>d_key = Some ''k'', d_value = Some [], d_db = None\<rparr>) ?s =
           trans_delete X0 2 (Inr ?arg) ?s"
    using C9_delete_empty_value_as_no_value [of X0 2 ?arg ?s 0, THEN conjunct1] by simp
  have gt: "get_trans ?s 2 =
     Some (txn_obj None, \<lparr>t_env = Some 0, txn = Some 102, buffers = False, t_key_buf = None\<rparr>)"
    by (rule demo_txn_handles)
  have dt: "db_dbi ?s (case d_db ?arg of None \<Rightarrow> Some 1 | Some d \<Rightarrow> Some d) = Some 1"
    using demo_txn_handles(4) [of False "[reply 0]"] by simp
  from C9_delete_empty_value_as_no_value
         [of X0 2 ?arg ?s 0 "txn_obj None"
             "\<lparr>t_env = Some 0, txn = Some 102, buffers = False, t_key_buf = None\<rparr>"
             "Some 1" 1, THEN conjunct2, THEN conjunct2, THEN conjunct1, rule_format,
          OF conjI [OF gt conjI [OF demo_objs_valid(3) conjI [OF demo_txn_handles(3) dt]]]]
  have b: "new_calls ?s
     (snd (trans_delete X0 2 (Inr \<lparr>d_key = Some ''k'', d_value = Some [], d_db = None\<rparr>) ?s)) =
       [(Mdb_del (Some 102) 1 ''k'' None, reply 0)]"
    by (simp add: mv_bytes_def)
  have ge: "get_env ?s' 0 =
     Some (env_obj False (Some 1), \<lparr>env = Some 100, main_db = Some 1, readonly = False\<rparr>)"
    by (rule demo_env_handles)
  have rb: "rc (fst (mdb X0 (Mdb_txn_begin
                 (env \<lparr>env = Some 100, main_db = Some 1, readonly = False\<rparr>) None 0)
               (engine ?s'))) = 0"
    by simp
  have de: "db_dbi ?s' (case d_db ?arg of
                          None \<Rightarrow> main_db \<lparr>env = Some 100, main_db = Some 1, readonly = False\<rparr>
                        | Some d \<Rightarrow> Some d) = Some 1"
    using demo_env_handles(2) [of False "[ptr 102, reply 0, reply 0]"] by simp
  from C9_delete_empty_value_as_no_value
         [of X0 2 ?arg ?s' 0 _ _ _ _ "env_obj False (Some 1)"
             "\<lparr>env = Some 100, main_db = Some 1, readonly = False\<rparr>" 1,
          THEN conjunct2, THEN conjunct2, THEN conjunct2, THEN conjunct1, rule_format,
          OF conjI [OF ge conjI [OF demo_objs_valid(1) conjI [OF rb de]]]]
  have c: "new_calls ?s'
     (snd (env_delete X0 0 (Inr \<lparr>d_key = Some ''k'', d_value = Some [], d_db = None\<rparr>) ?s')) =
     [(Mdb_txn_begin (Some 100) None 0, ptr 102), (Mdb_del (Some 102) 1 ''k'' None, reply 0),
      (Mdb_txn_commit (Some 102), reply 0)]"
    by (simp add: mv_bytes_def Let_def)
  show ?thesis
    by (intro conjI a b c gt ge demo_objs_valid)
qed

subsection \<open>Iterating\<close>

lemma trace_cursor_value [simp]: "trace (snd (cursor_value X c s)) = trace s"
  by (simp add: cursor_value_def split: option.splits bool.splits)

lemma trace_cursor_key [simp]: "trace (snd (cursor_key X c s)) = trace s"
  by (simp add: cursor_key_def split: option.splits bool.splits)

lemma trace_cursor_item [simp]: "trace (snd (cursor_item X c s)) = trace s"
  by (simp add: cursor_item_def split: option.splits bool.splits)

lemma trace_call_val_func [simp]: "trace (snd (call_val_func X f c s)) = trace s"
  by (cases f) (simp_all add: call_val_func_def)



text \<open>The only engine call that iteration makes is \<^verbatim>\<open>mdb_cursor_get\<close>.\<close>

lemma peel_cursor_get_c:
  assumes "extends_by P s s'" and "\<And>c k v cop r. P (Mdb_cursor_get c k v cop, r)"
  shows "extends_by P s (snd (cursor_get_c X c cop s'))"
  by (simp add: cursor_get_c_def case_prod_beta Let_def split: option.splits)
     (intro conjI impI allI peel_upd peel_UNLOCKED assms)

lemma peel_same_trace: "extends_by P s s' \<Longrightarrow> trace s'' = trace s' \<Longrightarrow> extends_by P s s''"
  by (rule extends_by_trace_eq)

lemma peel_iter_next:
  assumes "extends_by P s s'" and "\<And>c k v cop r. P (Mdb_cursor_get c k v cop, r)"
  shows "extends_by P s (snd (snd (iter_next X it s')))"
proof -
  have a: "extends_by P s (snd (cursor_get_c X c cop s'))" for c cop
    by (rule peel_cursor_get_c [OF assms])
  have b: "extends_by P s (snd (call_val_func X f c s1))" if "extends_by P s s1" for f c s1
    by (rule peel_same_trace [OF that]) simp
  show ?thesis
    by (simp add: iter_next_def case_prod_beta split: option.splits sum.splits)
       (intro conjI impI allI a b assms(1))
qed

lemma peel_cursor_iter:
  assumes "extends_by P s s'" and "\<And>c k v cop r. P (Mdb_cursor_get c k v cop, r)"
  shows "extends_by P s (snd (cursor_iter X c s'))"
  by (simp add: cursor_iter_def iter_from_args_def no_iter_args_def parse_args_def
        case_prod_beta split: option.splits)
     (intro conjI impI allI peel_cursor_get_c assms)

lemma peel_PyObject_GetIter:
  assumes "extends_by P s s'" and "\<And>c k v cop r. P (Mdb_cursor_get c k v cop, r)"
  shows "extends_by P s (snd (PyObject_GetIter X obj s'))"
  by (simp add: PyObject_GetIter_def case_prod_beta
           split: pyobj.splits option.splits sum.splits)
     (intro conjI impI allI peel_cursor_iter assms)

lemma peel_PyIter_Next:
  assumes "extends_by P s s'" and "\<And>c k v cop r. P (Mdb_cursor_get c k v cop, r)"
  shows "extends_by P s (snd (snd (PyIter_Next X it s')))"
proof (cases it)
  case (Seq_iter xs e)
  then show ?thesis
    using assms(1) by (cases xs; cases e) simp_all
next
  case (Obj_iter i)
  then show ?thesis
    by (simp add: case_prod_beta peel_iter_next [OF assms])
qed

subsection \<open>Putting\<close>

text \<open>The flags word the three put paths compute from their boolean arguments.\<close>

lemma generic_put_run:
  assumes "vld" "db_dbi s (case p_db arg of None \<Rightarrow> db | Some d \<Rightarrow> Some d) = Some di"
  shows "snd (generic_put X vld tx db (Inr arg) s) =
          snd (UNLOCKED X (Mdb_put tx di (mv_bytes (p_key arg)) (mv_bytes (p_value arg))
                  ((if \<not> or_default False (p_dupdata arg) then MDB_NODUPDATA X else 0) OR
                   (if \<not> or_default True (p_overwrite arg) then MDB_NOOVERWRITE X else 0) OR
                   (if or_default False (p_append arg) then MDB_APPEND X else 0))) s)"
  using assms
  by (simp add: generic_put_def parse_args_def Let_def case_prod_beta or.assoc)

lemma generic_put_skip:
  assumes "\<not> (vld \<and> (\<exists>arg. a = Inr arg \<and>
               db_dbi s (case p_db arg of None \<Rightarrow> db | Some d \<Rightarrow> Some d) \<noteq> None))"
  shows "snd (generic_put X vld tx db a s) = s"
  using assms
  by (cases a) (auto simp: generic_put_def parse_args_def Let_def split: option.splits)

lemma generic_put_extends:
  assumes "\<And>tx di k v r arg. a = Inr arg \<Longrightarrow>
             P (Mdb_put tx di k v
                  ((if \<not> or_default False (p_dupdata arg) then MDB_NODUPDATA X else 0) OR
                   (if \<not> or_default True (p_overwrite arg) then MDB_NOOVERWRITE X else 0) OR
                   (if or_default False (p_append arg) then MDB_APPEND X else 0)), r)"
  shows "extends_by P s (snd (generic_put X vld tx db a s))"
proof (cases "vld \<and> (\<exists>arg. a = Inr arg \<and>
                db_dbi s (case p_db arg of None \<Rightarrow> db | Some d \<Rightarrow> Some d) \<noteq> None)")
  case False
  from generic_put_skip [OF this] show ?thesis by simp
next
  case True
  then obtain arg di where a: "a = Inr arg" and v: vld
    and di: "db_dbi s (case p_db arg of None \<Rightarrow> db | Some d \<Rightarrow> Some d) = Some di"
    by blast
  show ?thesis
    unfolding a generic_put_run [OF v di]
    by (rule extends_by_UNLOCKED, rule assms [OF a])
qed

lemma trans_put_extends:
  assumes "\<And>tx di k v r arg. a = Inr arg \<Longrightarrow>
             P (Mdb_put tx di k v
                  ((if \<not> or_default False (p_dupdata arg) then MDB_NODUPDATA X else 0) OR
                   (if \<not> or_default True (p_overwrite arg) then MDB_NOOVERWRITE X else 0) OR
                   (if or_default False (p_append arg) then MDB_APPEND X else 0)), r)"
  shows "extends_by P s (snd (trans_put X t a s))"
  using generic_put_extends [of a P X, OF assms]
  by (auto simp: trans_put_def split: option.splits)

lemma peel_generic_put:
  assumes "extends_by P s s'"
      and "\<And>tx di k v r arg. a = Inr arg \<Longrightarrow>
             P (Mdb_put tx di k v
                  ((if \<not> or_default False (p_dupdata arg) then MDB_NODUPDATA X else 0) OR
                   (if \<not> or_default True (p_overwrite arg) then MDB_NOOVERWRITE X else 0) OR
                   (if or_default False (p_append arg) then MDB_APPEND X else 0)), r)"
  shows "extends_by P s (snd (generic_put X vld tx db a s'))"
  by (rule extends_by_trans [OF assms(1) generic_put_extends]) (rule assms(2))

lemma env_put_extends:
  assumes d: "\<And>tx di k v r arg. a = Inr arg \<Longrightarrow>
             P (Mdb_put tx di k v
                  ((if \<not> or_default False (p_dupdata arg) then MDB_NODUPDATA X else 0) OR
                   (if \<not> or_default True (p_overwrite arg) then MDB_NOOVERWRITE X else 0) OR
                   (if or_default False (p_append arg) then MDB_APPEND X else 0)), r)"
      and b: "\<And>e p f r. P (Mdb_txn_begin e p f, r)"
      and c: "\<And>p r. P (Mdb_txn_commit p, r)" "\<And>p r. P (Mdb_txn_abort p, r)"
  shows "extends_by P s (snd (env_put X e a s))"
  unfolding env_put_def
  by (simp add: case_prod_beta split: option.splits sum.splits)
     (intro conjI impI allI peel_UNLOCKED peel_generic_put extends_by_refl b c d; assumption)

lemma peel_env_puts_loop:
  assumes "extends_by P s s'" and "\<And>di k v r. P (Mdb_put tx di k v flags, r)"
      and g: "\<And>c k v cop r. P (Mdb_cursor_get c k v cop, r)"
  shows "extends_by P s (snd (env_puts_loop n X tx db flags it list s'))"
  using assms(1)
proof (induction n arbitrary: it list s')
  case 0
  then show ?case by simp
next
  case (Suc n)
  have nx: "extends_by P s (snd (snd (PyIter_Next X it s')))"
    by (rule peel_PyIter_Next [OF Suc.prems g])
  show ?case
    by (simp add: case_prod_beta split: pyobj.splits list.splits sum.splits option.splits)
       (intro conjI impI allI Suc.IH peel_UNLOCKED nx assms(2))
qed


lemma env_puts_extends:
  assumes d: "\<And>tx di k v r arg. a = Inr arg \<Longrightarrow>
             P (Mdb_put tx di k v
                  ((if \<not> or_default False (ps_dupdata arg) then MDB_NODUPDATA X else 0) OR
                   (if \<not> or_default True (ps_overwrite arg) then MDB_NOOVERWRITE X else 0) OR
                   (if or_default False (ps_append arg) then MDB_APPEND X else 0)), r)"
      and b: "\<And>e p f r. P (Mdb_txn_begin e p f, r)"
      and c: "\<And>p r. P (Mdb_txn_commit p, r)" "\<And>p r. P (Mdb_txn_abort p, r)"
      and g: "\<And>c k v cop r. P (Mdb_cursor_get c k v cop, r)"
  shows "extends_by P s (snd (env_puts X n e a s))"
proof (cases a)
  case (Inl err)
  then show ?thesis
    by (simp add: env_puts_def parse_args_def split: option.splits)
next
  case (Inr arg)
  have it: "extends_by P s
              (snd (case items of PyDict x \<Rightarrow> (Inl HostError, s)
                    | _ \<Rightarrow> PyObject_GetIter X items s))" for items
  proof -
    have "extends_by P s (snd (PyObject_GetIter X items s))"
      by (rule peel_PyObject_GetIter [of P s s, OF extends_by_refl g])
    then show ?thesis
      by (cases items) simp_all
  qed
  show ?thesis
    using d [OF Inr] b c
    apply (cases "or_default False (ps_dupdata arg)"; cases "or_default True (ps_overwrite arg)";
           cases "or_default False (ps_append arg)")
           apply (simp_all add: env_puts_def Inr case_prod_beta parse_args_def Let_def or.assoc
             split: option.splits sum.splits)
           apply (intro conjI impI allI peel_UNLOCKED peel_env_puts_loop it extends_by_refl g;
                  simp)+
    done
qed

lemma cursor_put_run:
  assumes "get_cursor s self = Some (ob, c)" "valid ob"
  shows "snd (cursor_put X self (Inr arg) s) =
          snd (UNLOCKED X (Mdb_cursor_put (curs c) (mv_bytes (cp_key arg)) (mv_bytes (cp_val arg))
                  ((if \<not> or_default False (cp_dupdata arg) then MDB_NODUPDATA X else 0) OR
                   (if \<not> or_default True (cp_overwrite arg) then MDB_NOOVERWRITE X else 0) OR
                   (if \<not> or_default False (cp_append arg) then MDB_APPEND X else 0))) s)"
  using assms
  by (simp add: cursor_put_def parse_args_def Let_def case_prod_beta or.assoc)

lemma cursor_put_skip:
  assumes "\<not> (\<exists>ob c arg. get_cursor s self = Some (ob, c) \<and> valid ob \<and> a = Inr arg)"
  shows "snd (cursor_put X self a s) = s"
  using assms
  by (cases a) (auto simp: cursor_put_def parse_args_def Let_def split: option.splits)

lemma cursor_put_extends:
  assumes "\<And>c k v r arg. a = Inr arg \<Longrightarrow>
             P (Mdb_cursor_put c k v
                  ((if \<not> or_default False (cp_dupdata arg) then MDB_NODUPDATA X else 0) OR
                   (if \<not> or_default True (cp_overwrite arg) then MDB_NOOVERWRITE X else 0) OR
                   (if \<not> or_default False (cp_append arg) then MDB_APPEND X else 0)), r)"
  shows "extends_by P s (snd (cursor_put X self a s))"
proof (cases "\<exists>ob c arg. get_cursor s self = Some (ob, c) \<and> valid ob \<and> a = Inr arg")
  case False
  from cursor_put_skip [OF this] show ?thesis by simp
next
  case True
  then obtain ob c arg where g: "get_cursor s self = Some (ob, c)" "valid ob" and a: "a = Inr arg"
    by blast
  show ?thesis
    unfolding a cursor_put_run [OF g]
    by (rule extends_by_UNLOCKED, rule assms [OF a])
qed

lemma three_flags:
  fixes a b c :: "32 word"
  assumes "a \<noteq> 0" "b \<noteq> 0" "c \<noteq> 0" "a AND b = 0" "a AND c = 0" "b AND c = 0"
  shows "flag_set a ((if d then a else 0) OR (if ow then b else 0) OR (if ap then c else 0)) = d"
    and "flag_set b ((if d then a else 0) OR (if ow then b else 0) OR (if ap then c else 0)) = ow"
    and "flag_set c ((if d then a else 0) OR (if ow then b else 0) OR (if ap then c else 0)) = ap"
proof -
  have ba: "b AND a = 0"
    by (rule trans [OF and.commute assms(4)])
  have ca: "c AND a = 0"
    by (rule trans [OF and.commute assms(5)])
  have cb: "c AND b = 0"
    by (rule trans [OF and.commute assms(6)])
  note dj' = ba ca cb
  show "flag_set a ((if d then a else 0) OR (if ow then b else 0) OR (if ap then c else 0)) = d"
    by (cases d; cases ow; cases ap)
       (simp_all add: flag_set_def bit.conj_disj_distrib2 assms dj')
  show "flag_set b ((if d then a else 0) OR (if ow then b else 0) OR (if ap then c else 0)) = ow"
    by (cases d; cases ow; cases ap)
       (simp_all add: flag_set_def bit.conj_disj_distrib2 assms dj')
  show "flag_set c ((if d then a else 0) OR (if ow then b else 0) OR (if ap then c else 0)) = ap"
    by (cases d; cases ow; cases ap)
       (simp_all add: flag_set_def bit.conj_disj_distrib2 assms dj')
qed

lemma put_flags_bits:
  assumes "write_flags_distinct X"
  shows "flag_set (MDB_NODUPDATA X)
           ((if d then MDB_NODUPDATA X else 0) OR (if ow then MDB_NOOVERWRITE X else 0) OR
            (if ap then MDB_APPEND X else 0)) = d"
    and "flag_set (MDB_NOOVERWRITE X)
           ((if d then MDB_NODUPDATA X else 0) OR (if ow then MDB_NOOVERWRITE X else 0) OR
            (if ap then MDB_APPEND X else 0)) = ow"
    and "flag_set (MDB_APPEND X)
           ((if d then MDB_NODUPDATA X else 0) OR (if ow then MDB_NOOVERWRITE X else 0) OR
            (if ap then MDB_APPEND X else 0)) = ap"
proof -
  from assms have h:
    "MDB_NODUPDATA X \<noteq> 0" "MDB_NOOVERWRITE X \<noteq> 0" "MDB_APPEND X \<noteq> 0"
    "MDB_NODUPDATA X AND MDB_NOOVERWRITE X = 0" "MDB_NODUPDATA X AND MDB_APPEND X = 0"
    "MDB_NOOVERWRITE X AND MDB_APPEND X = 0"
    unfolding write_flags_distinct_def by blast+
  show "flag_set (MDB_NODUPDATA X)
           ((if d then MDB_NODUPDATA X else 0) OR (if ow then MDB_NOOVERWRITE X else 0) OR
            (if ap then MDB_APPEND X else 0)) = d"
    by (rule three_flags(1) [OF h])
  show "flag_set (MDB_NOOVERWRITE X)
           ((if d then MDB_NODUPDATA X else 0) OR (if ow then MDB_NOOVERWRITE X else 0) OR
            (if ap then MDB_APPEND X else 0)) = ow"
    by (rule three_flags(2) [OF h])
  show "flag_set (MDB_APPEND X)
           ((if d then MDB_NODUPDATA X else 0) OR (if ow then MDB_NOOVERWRITE X else 0) OR
            (if ap then MDB_APPEND X else 0)) = ap"
    by (rule three_flags(3) [OF h])
qed

lemma put_flags_passed_all:
  assumes "extends_by (\<lambda>(c, r). case put_flags_of c of None \<Rightarrow> True | Some f \<Rightarrow> Q f) s s'"
  shows "list_all Q (put_flags_passed s s')"
proof -
  from extends_by_new_calls [OF assms]
  have "\<forall>x \<in> set (new_calls s s'). case put_flags_of (fst x) of None \<Rightarrow> True | Some f \<Rightarrow> Q f"
    by (auto simp: list_all_iff)
  then show ?thesis
    by (auto simp: put_flags_passed_def list_all_iff List.map_filter_def split: option.splits)
qed

lemma X0_consts:
  "MDB_NODUPDATA X0 = 0x20" "MDB_NOOVERWRITE X0 = 0x10" "MDB_APPEND X0 = 0x20000"
  "MDB_RDONLY X0 = 0x20000" "MDB_NOTFOUND X0 = - 30798" "MDB_KEYEXIST X0 = - 30799"
  "EINVAL X0 = 22" "ENOENT X0 = 2"
  by (simp_all add: X0_def lmdb_0_9_def)

lemma write_flags_distinct_X0: "write_flags_distinct X0"
  by (simp add: write_flags_distinct_def X0_def lmdb_0_9_def)

text \<open>
  C2 (as amended). A put that is given neither \<^verbatim>\<open>dupdata\<close> nor \<^verbatim>\<open>overwrite\<close> passes flags
  to the engine in which the no-overwrite bit is clear and the no-duplicate-data bit is
  set: \<^verbatim>\<open>dupdata\<close> defaults to false in \<^verbatim>\<open>generic_put\<close> (Transaction.put,
  Environment.put), in \<^verbatim>\<open>env_puts\<close> and in \<^verbatim>\<open>cursor_put\<close>.
\<close>

theorem C2_default_put_flags:
  assumes "write_flags_distinct X"
  shows "(p_dupdata arg = None \<and> p_overwrite arg = None \<longrightarrow>
            list_all (\<lambda>f. flag_set (MDB_NODUPDATA X) f \<and> \<not> flag_set (MDB_NOOVERWRITE X) f)
              (put_flags_passed s (snd (trans_put X t (Inr arg) s))) \<and>
            list_all (\<lambda>f. flag_set (MDB_NODUPDATA X) f \<and> \<not> flag_set (MDB_NOOVERWRITE X) f)
              (put_flags_passed s (snd (env_put X e (Inr arg) s)))) \<and>
         (ps_dupdata parg = None \<and> ps_overwrite parg = None \<longrightarrow>
            list_all (\<lambda>f. flag_set (MDB_NODUPDATA X) f \<and> \<not> flag_set (MDB_NOOVERWRITE X) f)
              (put_flags_passed s (snd (env_puts X n e (Inr parg) s)))) \<and>
         (cp_dupdata carg = None \<and> cp_overwrite carg = None \<longrightarrow>
            list_all (\<lambda>f. flag_set (MDB_NODUPDATA X) f \<and> \<not> flag_set (MDB_NOOVERWRITE X) f)
              (put_flags_passed s (snd (cursor_put X c (Inr carg) s))))"
proof -
  note bits = put_flags_bits [OF assms]
  have 1: "list_all (\<lambda>f. flag_set (MDB_NODUPDATA X) f \<and> \<not> flag_set (MDB_NOOVERWRITE X) f)
              (put_flags_passed s (snd (trans_put X t (Inr arg) s)))"
    if "p_dupdata arg = None" "p_overwrite arg = None"
    apply (rule put_flags_passed_all, rule trans_put_extends)
    apply (simp only: prod.case put_flags_of.simps option.case bits)
    apply (simp add: or_default_def that)
    done
  have 2: "list_all (\<lambda>f. flag_set (MDB_NODUPDATA X) f \<and> \<not> flag_set (MDB_NOOVERWRITE X) f)
              (put_flags_passed s (snd (env_put X e (Inr arg) s)))"
    if "p_dupdata arg = None" "p_overwrite arg = None"
    apply (rule put_flags_passed_all, rule env_put_extends)
       apply (simp only: prod.case put_flags_of.simps option.case bits)
       apply (simp_all add: or_default_def that)
    done
  have 3: "list_all (\<lambda>f. flag_set (MDB_NODUPDATA X) f \<and> \<not> flag_set (MDB_NOOVERWRITE X) f)
              (put_flags_passed s (snd (env_puts X n e (Inr parg) s)))"
    if "ps_dupdata parg = None" "ps_overwrite parg = None"
    apply (rule put_flags_passed_all, rule env_puts_extends)
       apply (simp only: prod.case put_flags_of.simps option.case bits)
       apply (simp_all add: or_default_def that)
    done
  have 4: "list_all (\<lambda>f. flag_set (MDB_NODUPDATA X) f \<and> \<not> flag_set (MDB_NOOVERWRITE X) f)
              (put_flags_passed s (snd (cursor_put X c (Inr carg) s)))"
    if "cp_dupdata carg = None" "cp_overwrite carg = None"
    apply (rule put_flags_passed_all, rule cursor_put_extends)
    apply (simp only: prod.case put_flags_of.simps option.case bits)
    apply (simp add: or_default_def that)
    done
  from 1 2 3 4 show ?thesis by blast
qed

lemma demo_trans_put:
  "trans_put X0 2
     (Inr \<lparr>p_key = Some ''k'', p_value = Some ''v'', p_dupdata = None, p_overwrite = None,
           p_append = None, p_db = None\<rparr>) (demo_txn False [reply 0]) =
   (Inr Py_True,
    (demo_txn False [])\<lparr>trace := trace (demo_txn False []) @
                            [(Mdb_put (Some 102) 1 ''k'' ''v'' 0x20, reply 0)]\<rparr>)"
  by (simp add: trans_put_def trans_main_db_def generic_put_def demo_txn_eq
        env_obj_def db_obj_def txn_obj_def run_defs)

theorem C2_witness:
  "write_flags_distinct X0 \<and>
   put_flags_passed (demo_txn False [reply 0])
     (snd (trans_put X0 2
        (Inr \<lparr>p_key = Some ''k'', p_value = Some ''v'', p_dupdata = None, p_overwrite = None,
              p_append = None, p_db = None\<rparr>) (demo_txn False [reply 0]))) \<noteq> [] \<and>
   list_all (\<lambda>f. flag_set (MDB_NODUPDATA X0) f \<and> \<not> flag_set (MDB_NOOVERWRITE X0) f)
     (put_flags_passed (demo_txn False [reply 0])
        (snd (trans_put X0 2
           (Inr \<lparr>p_key = Some ''k'', p_value = Some ''v'', p_dupdata = None, p_overwrite = None,
                 p_append = None, p_db = None\<rparr>) (demo_txn False [reply 0]))))"
proof -
  have a: "put_flags_passed (demo_txn False [reply 0])
     (snd (trans_put X0 2
        (Inr \<lparr>p_key = Some ''k'', p_value = Some ''v'', p_dupdata = None, p_overwrite = None,
              p_append = None, p_db = None\<rparr>) (demo_txn False [reply 0]))) \<noteq> []"
    by (simp add: demo_trans_put put_flags_passed_def new_calls_def demo_txn_trace
          List.map_filter_def)
  have b: "list_all (\<lambda>f. flag_set (MDB_NODUPDATA X0) f \<and> \<not> flag_set (MDB_NOOVERWRITE X0) f)
     (put_flags_passed (demo_txn False [reply 0])
        (snd (trans_put X0 2
           (Inr \<lparr>p_key = Some ''k'', p_value = Some ''v'', p_dupdata = None, p_overwrite = None,
                 p_append = None, p_db = None\<rparr>) (demo_txn False [reply 0]))))"
    using C2_default_put_flags [OF write_flags_distinct_X0,
            of "\<lparr>p_key = Some ''k'', p_value = Some ''v'', p_dupdata = None, p_overwrite = None,
                 p_append = None, p_db = None\<rparr>" "demo_txn False [reply 0]" 2]
    by simp
  show ?thesis
    by (intro conjI write_flags_distinct_X0 a b)
qed

text \<open>
  C2 as stated fails: a Transaction.put with only a key and a value reaches
  \<^verbatim>\<open>mdb_put\<close> with flags \<open>0x20\<close>, which is \<^verbatim>\<open>MDB_NODUPDATA\<close>.
\<close>

theorem C2_counterexample:
  "map fst (new_calls (demo_txn False [reply 0])
     (snd (trans_put X0 2
        (Inr \<lparr>p_key = Some ''k'', p_value = Some ''v'', p_dupdata = None, p_overwrite = None,
              p_append = None, p_db = None\<rparr>) (demo_txn False [reply 0])))) =
     [Mdb_put (Some 102) 1 ''k'' ''v'' 0x20] \<and>
   MDB_NODUPDATA X0 = 0x20 \<and> flag_set (MDB_NODUPDATA X0) 0x20"
  by (simp add: demo_trans_put new_calls_def demo_txn_trace flag_set_def X0_consts)

lemma demo_cursor_put:
  "cursor_put X0 3
     (Inr \<lparr>cp_key = Some ''k'', cp_val = Some ''v'', cp_dupdata = None, cp_overwrite = None,
           cp_append = ap\<rparr>) (demo_cursor False [reply 0]) =
   (Inr Py_True,
    (demo_cursor False [])\<lparr>trace := trace (demo_cursor False []) @
       [(Mdb_cursor_put (Some 103) ''k'' ''v'' (if ap = Some True then 0x20 else 0x20020),
         reply 0)]\<rparr>)"
  by (cases ap)
     (auto simp: cursor_put_def demo_cursor_eq
        env_obj_def db_obj_def txn_obj_def cursor_obj_def run_defs)

text \<open>
  C3. \<^verbatim>\<open>cursor_put\<close> sets \<^verbatim>\<open>MDB_APPEND\<close> when \<^verbatim>\<open>append\<close> is false: called with a key and
  a value only it passes flags \<open>0x20020\<close>, which contain \<^verbatim>\<open>MDB_APPEND\<close> (\<open>0x20000\<close>);
  called with \<^verbatim>\<open>append=True\<close> it passes \<open>0x20\<close>, which does not.
\<close>

theorem C3_cursor_put_append_inverted:
  "map fst (new_calls (demo_cursor False [reply 0])
     (snd (cursor_put X0 3
        (Inr \<lparr>cp_key = Some ''k'', cp_val = Some ''v'', cp_dupdata = None, cp_overwrite = None,
              cp_append = None\<rparr>) (demo_cursor False [reply 0])))) =
     [Mdb_cursor_put (Some 103) ''k'' ''v'' 0x20020] \<and>
   map fst (new_calls (demo_cursor False [reply 0])
     (snd (cursor_put X0 3
        (Inr \<lparr>cp_key = Some ''k'', cp_val = Some ''v'', cp_dupdata = None, cp_overwrite = None,
              cp_append = Some True\<rparr>) (demo_cursor False [reply 0])))) =
     [Mdb_cursor_put (Some 103) ''k'' ''v'' 0x20] \<and>
   MDB_APPEND X0 = 0x20000 \<and> flag_set (MDB_APPEND X0) 0x20020 \<and> \<not> flag_set (MDB_APPEND X0) 0x20"
  by (simp add: demo_cursor_put new_calls_def demo_cursor_trace flag_set_def X0_consts)

text \<open>
  The other two put paths do pass \<^verbatim>\<open>MDB_APPEND\<close> exactly when \<^verbatim>\<open>append\<close> is true, and
  \<^verbatim>\<open>cursor_put\<close> exactly when it is not.
\<close>

lemma append_flag_by_path:
  assumes "write_flags_distinct X"
  shows "list_all (\<lambda>f. flag_set (MDB_APPEND X) f = or_default False (p_append arg))
           (put_flags_passed s (snd (trans_put X t (Inr arg) s)))"
    and "list_all (\<lambda>f. flag_set (MDB_APPEND X) f = or_default False (ps_append parg))
           (put_flags_passed s (snd (env_puts X n e (Inr parg) s)))"
    and "list_all (\<lambda>f. flag_set (MDB_APPEND X) f = (\<not> or_default False (cp_append carg)))
           (put_flags_passed s (snd (cursor_put X c (Inr carg) s)))"
proof -
  note bits = put_flags_bits [OF assms]
  show "list_all (\<lambda>f. flag_set (MDB_APPEND X) f = or_default False (p_append arg))
           (put_flags_passed s (snd (trans_put X t (Inr arg) s)))"
    apply (rule put_flags_passed_all, rule trans_put_extends)
    apply (simp only: prod.case put_flags_of.simps option.case bits)
    apply simp
    done
  show "list_all (\<lambda>f. flag_set (MDB_APPEND X) f = or_default False (ps_append parg))
           (put_flags_passed s (snd (env_puts X n e (Inr parg) s)))"
    apply (rule put_flags_passed_all, rule env_puts_extends)
       apply (simp only: prod.case put_flags_of.simps option.case bits)
       apply simp_all
    done
  show "list_all (\<lambda>f. flag_set (MDB_APPEND X) f = (\<not> or_default False (cp_append carg)))
           (put_flags_passed s (snd (cursor_put X c (Inr carg) s)))"
    apply (rule put_flags_passed_all, rule cursor_put_extends)
    apply (simp only: prod.case put_flags_of.simps option.case bits)
    apply simp
    done
qed

subsection \<open>Results of the three generic operations\<close>

lemma generic_get_run:
  assumes "vld" "g_key arg = Some k"
          "db_dbi s (case g_db arg of None \<Rightarrow> db | Some d \<Rightarrow> Some d) = Some di"
          "rc (fst (mdb X (Mdb_get tx di k) (engine s))) \<noteq> 0"
  shows "generic_get X vld tx db bufs bptr (Inr arg) s =
           (let r = fst (mdb X (Mdb_get tx di k) (engine s))
            in (if rc r = MDB_NOTFOUND X then Inr (or_default Py_None (g_default arg))
                else Inl (EngineError ''mdb_get'' (rc r)),
                snd (UNLOCKED X (Mdb_get tx di k) s)))"
  using assms
  by (simp add: generic_get_def parse_args_def Let_def case_prod_beta)

lemma generic_put_result:
  assumes "vld" "db_dbi s (case p_db arg of None \<Rightarrow> db | Some d \<Rightarrow> Some d) = Some di"
  shows "fst (generic_put X vld tx db (Inr arg) s) =
           (let r = fst (mdb X (Mdb_put tx di (mv_bytes (p_key arg)) (mv_bytes (p_value arg))
                     ((if \<not> or_default False (p_dupdata arg) then MDB_NODUPDATA X else 0) OR
                      (if \<not> or_default True (p_overwrite arg) then MDB_NOOVERWRITE X else 0) OR
                      (if or_default False (p_append arg) then MDB_APPEND X else 0))) (engine s))
            in if rc r = 0 then Inr Py_True
               else if rc r = MDB_KEYEXIST X then Inr Py_False
               else Inl (EngineError ''mdb_put'' (rc r)))"
  using assms
  by (simp add: generic_put_def parse_args_def Let_def case_prod_beta or.assoc)

section \<open>The claims, continued\<close>

text \<open>
  C4. In an active transaction a not-found condition is a value, not an exception.
  Each of get, put and delete on a valid transaction makes one engine call, and
  \<^item> when the engine answers the \<^verbatim>\<open>mdb_get\<close> with \<^verbatim>\<open>MDB_NOTFOUND\<close> the result is the
    caller's default (\<^verbatim>\<open>None\<close> when none was given);
  \<^item> when it answers the \<^verbatim>\<open>mdb_put\<close> with \<^verbatim>\<open>MDB_KEYEXIST\<close> (the key exists and may not be
    overwritten) the result is \<^verbatim>\<open>False\<close>;
  \<^item> when it answers the \<^verbatim>\<open>mdb_del\<close> with \<^verbatim>\<open>MDB_NOTFOUND\<close> (the key, or the key/value
    pair when a value was given, is absent) the result is \<^verbatim>\<open>False\<close>.
\<close>

theorem C4_not_found_is_a_value:
  assumes "get_trans s t = Some (ob, tv)" "valid ob" "trans_main_db s t = Some main"
      and "MDB_NOTFOUND X \<noteq> 0" "MDB_KEYEXIST X \<noteq> 0"
  shows "(g_key garg = Some k \<and>
          db_dbi s (case g_db garg of None \<Rightarrow> main | Some d \<Rightarrow> Some d) = Some di \<and>
          rc (fst (mdb X (Mdb_get (txn tv) di k) (engine s))) = MDB_NOTFOUND X \<longrightarrow>
            fst (trans_get X t (Inr garg) s) = Inr (or_default Py_None (g_default garg)) \<and>
            new_calls s (snd (trans_get X t (Inr garg) s)) =
              [(Mdb_get (txn tv) di k, fst (mdb X (Mdb_get (txn tv) di k) (engine s)))]) \<and>
         (db_dbi s (case p_db parg of None \<Rightarrow> main | Some d \<Rightarrow> Some d) = Some dj \<and>
          rc (fst (mdb X
                 (Mdb_put (txn tv) dj (mv_bytes (p_key parg)) (mv_bytes (p_value parg))
                    ((if \<not> or_default False (p_dupdata parg) then MDB_NODUPDATA X else 0) OR
                     (if \<not> or_default True (p_overwrite parg) then MDB_NOOVERWRITE X else 0) OR
                     (if or_default False (p_append parg) then MDB_APPEND X else 0)))
                 (engine s))) = MDB_KEYEXIST X \<longrightarrow>
            fst (trans_put X t (Inr parg) s) = Inr Py_False \<and>
            new_calls s (snd (trans_put X t (Inr parg) s)) =
              [(Mdb_put (txn tv) dj (mv_bytes (p_key parg)) (mv_bytes (p_value parg))
                  ((if \<not> or_default False (p_dupdata parg) then MDB_NODUPDATA X else 0) OR
                   (if \<not> or_default True (p_overwrite parg) then MDB_NOOVERWRITE X else 0) OR
                   (if or_default False (p_append parg) then MDB_APPEND X else 0)),
                fst (mdb X
                  (Mdb_put (txn tv) dj (mv_bytes (p_key parg)) (mv_bytes (p_value parg))
                     ((if \<not> or_default False (p_dupdata parg) then MDB_NODUPDATA X else 0) OR
                      (if \<not> or_default True (p_overwrite parg) then MDB_NOOVERWRITE X else 0) OR
                      (if or_default False (p_append parg) then MDB_APPEND X else 0)))
                  (engine s)))]) \<and>
         (db_dbi s (case d_db darg of None \<Rightarrow> main | Some d \<Rightarrow> Some d) = Some dk \<and>
          rc (fst (mdb X
                 (Mdb_del (txn tv) dk (mv_bytes (d_key darg))
                    (if mv_size (d_value darg) \<noteq> 0 then d_value darg else None))
                 (engine s))) = MDB_NOTFOUND X \<longrightarrow>
            fst (trans_delete X t (Inr darg) s) = Inr Py_False \<and>
            new_calls s (snd (trans_delete X t (Inr darg) s)) =
              [(Mdb_del (txn tv) dk (mv_bytes (d_key darg))
                  (if mv_size (d_value darg) \<noteq> 0 then d_value darg else None),
                fst (mdb X
                  (Mdb_del (txn tv) dk (mv_bytes (d_key darg))
                     (if mv_size (d_value darg) \<noteq> 0 then d_value darg else None))
                  (engine s)))])"
proof (intro conjI impI; elim conjE)
  assume h: "g_key garg = Some k"
    "db_dbi s (case g_db garg of None \<Rightarrow> main | Some d \<Rightarrow> Some d) = Some di"
    "rc (fst (mdb X (Mdb_get (txn tv) di k) (engine s))) = MDB_NOTFOUND X"
  then have nz: "rc (fst (mdb X (Mdb_get (txn tv) di k) (engine s))) \<noteq> 0"
    using assms(4) by simp
  note run = generic_get_run [OF assms(2) h(1) h(2) nz, of "buffers tv" "Some t"]
  show "fst (trans_get X t (Inr garg) s) = Inr (or_default Py_None (g_default garg))"
    using assms(1,3) h(3) by (simp add: trans_get_def run Let_def)
  show "new_calls s (snd (trans_get X t (Inr garg) s)) =
          [(Mdb_get (txn tv) di k, fst (mdb X (Mdb_get (txn tv) di k) (engine s)))]"
    using assms(1,3) by (simp add: trans_get_def run Let_def)
next
  assume h: "db_dbi s (case p_db parg of None \<Rightarrow> main | Some d \<Rightarrow> Some d) = Some dj"
    "rc (fst (mdb X
           (Mdb_put (txn tv) dj (mv_bytes (p_key parg)) (mv_bytes (p_value parg))
              ((if \<not> or_default False (p_dupdata parg) then MDB_NODUPDATA X else 0) OR
               (if \<not> or_default True (p_overwrite parg) then MDB_NOOVERWRITE X else 0) OR
               (if or_default False (p_append parg) then MDB_APPEND X else 0)))
           (engine s))) = MDB_KEYEXIST X"
  show "fst (trans_put X t (Inr parg) s) = Inr Py_False"
    using assms(1,3,5) h(2)
    by (simp add: trans_put_def generic_put_result [OF assms(2) h(1)] Let_def)
  show "new_calls s (snd (trans_put X t (Inr parg) s)) =
          [(Mdb_put (txn tv) dj (mv_bytes (p_key parg)) (mv_bytes (p_value parg))
              ((if \<not> or_default False (p_dupdata parg) then MDB_NODUPDATA X else 0) OR
               (if \<not> or_default True (p_overwrite parg) then MDB_NOOVERWRITE X else 0) OR
               (if or_default False (p_append parg) then MDB_APPEND X else 0)),
            fst (mdb X
              (Mdb_put (txn tv) dj (mv_bytes (p_key parg)) (mv_bytes (p_value parg))
                 ((if \<not> or_default False (p_dupdata parg) then MDB_NODUPDATA X else 0) OR
                  (if \<not> or_default True (p_overwrite parg) then MDB_NOOVERWRITE X else 0) OR
                  (if or_default False (p_append parg) then MDB_APPEND X else 0)))
              (engine s)))]"
    using assms(1,3)
    by (simp add: trans_put_def generic_put_run [OF assms(2) h(1)])
next
  assume h: "db_dbi s (case d_db darg of None \<Rightarrow> main | Some d \<Rightarrow> Some d) = Some dk"
    "rc (fst (mdb X
           (Mdb_del (txn tv) dk (mv_bytes (d_key darg))
              (if mv_size (d_value darg) \<noteq> 0 then d_value darg else None))
           (engine s))) = MDB_NOTFOUND X"
  note run = generic_delete_run [OF assms(2) h(1), of X "txn tv"]
  show "fst (trans_delete X t (Inr darg) s) = Inr Py_False"
    using assms(1,3,4) h(2) by (simp add: trans_delete_def run Let_def)
  show "new_calls s (snd (trans_delete X t (Inr darg) s)) =
          [(Mdb_del (txn tv) dk (mv_bytes (d_key darg))
              (if mv_size (d_value darg) \<noteq> 0 then d_value darg else None),
            fst (mdb X
              (Mdb_del (txn tv) dk (mv_bytes (d_key darg))
                 (if mv_size (d_value darg) \<noteq> 0 then d_value darg else None))
              (engine s)))]"
    using assms(1,3) by (simp add: trans_delete_def run Let_def)
qed

theorem C4_witness:
  "get_trans (demo_txn False [reply (- 30798)]) 2 =
     Some (txn_obj None, \<lparr>t_env = Some 0, txn = Some 102, buffers = False, t_key_buf = None\<rparr>) \<and>
   valid (txn_obj None) \<and> MDB_NOTFOUND X0 = - 30798 \<and> MDB_KEYEXIST X0 = - 30799 \<and>
   trans_get X0 2 (Inr \<lparr>g_key = Some ''c'', g_default = Some (PyBytes ''x''), g_db = None\<rparr>)
     (demo_txn False [reply (- 30798)]) =
     (Inr (PyBytes ''x''),
      (demo_txn False [])\<lparr>trace := trace (demo_txn False []) @
                              [(Mdb_get (Some 102) 1 ''c'', reply (- 30798))]\<rparr>) \<and>
   fst (trans_get X0 2 (Inr \<lparr>g_key = Some ''c'', g_default = None, g_db = None\<rparr>)
          (demo_txn False [reply (- 30798)])) = Inr Py_None \<and>
   fst (trans_put X0 2
          (Inr \<lparr>p_key = Some ''k'', p_value = Some ''v'', p_dupdata = None,
                p_overwrite = Some False, p_append = None, p_db = None\<rparr>)
          (demo_txn False [reply (- 30799)])) = Inr Py_False \<and>
   new_calls (demo_txn False [reply (- 30799)])
     (snd (trans_put X0 2
             (Inr \<lparr>p_key = Some ''k'', p_value = Some ''v'', p_dupdata = None,
                   p_overwrite = Some False, p_append = None, p_db = None\<rparr>)
             (demo_txn False [reply (- 30799)]))) =
     [(Mdb_put (Some 102) 1 ''k'' ''v'' 0x30, reply (- 30799))] \<and>
   fst (trans_delete X0 2 (Inr \<lparr>d_key = Some ''c'', d_value = None, d_db = None\<rparr>)
          (demo_txn False [reply (- 30798)])) = Inr Py_False \<and>
   fst (trans_delete X0 2 (Inr \<lparr>d_key = Some ''c'', d_value = Some ''v'', d_db = None\<rparr>)
          (demo_txn False [reply (- 30798)])) = Inr Py_False \<and>
   new_calls (demo_txn False [reply (- 30798)])
     (snd (trans_delete X0 2 (Inr \<lparr>d_key = Some ''c'', d_value = Some ''v'', d_db = None\<rparr>)
             (demo_txn False [reply (- 30798)]))) =
     [(Mdb_del (Some 102) 1 ''c'' (Some ''v''), reply (- 30798))]"
proof -
  let ?tv = "\<lparr>t_env = Some 0, txn = Some 102, buffers = False, t_key_buf = None\<rparr>"
  let ?s = "demo_txn False [reply (- 30798)]"
  let ?s' = "demo_txn False [reply (- 30799)]"
  let ?g = "\<lparr>g_key = Some ''c'', g_default = Some (PyBytes ''x''), g_db = None\<rparr>"
  let ?g' = "\<lparr>g_key = Some ''c'', g_default = None, g_db = None\<rparr>"
  let ?p = "\<lparr>p_key = Some ''k'', p_value = Some ''v'', p_dupdata = None,
             p_overwrite = Some False, p_append = None, p_db = None\<rparr>"
  let ?d = "\<lparr>d_key = Some ''c'', d_value = None, d_db = None\<rparr>"
  let ?d' = "\<lparr>d_key = Some ''c'', d_value = Some ''v'', d_db = None\<rparr>"
  have nz: "MDB_NOTFOUND X0 \<noteq> 0" "MDB_KEYEXIST X0 \<noteq> 0"
    by (simp_all add: X0_consts)
  have gt: "get_trans (demo_txn False rest) 2 = Some (txn_obj None, ?tv)" for rest
    by (rule demo_txn_handles)
  have m: "trans_main_db (demo_txn False rest) 2 = Some (Some 1)" for rest
    by (rule demo_txn_handles)
  have dg: "g_key ?g = Some ''c'' \<and>
            db_dbi ?s (case g_db ?g of None \<Rightarrow> Some 1 | Some d \<Rightarrow> Some d) = Some 1 \<and>
            rc (fst (mdb X0 (Mdb_get (txn ?tv) 1 ''c'') (engine ?s))) = MDB_NOTFOUND X0"
    using demo_txn_handles(4) [of False "[reply (- 30798)]"] by (simp add: X0_consts)
  have dg': "g_key ?g' = Some ''c'' \<and>
            db_dbi ?s (case g_db ?g' of None \<Rightarrow> Some 1 | Some d \<Rightarrow> Some d) = Some 1 \<and>
            rc (fst (mdb X0 (Mdb_get (txn ?tv) 1 ''c'') (engine ?s))) = MDB_NOTFOUND X0"
    using demo_txn_handles(4) [of False "[reply (- 30798)]"] by (simp add: X0_consts)
  have fl: "(if \<not> or_default False (p_dupdata ?p) then MDB_NODUPDATA X0 else 0) OR
            (if \<not> or_default True (p_overwrite ?p) then MDB_NOOVERWRITE X0 else 0) OR
            (if or_default False (p_append ?p) then MDB_APPEND X0 else 0) = 0x30"
    by (simp add: X0_consts or_default_def)
  have dp: "db_dbi ?s' (case p_db ?p of None \<Rightarrow> Some 1 | Some d \<Rightarrow> Some d) = Some 1 \<and>
            rc (fst (mdb X0
                 (Mdb_put (txn ?tv) 1 (mv_bytes (p_key ?p)) (mv_bytes (p_value ?p))
                    ((if \<not> or_default False (p_dupdata ?p) then MDB_NODUPDATA X0 else 0) OR
                     (if \<not> or_default True (p_overwrite ?p) then MDB_NOOVERWRITE X0 else 0) OR
                     (if or_default False (p_append ?p) then MDB_APPEND X0 else 0)))
                 (engine ?s'))) = MDB_KEYEXIST X0"
    using demo_txn_handles(4) [of False "[reply (- 30799)]"] by (simp add: X0_consts)
  have dd: "db_dbi ?s (case d_db dl of None \<Rightarrow> Some 1 | Some d \<Rightarrow> Some d) = Some 1 \<and>
            rc (fst (mdb X0
                 (Mdb_del (txn ?tv) 1 (mv_bytes (d_key dl))
                    (if mv_size (d_value dl) \<noteq> 0 then d_value dl else None))
                 (engine ?s))) = MDB_NOTFOUND X0"
    if "d_db dl = None" for dl :: delete_args
    using demo_txn_handles(4) [of False "[reply (- 30798)]"] that by (simp add: X0_consts)
  from C4_not_found_is_a_value [OF gt [of "[reply (- 30798)]"] demo_objs_valid(3) m [of "[reply (- 30798)]"] nz,
          THEN conjunct1, rule_format, OF dg]
  have g1: "fst (trans_get X0 2 (Inr ?g) ?s) = Inr (PyBytes ''x'')"
    and g2: "new_calls ?s (snd (trans_get X0 2 (Inr ?g) ?s)) =
               [(Mdb_get (Some 102) 1 ''c'', reply (- 30798))]"
    by (simp_all add: or_default_def)
  from C4_not_found_is_a_value [OF gt [of "[reply (- 30798)]"] demo_objs_valid(3) m [of "[reply (- 30798)]"] nz,
          THEN conjunct1, rule_format, OF dg']
  have g3: "fst (trans_get X0 2 (Inr ?g') ?s) = Inr Py_None"
    by (simp add: or_default_def)
  from C4_not_found_is_a_value [OF gt [of "[reply (- 30799)]"] demo_objs_valid(3) m [of "[reply (- 30799)]"] nz,
          THEN conjunct2, THEN conjunct1, rule_format, OF dp]
  have p1: "fst (trans_put X0 2 (Inr ?p) ?s') = Inr Py_False"
    and p2: "new_calls ?s' (snd (trans_put X0 2 (Inr ?p) ?s')) =
               [(Mdb_put (Some 102) 1 ''k'' ''v'' 0x30, reply (- 30799))]"
    unfolding fl by (simp_all add: mv_bytes_def)
  from C4_not_found_is_a_value [OF gt [of "[reply (- 30798)]"] demo_objs_valid(3) m [of "[reply (- 30798)]"] nz,
          THEN conjunct2, THEN conjunct2, rule_format, OF dd, of ?d]
  have d1: "fst (trans_delete X0 2 (Inr ?d) ?s) = Inr Py_False"
    by simp
  from C4_not_found_is_a_value [OF gt [of "[reply (- 30798)]"] demo_objs_valid(3) m [of "[reply (- 30798)]"] nz,
          THEN conjunct2, THEN conjunct2, rule_format, OF dd, of ?d']
  have d2: "fst (trans_delete X0 2 (Inr ?d') ?s) = Inr Py_False"
    and d3: "new_calls ?s (snd (trans_delete X0 2 (Inr ?d') ?s)) =
               [(Mdb_del (Some 102) 1 ''c'' (Some ''v''), reply (- 30798))]"
    by (simp_all add: mv_bytes_def mv_size_def)
  have run: "trans_get X0 2 (Inr ?g) ?s =
     (Inr (PyBytes ''x''),
      (demo_txn False [])\<lparr>trace := trace (demo_txn False []) @
                              [(Mdb_get (Some 102) 1 ''c'', reply (- 30798))]\<rparr>)"
    by (simp add: trans_get_def trans_main_db_def generic_get_def demo_txn_eq
          env_obj_def db_obj_def txn_obj_def run_defs)
  show ?thesis
    by (intro conjI gt demo_objs_valid X0_consts run g3 p1 p2 d1 d2 d3)
qed

lemma demo_closed_eq:
  "env_close X0 2 0 (demo_env ro (reply 0 # rest)) = Some (Inr Py_None, demo_closed ro rest) \<and>
   demo_closed ro rest =
     \<lparr>heap = [0 \<mapsto> (env_obj ro None)\<lparr>valid := False,
                                           body := Env \<lparr>env = None, main_db = Some 1, readonly = ro\<rparr>\<rparr>,
              1 \<mapsto> (db_obj None)\<lparr>valid := False, body := Db \<lparr>d_env = None, dbi = 1\<rparr>\<rparr>],
      next_addr = 2, engine = rest,
      trace = open_trace ro @ [(Mdb_env_close (Some 100), reply 0)]\<rparr>"
  by (auto simp: demo_closed_def env_close_def invalidate_def demo_env_eq numeral_2_eq_2
        db_clear_def env_obj_def db_obj_def run_defs)

text \<open>
  C10 (as amended). On an environment that is still open and was opened read-only,
  \<^verbatim>\<open>begin(write=True)\<close> with no parent, or with a parent transaction that is still
  valid, raises the engine error of \<^verbatim>\<open>make_trans\<close> and leaves the state as it was: no
  object is made and the engine is not called.
\<close>

theorem C10_readonly_env_refuses_write:
  "get_env s e = Some (ob, ev) \<and> valid ob \<and> readonly ev \<and> b_write arg = Some True \<and>
   (case b_parent arg of
      None \<Rightarrow> True
    | Some p \<Rightarrow> (case get_trans s p of Some (po, pt) \<Rightarrow> valid po | None \<Rightarrow> False)) \<longrightarrow>
   env_begin X e (Inr arg) s =
     (Inl (EngineError ''Cannot start write transaction with read-only env'' 0), s)"
  by (auto simp: env_begin_def make_trans_def parse_args_def or_default_def
           split: option.splits)

theorem C10_witness:
  "get_env (demo_env True []) 0 = Some (env_obj True (Some 1), \<lparr>env = Some 100, main_db = Some 1, readonly = True\<rparr>) \<and>
   valid (env_obj True (Some 1)) \<and>
   env_begin X0 0 (Inr \<lparr>b_buffers = None, b_write = Some True, b_parent = None\<rparr>) (demo_env True []) =
     (Inl (EngineError ''Cannot start write transaction with read-only env'' 0), demo_env True [])"
proof -
  have g: "get_env (demo_env True []) 0 =
             Some (env_obj True (Some 1), \<lparr>env = Some 100, main_db = Some 1, readonly = True\<rparr>)"
    by (simp add: demo_env_eq get_env_def env_obj_def)
  have v: "valid (env_obj True (Some 1))"
    by (simp add: env_obj_def)
  have "env_begin X0 0 (Inr \<lparr>b_buffers = None, b_write = Some True, b_parent = None\<rparr>)
          (demo_env True []) =
        (Inl (EngineError ''Cannot start write transaction with read-only env'' 0), demo_env True [])"
    using C10_readonly_env_refuses_write
            [of "demo_env True []" 0 "env_obj True (Some 1)"
                "\<lparr>env = Some 100, main_db = Some 1, readonly = True\<rparr>"
                "\<lparr>b_buffers = None, b_write = Some True, b_parent = None\<rparr>" X0] g v
    by simp
  with g v show ?thesis by blast
qed

text \<open>
  C10 as stated fails on an environment opened read-only and then closed:
  \<^verbatim>\<open>begin(write=True)\<close> raises the invalid-handle error, not the engine error.
\<close>

theorem C10_counterexample:
  "env_close X0 2 0 (demo_env True [reply 0]) = Some (Inr Py_None, demo_closed True []) \<and>
   env_begin X0 0 (Inr \<lparr>b_buffers = None, b_write = Some True, b_parent = None\<rparr>)
     (demo_closed True []) = (Inl InvalidHandle, demo_closed True [])"
proof -
  have "env_begin X0 0 (Inr \<lparr>b_buffers = None, b_write = Some True, b_parent = None\<rparr>)
     (demo_closed True []) = (Inl InvalidHandle, demo_closed True [])"
    by (simp add: demo_closed_eq [THEN conjunct2] env_begin_def get_env_def parse_args_def
          env_obj_def)
  with demo_closed_eq [THEN conjunct1, of True "[]"] show ?thesis by blast
qed

text \<open>
  The constructor of Transaction never reaches \<^verbatim>\<open>make_trans\<close>: it raises
  \<^verbatim>\<open>TypeError\<close> whatever it is given.
\<close>

lemma trans_new_always_raises:
  "trans_new X a s = (Inl (TypeError (quoted ''env'' @ '' argument required'')), s)"
  by (simp add: trans_new_def)

text \<open>
  C7 (as amended). \<^verbatim>\<open>count()\<close> on a valid cursor makes one call to \<^verbatim>\<open>mdb_cursor_count\<close>
  and returns what the engine reports: the count when the call succeeds, an engine
  error when it fails. The \<^verbatim>\<open>positioned\<close> flag of the cursor is not looked at, so the
  result for an unpositioned cursor is the engine's, not a 0 of the wrapper.
\<close>

theorem C7_count_is_the_engines:
  "get_cursor s c = Some (ob, cv) \<and> valid ob \<longrightarrow>
   new_calls s (snd (cursor_count X c s)) =
     [(Mdb_cursor_count (curs cv), fst (mdb X (Mdb_cursor_count (curs cv)) (engine s)))] \<and>
   fst (cursor_count X c s) =
     (if rc (fst (mdb X (Mdb_cursor_count (curs cv)) (engine s))) \<noteq> 0
      then Inl (EngineError ''mdb_cursor_count''
                 (rc (fst (mdb X (Mdb_cursor_count (curs cv)) (engine s)))))
      else Inr (PyLong (out_count (fst (mdb X (Mdb_cursor_count (curs cv)) (engine s)))))) \<and>
   fst (cursor_count X c (upd c (map_cursor (\<lambda>cv. cv\<lparr>positioned := p\<rparr>)) s)) =
     fst (cursor_count X c s)"
  by (auto simp: cursor_count_def case_prod_beta get_cursor_def upd_def map_cursor_def
           split: option.splits body.splits)

lemma demo_cursor_count:
  "cursor_count X0 3 (demo_cursor False [r]) =
     (if rc r \<noteq> 0 then Inl (EngineError ''mdb_cursor_count'' (rc r)) else Inr (PyLong (out_count r)),
      (demo_cursor False [])\<lparr>trace := trace (demo_cursor False []) @
                                 [(Mdb_cursor_count (Some 103), r)]\<rparr>)"
  by (simp add: cursor_count_def demo_cursor_eq
        env_obj_def db_obj_def txn_obj_def cursor_obj_def run_defs)

theorem C7_witness:
  "get_cursor (demo_cursor False [(reply 0)\<lparr>out_count := 3\<rparr>]) 3 =
     Some (cursor_obj, \<lparr>trans = Some 2, positioned = False, curs = Some 103, key_buf = None,
                     val_buf = None, item_tup = None, key = [], val = []\<rparr>) \<and>
   valid cursor_obj \<and>
   fst (cursor_count X0 3 (demo_cursor False [(reply 0)\<lparr>out_count := 3\<rparr>])) = Inr (PyLong 3) \<and>
   fst (cursor_count X0 3
          (upd 3 (map_cursor (\<lambda>cv. cv\<lparr>positioned := True\<rparr>))
             (demo_cursor False [(reply 0)\<lparr>out_count := 3\<rparr>]))) = Inr (PyLong 3)"
proof -
  have g: "get_cursor (demo_cursor False [(reply 0)\<lparr>out_count := 3\<rparr>]) 3 =
     Some (cursor_obj, \<lparr>trans = Some 2, positioned = False, curs = Some 103, key_buf = None,
                     val_buf = None, item_tup = None, key = [], val = []\<rparr>)"
    by (simp add: demo_cursor_eq get_cursor_def cursor_obj_def)
  have v: "valid cursor_obj"
    by (simp add: cursor_obj_def)
  have r: "fst (cursor_count X0 3 (demo_cursor False [(reply 0)\<lparr>out_count := 3\<rparr>])) = Inr (PyLong 3)"
    by (simp add: demo_cursor_count reply_def)
  from C7_count_is_the_engines
         [of "demo_cursor False [(reply 0)\<lparr>out_count := 3\<rparr>]" 3 cursor_obj _ X0 True] g v r
  have "fst (cursor_count X0 3
          (upd 3 (map_cursor (\<lambda>cv. cv\<lparr>positioned := True\<rparr>))
             (demo_cursor False [(reply 0)\<lparr>out_count := 3\<rparr>]))) = Inr (PyLong 3)"
    by simp
  with g v r show ?thesis by blast
qed

text \<open>
  C7 as stated fails: on a cursor that has just been opened, and so is not positioned,
  \<^verbatim>\<open>count()\<close> raises when the engine answers \<^verbatim>\<open>mdb_cursor_count\<close> with \<^verbatim>\<open>EINVAL\<close>, which
  is LMDB's answer for a cursor that is not initialised.
\<close>

theorem C7_counterexample:
  "cursor_fld (\<lambda>c. Some (positioned c)) (demo_cursor False [reply 22]) 3 = Some False \<and>
   EINVAL X0 = 22 \<and>
   fst (cursor_count X0 3 (demo_cursor False [reply 22])) =
     Inl (EngineError ''mdb_cursor_count'' 22)"
  by (simp add: demo_cursor_count X0_consts)
     (simp add: demo_cursor_eq cursor_fld_def get_cursor_def cursor_obj_def)

subsection \<open>Iterating\<close>

lemma found_simps [simp]:
  "rc (found k v) = 0" "out_key (found k v) = k" "out_val (found k v) = v"
  by (simp_all add: found_def)





subsection \<open>The batch of \<^verbatim>\<open>env_puts\<close>\<close>








lemma put_results_put [simp]:
  "put_results ((Mdb_put tx di k v F, r) # cs) =
     (if rc r = 0 then Py_True else Py_False) # put_results cs"
  by (simp add: put_results_def List.map_filter_def)

lemma put_results_Nil [simp]: "put_results [] = []"
  by (simp add: put_results_def List.map_filter_def)










subsection \<open>Validity is never given back\<close>

lemma keeps_refl [simp]: "keeps s s a"
  by (simp add: keeps_def split: option.splits)

lemma keeps_trans: "keeps s s1 a \<Longrightarrow> keeps s1 s2 a \<Longrightarrow> keeps s s2 a"
  by (auto simp: keeps_def split: option.splits)

lemma keeps_heap_eq: "keeps s s1 a \<Longrightarrow> heap s2 = heap s1 \<Longrightarrow> keeps s s2 a"
  by (simp add: keeps_def split: option.splits)

lemma keeps_UNLOCKED: "keeps s s1 a \<Longrightarrow> keeps s (snd (UNLOCKED X c s1)) a"
  by (erule keeps_heap_eq) simp

text \<open>A field write that leaves the type alone and does not set \<^verbatim>\<open>valid\<close>.\<close>

definition tame :: "(lmdb_object \<Rightarrow> lmdb_object) \<Rightarrow> bool" where
  "tame f = (\<forall>ob. kind_of (body (f ob)) = kind_of (body ob) \<and> (valid (f ob) \<longrightarrow> valid ob))"

lemma keeps_upd: "keeps s s1 a \<Longrightarrow> tame f \<Longrightarrow> keeps s (upd b f s1) a"
  by (auto simp: keeps_def upd_def tame_def split: option.splits)

lemma tame_simps [simp]:
  "tame (\<lambda>ob. ob\<lparr>siblings_prev := p\<rparr>)" "tame (\<lambda>ob. ob\<lparr>siblings_next := q\<rparr>)"
  "tame (\<lambda>ob. ob\<lparr>children_next := q\<rparr>)" "tame (\<lambda>ob. ob\<lparr>children_prev := q\<rparr>)"
  "tame (\<lambda>ob. ob\<lparr>siblings_prev := p, siblings_next := q\<rparr>)"
  "tame (\<lambda>ob. ob\<lparr>valid := False\<rparr>)"
  "tame (map_env fe)" "tame (map_db fd)" "tame (map_trans ft)" "tame (map_cursor fc)"
  by (auto simp: tame_def map_env_def map_db_def map_trans_def map_cursor_def
           split: body.splits)

lemma keeps_unlink_child: "keeps s s1 a \<Longrightarrow> keeps s (unlink_child p c s1) a"
  by (simp add: unlink_child_def Let_def split: option.splits)
     (intro conjI impI allI keeps_upd tame_simps; assumption)

lemma keeps_db_clear: "keeps s s1 a \<Longrightarrow> keeps s (db_clear c s1) a"
  by (simp add: db_clear_def Let_def split: option.splits prod.splits)
     (intro conjI impI allI keeps_upd keeps_unlink_child tame_simps; assumption)

lemma keeps_invalidate_loop:
  assumes "\<And>c s1 s2. clear c s1 = Some s2 \<Longrightarrow> keeps s1 s2 a"
  shows "invalidate_loop clear k child s = Some s' \<Longrightarrow> keeps s s' a"
proof (induction k arbitrary: child s)
  case 0
  then show ?case by (cases child) simp_all
next
  case (Suc k)
  show ?case
  proof (cases child)
    case None
    with Suc.prems show ?thesis by simp
  next
    case (Some c)
    with Suc.prems obtain s1 where c: "clear c s = Some s1"
      and l: "invalidate_loop clear k (rd siblings_next s c) s1 = Some s'"
      by (auto simp: Let_def split: option.splits)
    from keeps_trans [OF assms [OF c] Suc.IH [OF l]] show ?thesis .
  qed
qed

lemma keeps_env_clear_with:
  assumes "\<And>p s1 s2. INV p s1 = Some s2 \<Longrightarrow> keeps s1 s2 a"
  shows "env_clear_with INV X self s = Some s' \<Longrightarrow> keeps s s' a"
  by (auto simp: env_clear_with_def split: if_splits option.splits
           intro!: keeps_upd keeps_UNLOCKED dest: assms)

lemma keeps_cursor_clear_with:
  assumes "\<And>p s1 s2. INV p s1 = Some s2 \<Longrightarrow> keeps s1 s2 a"
  shows "cursor_clear_with INV X self s = Some s' \<Longrightarrow> keeps s s' a"
  by (auto simp: cursor_clear_with_def Let_def split: if_splits option.splits
           intro!: keeps_upd keeps_UNLOCKED keeps_unlink_child dest: assms)

lemma keeps_trans_clear_with:
  assumes "\<And>p s1 s2. INV p s1 = Some s2 \<Longrightarrow> keeps s1 s2 a"
  shows "trans_clear_with INV X self s = Some s' \<Longrightarrow> keeps s s' a"
  by (auto simp: trans_clear_with_def Let_def split: if_splits option.splits
           intro!: keeps_upd keeps_UNLOCKED keeps_unlink_child dest: assms)

lemma keeps_tp_clear: "tp_clear X n c s = Some s' \<Longrightarrow> keeps s s' a"
proof (induction n arbitrary: c s s')
  case 0
  then show ?case by simp
next
  case (Suc n)
  have inv: "keeps s1 s2 a"
    if "invalidate_loop (tp_clear X n) n (rd children_next s1 p) s1 = Some s2" for p s1 s2
    using that by (rule keeps_invalidate_loop [rotated]) (rule Suc.IH)
  show ?case
  proof (cases "heap s c")
    case None
    with Suc.prems show ?thesis by (simp add: Let_def)
  next
    case (Some ob)
    show ?thesis
    proof (cases "body ob")
      case (Env x)
      with Suc.prems Some show ?thesis
        by (simp add: Let_def) (erule keeps_env_clear_with [rotated], erule inv)
    next
      case (Db x)
      with Suc.prems Some show ?thesis
        by (auto simp: Let_def intro: keeps_db_clear)
    next
      case (Trans x)
      with Suc.prems Some show ?thesis
        by (simp add: Let_def) (erule keeps_trans_clear_with [rotated], erule inv)
    next
      case (Cursor x)
      with Suc.prems Some show ?thesis
        by (simp add: Let_def) (erule keeps_cursor_clear_with [rotated], erule inv)
    qed
  qed
qed

lemma keeps_invalidate: "invalidate X n p s = Some s' \<Longrightarrow> keeps s s' a"
  unfolding invalidate_def
  by (erule keeps_invalidate_loop [rotated]) (erule keeps_tp_clear)

subsection \<open>Terminal operations\<close>

lemma keeps_get_trans:
  "keeps s s1 t \<Longrightarrow> get_trans s t = Some (ob, tv) \<Longrightarrow> \<exists>ob1 tv1. get_trans s1 t = Some (ob1, tv1)"
  by (auto simp: keeps_def get_trans_def split: option.splits body.splits)

lemma keeps_get_env:
  "keeps s s1 e \<Longrightarrow> get_env s e = Some (ob, ev) \<Longrightarrow> \<exists>ob1 ev1. get_env s1 e = Some (ob1, ev1)"
  by (auto simp: keeps_def get_env_def split: option.splits body.splits)

lemma get_trans_UNLOCKED [simp]: "get_trans (snd (UNLOCKED X c s)) = get_trans s"
  by (rule ext) (simp add: get_trans_def)

lemma get_env_UNLOCKED [simp]: "get_env (snd (UNLOCKED X c s)) = get_env s"
  by (rule ext) (simp add: get_env_def)

lemma trans_fld_UNLOCKED [simp]: "trans_fld f (snd (UNLOCKED X c s)) = trans_fld f s"
  by (rule ext) (simp add: trans_fld_def)

lemma env_fld_UNLOCKED [simp]: "env_fld f (snd (UNLOCKED X c s)) = env_fld f s"
  by (rule ext) (simp add: env_fld_def)

text \<open>The state in which \<^verbatim>\<open>trans_abort\<close> and \<^verbatim>\<open>trans_commit\<close> leave the transaction.\<close>

lemma trans_finished:
  assumes "get_trans s1 t = Some (ob1, tv1)"
  shows "\<exists>ob2 tv2. get_trans (upd t (\<lambda>ob. ob\<lparr>valid := False\<rparr>)
                                (upd t (map_trans (\<lambda>t. t\<lparr>txn := None\<rparr>)) s1)) t = Some (ob2, tv2) \<and>
                   \<not> valid ob2"
  using assms
  by (auto simp: get_trans_def upd_def map_trans_def split: option.splits body.splits)

lemma env_finished:
  assumes "get_env s1 e = Some (ob1, ev1)"
  shows "\<exists>ob2 ev2. get_env (upd e (map_env (\<lambda>e. e\<lparr>env := None\<rparr>))
                              (snd (UNLOCKED X c (upd e (\<lambda>ob. ob\<lparr>valid := False\<rparr>) s1)))) e =
                      Some (ob2, ev2) \<and> \<not> valid ob2"
  using assms
  by (auto simp: get_env_def upd_def map_env_def split: option.splits body.splits)

lemma trans_abort_finishes:
  assumes g: "get_trans s t = Some (ob, tv)" and r: "trans_abort X n t s = Some (r, s')"
  shows "\<exists>ob' tv'. get_trans s' t = Some (ob', tv') \<and> \<not> valid ob'"
proof (cases "valid ob")
  case False
  with g r show ?thesis by (auto simp: trans_abort_def)
next
  case True
  with g r obtain s1 where i: "invalidate X n t s = Some s1"
    and s': "s' = upd t (\<lambda>ob. ob\<lparr>valid := False\<rparr>)
                    (upd t (map_trans (\<lambda>t. t\<lparr>txn := None\<rparr>))
                       (snd (UNLOCKED X (Mdb_txn_abort (trans_fld txn s1 t)) s1)))"
    by (auto simp: trans_abort_def Let_def split: option.splits)
  from keeps_get_trans [OF keeps_invalidate [OF i] g] obtain ob1 tv1 where
    "get_trans s1 t = Some (ob1, tv1)" by blast
  then have "get_trans (snd (UNLOCKED X (Mdb_txn_abort (trans_fld txn s1 t)) s1)) t =
               Some (ob1, tv1)"
    by simp
  from trans_finished [OF this] show ?thesis
    unfolding s' .
qed

lemma trans_commit_finishes:
  assumes g: "get_trans s t = Some (ob, tv)" and r: "trans_commit X n t s = Some (r, s')"
  shows "\<exists>ob' tv'. get_trans s' t = Some (ob', tv') \<and> \<not> valid ob'"
proof (cases "valid ob")
  case False
  with g r show ?thesis by (auto simp: trans_commit_def)
next
  case True
  with g r obtain s1 where i: "invalidate X n t s = Some s1"
    and s': "s' = upd t (\<lambda>ob. ob\<lparr>valid := False\<rparr>)
                    (upd t (map_trans (\<lambda>t. t\<lparr>txn := None\<rparr>))
                       (snd (UNLOCKED X (Mdb_txn_commit (trans_fld txn s1 t)) s1)))"
    by (auto simp: trans_commit_def Let_def case_prod_beta split: option.splits if_splits)
  from keeps_get_trans [OF keeps_invalidate [OF i] g] obtain ob1 tv1 where
    "get_trans s1 t = Some (ob1, tv1)" by blast
  then have "get_trans (snd (UNLOCKED X (Mdb_txn_commit (trans_fld txn s1 t)) s1)) t =
               Some (ob1, tv1)"
    by simp
  from trans_finished [OF this] show ?thesis
    unfolding s' .
qed

lemma env_close_finishes:
  assumes g: "get_env s e = Some (ob, ev)" and r: "env_close X n e s = Some (r, s')"
  shows "\<exists>ob' ev'. get_env s' e = Some (ob', ev') \<and> \<not> valid ob'"
proof (cases "valid ob")
  case False
  with g r show ?thesis by (auto simp: env_close_def)
next
  case True
  with g r obtain s1 where i: "invalidate X n e s = Some s1"
    and s': "s' = upd e (map_env (\<lambda>e. e\<lparr>env := None\<rparr>))
                    (snd (UNLOCKED X
                            (Mdb_env_close
                               (env_fld env (upd e (\<lambda>ob. ob\<lparr>valid := False\<rparr>) s1) e))
                            (upd e (\<lambda>ob. ob\<lparr>valid := False\<rparr>) s1)))"
    by (auto simp: env_close_def Let_def split: option.splits)
  from keeps_get_env [OF keeps_invalidate [OF i] g] obtain ob1 ev1 where
    "get_env s1 e = Some (ob1, ev1)" by blast
  from env_finished [OF this] show ?thesis
    unfolding s' .
qed

lemma invalidate_childless:
  "rd children_next s p = None \<Longrightarrow> invalidate X n p s = Some s"
  by (cases n) (simp_all add: invalidate_def)

lemma new_calls_upd [simp]: "new_calls s (upd a f s1) = new_calls s s1"
  by (simp add: new_calls_def)

lemma engine_upd [simp]: "engine (upd a f s) = engine s"
  by (simp add: upd_def split: option.splits)

text \<open>
  C5. A terminal operation called a second time on the same handle.
  \<^item> After \<^verbatim>\<open>commit\<close>, \<^verbatim>\<open>abort\<close> or \<^verbatim>\<open>__exit__\<close> has returned on a transaction, each of
    the three raises the invalid-handle error, for any fuel, and returns the state as it
    found it: the trace is the same, so the engine is not called.
  \<^item> After \<^verbatim>\<open>close\<close> has returned on an environment, \<^verbatim>\<open>close\<close> returns \<^verbatim>\<open>None\<close> and the
    state as it found it.
  \<^item> The first call on a valid handle without children returns, and makes the one
    engine call that releases the handle: \<^verbatim>\<open>mdb_txn_abort\<close>, \<^verbatim>\<open>mdb_txn_commit\<close> or
    \<^verbatim>\<open>mdb_env_close\<close>.
\<close>

theorem C5_second_terminal_call_is_safe:
  "(get_trans s t = Some (ob, tv) \<and>
    (trans_commit X n t s = Some (r, s') \<or> trans_abort X n t s = Some (r, s') \<or>
     trans_exit X n t ex s = Some (r, s')) \<longrightarrow>
      trans_commit X m t s' = Some (Inl InvalidHandle, s') \<and>
      trans_abort X m t s' = Some (Inl InvalidHandle, s') \<and>
      trans_exit X m t ex' s' = Some (Inl InvalidHandle, s')) \<and>
   (get_env s e = Some (eob, ev) \<and> env_close X n e s = Some (r, s') \<longrightarrow>
      env_close X m e s' = Some (Inr Py_None, s')) \<and>
   (get_trans s t = Some (ob, tv) \<and> valid ob \<and> children_next ob = None \<longrightarrow>
      (\<exists>s1. trans_abort X n t s = Some (Inr Py_None, s1) \<and>
            new_calls s s1 =
              [(Mdb_txn_abort (txn tv), fst (mdb X (Mdb_txn_abort (txn tv)) (engine s)))]) \<and>
      (\<exists>s1. trans_commit X n t s =
              Some (if rc (fst (mdb X (Mdb_txn_commit (txn tv)) (engine s))) \<noteq> 0
                    then Inl (EngineError ''mdb_txn_commit''
                                (rc (fst (mdb X (Mdb_txn_commit (txn tv)) (engine s)))))
                    else Inr Py_None, s1) \<and>
            new_calls s s1 =
              [(Mdb_txn_commit (txn tv), fst (mdb X (Mdb_txn_commit (txn tv)) (engine s)))])) \<and>
   (get_env s e = Some (eob, ev) \<and> valid eob \<and> children_next eob = None \<longrightarrow>
      (\<exists>s1. env_close X n e s = Some (Inr Py_None, s1) \<and>
            new_calls s s1 =
              [(Mdb_env_close (env ev), fst (mdb X (Mdb_env_close (env ev)) (engine s)))]))"
proof (intro conjI impI; elim conjE)
  assume g: "get_trans s t = Some (ob, tv)"
    and f: "trans_commit X n t s = Some (r, s') \<or> trans_abort X n t s = Some (r, s') \<or>
            trans_exit X n t ex s = Some (r, s')"
  from f have "trans_commit X n t s = Some (r, s') \<or> trans_abort X n t s = Some (r, s') \<or>
               (\<not> valid ob \<and> s' = s)"
    using g by (auto simp: trans_exit_def split: if_splits)
  then obtain ob' tv' where i: "get_trans s' t = Some (ob', tv')" "\<not> valid ob'"
    using trans_commit_finishes [OF g] trans_abort_finishes [OF g] g by blast
  show "trans_commit X m t s' = Some (Inl InvalidHandle, s')"
    using i by (simp add: trans_commit_def)
  show "trans_abort X m t s' = Some (Inl InvalidHandle, s')"
    using i by (simp add: trans_abort_def)
  show "trans_exit X m t ex' s' = Some (Inl InvalidHandle, s')"
    using i by (simp add: trans_exit_def)
next
  assume g: "get_env s e = Some (eob, ev)" and f: "env_close X n e s = Some (r, s')"
  from env_close_finishes [OF g f] show "env_close X m e s' = Some (Inr Py_None, s')"
    by (auto simp: env_close_def)
next
  assume g: "get_trans s t = Some (ob, tv)" and v: "valid ob" and c: "children_next ob = None"
  from g c have "rd children_next s t = None"
    by (auto simp: rd_def get_trans_def split: option.splits body.splits)
  note i = invalidate_childless [OF this, of X n]
  from g have tx: "trans_fld txn s t = txn tv"
    by (simp add: trans_fld_def)
  show "\<exists>s1. trans_abort X n t s = Some (Inr Py_None, s1) \<and>
            new_calls s s1 =
              [(Mdb_txn_abort (txn tv), fst (mdb X (Mdb_txn_abort (txn tv)) (engine s)))]"
    using g v by (simp add: trans_abort_def i tx Let_def)
  show "\<exists>s1. trans_commit X n t s =
              Some (if rc (fst (mdb X (Mdb_txn_commit (txn tv)) (engine s))) \<noteq> 0
                    then Inl (EngineError ''mdb_txn_commit''
                                (rc (fst (mdb X (Mdb_txn_commit (txn tv)) (engine s)))))
                    else Inr Py_None, s1) \<and>
            new_calls s s1 =
              [(Mdb_txn_commit (txn tv), fst (mdb X (Mdb_txn_commit (txn tv)) (engine s)))]"
    using g v by (simp add: trans_commit_def i tx Let_def case_prod_beta)
next
  assume g: "get_env s e = Some (eob, ev)" and v: "valid eob" and c: "children_next eob = None"
  from g c have "rd children_next s e = None"
    by (auto simp: rd_def get_env_def split: option.splits body.splits)
  note i = invalidate_childless [OF this, of X n]
  from g have ev: "env_fld env (upd e (\<lambda>ob. ob\<lparr>valid := False\<rparr>) s) e = env ev"
    by (auto simp: env_fld_def get_env_def upd_def split: option.splits body.splits)
  show "\<exists>s1. env_close X n e s = Some (Inr Py_None, s1) \<and>
            new_calls s s1 =
              [(Mdb_env_close (env ev), fst (mdb X (Mdb_env_close (env ev)) (engine s)))]"
    using g v by (simp add: env_close_def i ev Let_def new_calls_def)
qed

lemma demo_aborted_eq:
  "trans_abort X0 2 2 (demo_cursor False (reply 0 # reply 0 # rest)) =
     Some (Inr Py_None, demo_aborted rest) \<and>
   demo_aborted rest =
     \<lparr>heap = [0 \<mapsto> env_obj False (Some 2), 1 \<mapsto> db_obj (Some 2),
              2 \<mapsto> (txn_obj None)\<lparr>valid := False,
                     body := Trans \<lparr>t_env = Some 0, txn = None, buffers = False, t_key_buf = None\<rparr>\<rparr>,
              3 \<mapsto> cursor_obj\<lparr>valid := False,
                     body := Cursor \<lparr>trans = None, positioned = False, curs = Some 103,
                                     key_buf = None, val_buf = None, item_tup = None,
                                     key = [], val = []\<rparr>\<rparr>],
      next_addr = 4, engine = rest,
      trace = trace (demo_cursor False []) @
              [(Mdb_cursor_close (Some 103), reply 0), (Mdb_txn_abort (Some 102), reply 0)]\<rparr>"
  by (auto simp: demo_aborted_def trans_abort_def invalidate_def numeral_2_eq_2
        cursor_clear_with_def demo_cursor_eq
        env_obj_def db_obj_def txn_obj_def cursor_obj_def run_defs)

lemma demo_committed_eq:
  "trans_commit X0 0 2 (demo_txn False (reply 0 # rest)) =
     Some (Inr Py_None, demo_committed rest) \<and>
   demo_committed rest =
     \<lparr>heap = [0 \<mapsto> env_obj False (Some 2), 1 \<mapsto> db_obj (Some 2),
              2 \<mapsto> (txn_obj None)\<lparr>valid := False,
                     body := Trans \<lparr>t_env = Some 0, txn = None, buffers = False, t_key_buf = None\<rparr>\<rparr>],
      next_addr = 3, engine = rest,
      trace = trace (demo_txn False []) @ [(Mdb_txn_commit (Some 102), reply 0)]\<rparr>"
  by (auto simp: demo_committed_def trans_commit_def invalidate_def
        demo_txn_eq env_obj_def db_obj_def txn_obj_def run_defs)

theorem C5_witness:
  "get_trans (demo_cursor False [reply 0, reply 0]) 2 =
     Some (txn_obj (Some 3),
           \<lparr>t_env = Some 0, txn = Some 102, buffers = False, t_key_buf = None\<rparr>) \<and>
   trans_abort X0 2 2 (demo_cursor False [reply 0, reply 0]) =
     Some (Inr Py_None, demo_aborted []) \<and>
   new_calls (demo_cursor False [reply 0, reply 0]) (demo_aborted []) =
     [(Mdb_cursor_close (Some 103), reply 0), (Mdb_txn_abort (Some 102), reply 0)] \<and>
   trans_abort X0 0 2 (demo_aborted []) = Some (Inl InvalidHandle, demo_aborted []) \<and>
   trans_commit X0 0 2 (demo_aborted []) = Some (Inl InvalidHandle, demo_aborted []) \<and>
   trans_exit X0 0 2 Py_None (demo_aborted []) = Some (Inl InvalidHandle, demo_aborted []) \<and>
   get_trans (demo_txn False [reply 0]) 2 =
     Some (txn_obj None, \<lparr>t_env = Some 0, txn = Some 102, buffers = False, t_key_buf = None\<rparr>) \<and>
   trans_commit X0 0 2 (demo_txn False [reply 0]) = Some (Inr Py_None, demo_committed []) \<and>
   new_calls (demo_txn False [reply 0]) (demo_committed []) =
     [(Mdb_txn_commit (Some 102), reply 0)] \<and>
   trans_commit X0 0 2 (demo_committed []) = Some (Inl InvalidHandle, demo_committed []) \<and>
   trans_abort X0 0 2 (demo_committed []) = Some (Inl InvalidHandle, demo_committed []) \<and>
   get_env (demo_env False [reply 0]) 0 =
     Some (env_obj False (Some 1), \<lparr>env = Some 100, main_db = Some 1, readonly = False\<rparr>) \<and>
   env_close X0 2 0 (demo_env False [reply 0]) = Some (Inr Py_None, demo_closed False []) \<and>
   new_calls (demo_env False [reply 0]) (demo_closed False []) =
     [(Mdb_env_close (Some 100), reply 0)] \<and>
   env_close X0 0 0 (demo_closed False []) = Some (Inr Py_None, demo_closed False [])"
proof -
  let ?tv = "\<lparr>t_env = Some 0, txn = Some 102, buffers = False, t_key_buf = None\<rparr>"
  let ?ev = "\<lparr>env = Some 100, main_db = Some 1, readonly = False\<rparr>"
  have g1: "get_trans (demo_cursor False [reply 0, reply 0]) 2 = Some (txn_obj (Some 3), ?tv)"
    by (simp add: demo_cursor_eq get_trans_def txn_obj_def)
  note r1 = demo_aborted_eq [THEN conjunct1, of "[]"]
  have n1: "new_calls (demo_cursor False [reply 0, reply 0]) (demo_aborted []) =
     [(Mdb_cursor_close (Some 103), reply 0), (Mdb_txn_abort (Some 102), reply 0)]"
    by (simp add: new_calls_def demo_aborted_eq [THEN conjunct2] demo_cursor_trace)
  note a = C5_second_terminal_call_is_safe
             [where s = "demo_cursor False [reply 0, reply 0]" and t = 2
                and ob = "txn_obj (Some 3)" and tv = ?tv and X = X0 and n = 2
                and r = "Inr Py_None" and s' = "demo_aborted []" and m = 0 and ex' = Py_None,
              THEN conjunct1, rule_format, OF conjI [OF g1 disjI2 [OF disjI1 [OF r1]]]]
  have g2: "get_trans (demo_txn False [reply 0]) 2 = Some (txn_obj None, ?tv)"
    by (rule demo_txn_handles)
  note r2 = demo_committed_eq [THEN conjunct1, of "[]"]
  have n2: "new_calls (demo_txn False [reply 0]) (demo_committed []) =
     [(Mdb_txn_commit (Some 102), reply 0)]"
    by (simp add: new_calls_def demo_committed_eq [THEN conjunct2] demo_txn_trace)
  note b = C5_second_terminal_call_is_safe
             [where s = "demo_txn False [reply 0]" and t = 2
                and ob = "txn_obj None" and tv = ?tv and X = X0 and n = 0
                and r = "Inr Py_None" and s' = "demo_committed []" and m = 0 and ex' = Py_None,
              THEN conjunct1, rule_format, OF conjI [OF g2 disjI1 [OF r2]]]
  have g3: "get_env (demo_env False [reply 0]) 0 = Some (env_obj False (Some 1), ?ev)"
    by (rule demo_env_handles)
  note r3 = demo_closed_eq [THEN conjunct1, of False "[]"]
  have n3: "new_calls (demo_env False [reply 0]) (demo_closed False []) =
     [(Mdb_env_close (Some 100), reply 0)]"
    by (simp add: new_calls_def demo_closed_eq [THEN conjunct2] demo_env_trace)
  note c = C5_second_terminal_call_is_safe
             [where s = "demo_env False [reply 0]" and X = X0 and n = 2 and r = "Inr Py_None"
                and s' = "demo_closed False []" and m = 0 and e = 0
                and eob = "env_obj False (Some 1)" and ev = ?ev,
              THEN conjunct2, THEN conjunct1, rule_format, OF conjI [OF g3 r3]]
  show ?thesis
    by (intro conjI g1 r1 n1 a [THEN conjunct1] a [THEN conjunct2, THEN conjunct1]
          a [THEN conjunct2, THEN conjunct2] g2 r2 n2 b [THEN conjunct1]
          b [THEN conjunct2, THEN conjunct1] g3 r3 n3 c)
qed

end
